theory Spec2Isabelle
  imports Complex_Main
begin

section \<open>Python values and errors\<close>

text \<open>
  The notebooks are Python 3 scripts. Exceptions are modelled as values of
  \<open>py_error\<close>; a computation that may raise returns \<open>py_error + 'a\<close>, with
  \<open>Inl\<close> for the raised exception.

  Numbers: the scalar arithmetic that Python itself performs (the division of
  the learning schedule, the constants \<open>0.1\<close> and \<open>2/m\<close>) and the arithmetic of
  \<open>PGAgent.train\<close> are modelled in IEEE double precision, as defined in the next
  section. The array arithmetic of Chapter 04 (products and sums of NumPy
  arrays, whose order of summation rests with the linear algebra library) and
  the values handled by the Keras networks of \<open>DQNAgent\<close> are modelled over
  the reals, that is without rounding.
\<close>

datatype py_error =
    ZeroDivisionError
  | OverflowError
  | IndexError
  | ValueError
  | NameError string
  | FileExistsError
  | FileNotFoundError
  | IsADirectoryError
  | NotADirectoryError
  | LibraryError string

section \<open>Floating-point numbers\<close>

text \<open>
  A value of Python's \<open>float\<close> or of NumPy's \<open>float64\<close> is an IEEE 754 double:
  a finite number, an infinity or \<open>nan\<close>. The sign of zero is not modelled.
\<close>

datatype np_float = Finite real | PosInf | NegInf | NaN

fun is_finite :: "np_float \<Rightarrow> bool" where
  "is_finite (Finite x) = True"
| "is_finite PosInf = False"
| "is_finite NegInf = False"
| "is_finite NaN = False"

text \<open>
  Rounding to the nearest multiple of the unit in the last place, ties to the
  even multiple. A double has 53 significant bits; the exponent of a normal
  number is at least \<open>-1022\<close>, below that the spacing stays \<open>2\<^sup>-\<^sup>1\<^sup>0\<^sup>7\<^sup>4\<close>; a result
  of magnitude \<open>2\<^sup>1\<^sup>0\<^sup>2\<^sup>4\<close> or more is an infinity.
\<close>

definition round_even :: "real \<Rightarrow> int" where
  "round_even x =
     (let n = \<lfloor>x\<rfloor>
      in if x - of_int n < 1 / 2 then n
         else if 1 / 2 < x - of_int n then n + 1
         else if even n then n else n + 1)"

definition fl :: "real \<Rightarrow> np_float" where
  "fl x =
     (if x = 0 then Finite 0
      else
        (let e = max \<lfloor>log 2 \<bar>x\<bar>\<rfloor> (- 1022);
             u = 2 powr of_int (e - 52);
             r = of_int (round_even (x / u)) * u
         in if 2 ^ 1024 \<le> \<bar>r\<bar> then (if 0 < x then PosInf else NegInf) else Finite r))"

text \<open>A real number is a double when rounding leaves it unchanged.\<close>

definition is_double :: "real \<Rightarrow> bool" where
  "is_double x = (fl x = Finite x)"

text \<open>The arithmetic operations: the exact result, rounded; the IEEE rules otherwise.\<close>

fun fneg :: "np_float \<Rightarrow> np_float" where
  "fneg (Finite a) = Finite (- a)"
| "fneg PosInf = NegInf"
| "fneg NegInf = PosInf"
| "fneg NaN = NaN"

fun fadd :: "np_float \<Rightarrow> np_float \<Rightarrow> np_float" where
  "fadd (Finite a) (Finite b) = fl (a + b)"
| "fadd NaN y = NaN"
| "fadd x NaN = NaN"
| "fadd PosInf NegInf = NaN"
| "fadd NegInf PosInf = NaN"
| "fadd PosInf y = PosInf"
| "fadd NegInf y = NegInf"
| "fadd x PosInf = PosInf"
| "fadd x NegInf = NegInf"

definition fsub :: "np_float \<Rightarrow> np_float \<Rightarrow> np_float" where
  "fsub x y = fadd x (fneg y)"

definition signed_inf :: "bool \<Rightarrow> np_float" where
  "signed_inf positive = (if positive then PosInf else NegInf)"

fun fmul :: "np_float \<Rightarrow> np_float \<Rightarrow> np_float" where
  "fmul (Finite a) (Finite b) = fl (a * b)"
| "fmul NaN y = NaN"
| "fmul x NaN = NaN"
| "fmul (Finite a) PosInf = (if a = 0 then NaN else signed_inf (0 < a))"
| "fmul (Finite a) NegInf = (if a = 0 then NaN else signed_inf (a < 0))"
| "fmul PosInf (Finite b) = (if b = 0 then NaN else signed_inf (0 < b))"
| "fmul NegInf (Finite b) = (if b = 0 then NaN else signed_inf (b < 0))"
| "fmul PosInf PosInf = PosInf"
| "fmul PosInf NegInf = NegInf"
| "fmul NegInf PosInf = NegInf"
| "fmul NegInf NegInf = PosInf"

text \<open>
  Division does not raise in NumPy: a finite number divided by zero is \<open>nan\<close>
  when it is zero and an infinity of its sign otherwise.
\<close>

fun fdiv :: "np_float \<Rightarrow> np_float \<Rightarrow> np_float" where
  "fdiv (Finite a) (Finite b) =
     (if b = 0 then (if a = 0 then NaN else signed_inf (0 < a)) else fl (a / b))"
| "fdiv NaN y = NaN"
| "fdiv x NaN = NaN"
| "fdiv (Finite a) PosInf = Finite 0"
| "fdiv (Finite a) NegInf = Finite 0"
| "fdiv PosInf (Finite b) = signed_inf (0 \<le> b)"
| "fdiv NegInf (Finite b) = signed_inf (b < 0)"
| "fdiv PosInf PosInf = NaN"
| "fdiv PosInf NegInf = NaN"
| "fdiv NegInf PosInf = NaN"
| "fdiv NegInf NegInf = NaN"

fun fsqrt :: "np_float \<Rightarrow> np_float" where
  "fsqrt (Finite a) = (if a < 0 then NaN else fl (sqrt a))"
| "fsqrt PosInf = PosInf"
| "fsqrt NegInf = NaN"
| "fsqrt NaN = NaN"

subsection \<open>Rounding: evaluation and error\<close>

lemma round_even_of_int: "round_even (of_int n) = n"
  by (simp add: round_even_def)

lemma round_even_error: "\<bar>of_int (round_even x) - x\<bar> \<le> 1 / 2"
proof -
  have "of_int \<lfloor>x\<rfloor> \<le> x" and "x < of_int \<lfloor>x\<rfloor> + 1"
    by linarith+
  then show ?thesis
    by (auto simp add: round_even_def Let_def)
qed

lemma fl_zero: "fl 0 = Finite 0"
  by (simp add: fl_def)

lemma fl_normal:
  fixes x :: real and k :: nat
  assumes lo: "2 ^ 52 \<le> \<bar>x\<bar> * 2 ^ k" and hi: "\<bar>x\<bar> * 2 ^ k < 2 ^ 53" and k: "k \<le> 1074"
  shows "fl x = Finite (of_int (round_even (x * 2 ^ k)) / 2 ^ k)"
proof -
  have x0: "x \<noteq> 0" using lo by auto
  then have ax: "0 < \<bar>x\<bar>" by simp
  have p: "(2::real) powr of_int (52 - int k) = 2 ^ 52 / 2 ^ k"
    by (simp add: powr_diff powr_realpow)
  have p1: "(2::real) powr (of_int (52 - int k) + 1) = 2 ^ 53 / 2 ^ k"
    by (simp add: powr_add powr_diff powr_realpow)
  have "2 powr of_int (52 - int k) \<le> \<bar>x\<bar>" "\<bar>x\<bar> < 2 powr (of_int (52 - int k) + 1)"
    using lo hi unfolding p p1 by (simp_all add: field_simps)
  then have e: "\<lfloor>log 2 \<bar>x\<bar>\<rfloor> = 52 - int k"
    using ax by (subst floor_log_eq_powr_iff) simp_all
  have m: "max (52 - int k) (- 1022) = 52 - int k"
    using k by simp
  have u: "(2::real) powr - real k = 1 / 2 ^ k"
    by (simp add: powr_minus_divide powr_realpow)
  let ?n = "round_even (x * 2 ^ k)"
  have "\<bar>of_int ?n - x * 2 ^ k\<bar> \<le> 1 / 2"
    by (rule round_even_error)
  then have "\<bar>of_int ?n\<bar> \<le> \<bar>x * 2 ^ k\<bar> + 1 / 2"
    by linarith
  also have "\<dots> < 2 ^ 53 + 1 / 2"
    using hi by (simp add: abs_mult)
  finally have n: "\<bar>real_of_int ?n\<bar> < 2 ^ 53 + 1 / 2" .
  have "\<bar>real_of_int ?n\<bar> / 2 ^ k \<le> \<bar>real_of_int ?n\<bar> / 1"
    by (rule divide_left_mono) simp_all
  then have "\<bar>of_int ?n / 2 ^ k\<bar> \<le> \<bar>real_of_int ?n\<bar>"
    by (simp add: abs_divide)
  also have "\<dots> < 2 ^ 53 + 1 / 2"
    by (rule n)
  also have "\<dots> < (2::real) ^ 1024"
    by simp
  finally have small: "\<not> 2 ^ 1024 \<le> \<bar>real_of_int ?n / 2 ^ k\<bar>"
    by simp
  show ?thesis
    using x0 small by (simp add: fl_def e m u Let_def)
qed


lemma fl_subnormal:
  fixes x :: real
  assumes small: "\<bar>x\<bar> * 2 ^ 1074 < 2 ^ 52"
  shows "fl x = Finite (of_int (round_even (x * 2 ^ 1074)) / 2 ^ 1074)"
proof (cases "x = 0")
  case True
  then show ?thesis by (simp add: fl_def round_even_def)
next
  case False
  then have ax: "0 < \<bar>x\<bar>" by simp
  have "(2::real) powr (- 1022) = 2 ^ 52 / 2 ^ 1074"
    by (simp add: powr_neg_numeral)
  then have "\<bar>x\<bar> < 2 powr (- 1022)"
    using small by (simp add: field_simps)
  then have "log 2 \<bar>x\<bar> < - 1022"
    using ax by (simp add: less_powr_iff)
  then have "\<lfloor>log 2 \<bar>x\<bar>\<rfloor> < - 1022"
    by (simp add: floor_less_iff)
  then have m: "max \<lfloor>log 2 \<bar>x\<bar>\<rfloor> (- 1022) = - 1022"
    by simp
  have u: "(2::real) powr (- 1074) = 1 / 2 ^ 1074"
    by (simp add: powr_neg_numeral)
  let ?n = "round_even (x * 2 ^ 1074)"
  have "\<bar>of_int ?n - x * 2 ^ 1074\<bar> \<le> 1 / 2"
    by (rule round_even_error)
  then have "\<bar>of_int ?n\<bar> \<le> \<bar>x * 2 ^ 1074\<bar> + 1 / 2"
    by linarith
  also have "\<dots> < 2 ^ 52 + 1 / 2"
    using small by (simp add: abs_mult)
  finally have n: "\<bar>real_of_int ?n\<bar> < 2 ^ 52 + 1 / 2" .
  have "\<bar>real_of_int ?n\<bar> / 2 ^ 1074 \<le> \<bar>real_of_int ?n\<bar> / 1"
    by (rule divide_left_mono) simp_all
  then have "\<bar>of_int ?n / 2 ^ 1074\<bar> \<le> \<bar>real_of_int ?n\<bar>"
    by (simp add: abs_divide)
  also have "\<dots> < 2 ^ 52 + 1 / 2"
    by (rule n)
  also have "\<dots> < (2::real) ^ 1024"
    by simp
  finally have "\<not> 2 ^ 1024 \<le> \<bar>real_of_int ?n / 2 ^ 1074\<bar>"
    by simp
  then show ?thesis
    using False unfolding fl_def m Let_def by (simp add: u)
qed

lemma fl_eval:
  fixes x y :: real and k :: nat
  assumes "2 ^ 52 \<le> \<bar>x\<bar> * 2 ^ k" and "\<bar>x\<bar> * 2 ^ k < 2 ^ 53" and "k \<le> 1074"
    and "round_even (x * 2 ^ k) = n" and "y = of_int n / 2 ^ k"
  shows "fl x = Finite y"
  using fl_normal [OF assms(1-3)] assms(4,5) by simp

lemma fl_rel_error:
  fixes x :: real and k :: nat
  assumes pos: "0 < x" and lo: "2 ^ 52 \<le> x * 2 ^ k" and hi: "x * 2 ^ k < 2 ^ 53" and k: "k \<le> 1074"
  shows "\<exists>r. fl x = Finite r \<and> \<bar>r - x\<bar> \<le> x / 2 ^ 53"
proof -
  let ?n = "round_even (x * 2 ^ k)"
  let ?r = "of_int ?n / (2::real) ^ k"
  have eq: "fl x = Finite ?r"
    using lo hi k pos by (intro fl_normal) simp_all
  have "\<bar>of_int ?n - x * 2 ^ k\<bar> \<le> 1 / 2"
    by (rule round_even_error)
  then have "\<bar>of_int ?n - x * 2 ^ k\<bar> / 2 ^ k \<le> (1 / 2) / 2 ^ k"
    by (rule divide_right_mono) simp
  moreover have "\<bar>of_int ?n - x * 2 ^ k\<bar> / 2 ^ k = \<bar>?r - x\<bar>"
  proof -
    have "?r - x = (of_int ?n - x * 2 ^ k) / 2 ^ k"
      by (simp add: field_simps)
    then have "\<bar>?r - x\<bar> = \<bar>(of_int ?n - x * 2 ^ k) / 2 ^ k\<bar>"
      by simp
    also have "\<dots> = \<bar>of_int ?n - x * 2 ^ k\<bar> / \<bar>(2::real) ^ k\<bar>"
      by (rule abs_divide)
    finally show ?thesis by simp
  qed
  moreover have "(1 / 2) / 2 ^ k \<le> x / 2 ^ 53"
    using lo by (simp add: field_simps)
  ultimately have "\<bar>?r - x\<bar> \<le> x / 2 ^ 53"
    by linarith
  with eq show ?thesis by blast
qed

lemma binade_exists:
  fixes x :: real
  assumes lo: "1 / 2 ^ j \<le> x" and hi: "x < 1"
  shows "\<exists>k. k \<le> 52 + j \<and> 2 ^ 52 \<le> x * 2 ^ k \<and> x * 2 ^ k < 2 ^ 53"
proof -
  have pos: "0 < x"
    using lo by (meson divide_pos_pos less_le_trans zero_less_numeral zero_less_one zero_less_power)
  define e where "e = \<lfloor>log 2 x\<rfloor>"
  have b: "2 powr of_int e \<le> x" "x < 2 powr (of_int e + 1)"
    using pos floor_log_eq_powr_iff [of x 2 e] by (simp_all add: e_def)
  have "log 2 x < 0"
    using pos hi by simp
  then have eneg: "e < 0"
    by (simp add: e_def floor_less_iff)
  have "(1::real) / 2 ^ j = 2 powr (- real j)"
    by (simp add: powr_minus_divide powr_realpow)
  then have "2 powr (- real j) \<le> x"
    using lo by simp
  then have "- real j \<le> log 2 x"
    using pos by (simp add: powr_le_iff)
  then have elo: "- int j \<le> e"
    by (simp add: e_def le_floor_iff)
  define i where "i = nat (- e)"
  have e: "e = - int i" and ipos: "0 < i" and ij: "i \<le> j"
    using eneg elo by (simp_all add: i_def)
  have p: "(2::real) powr of_int e = 1 / 2 ^ i"
    by (simp add: e powr_minus_divide powr_realpow)
  have "(2::real) powr (of_int e + 1) = 2 powr of_int e * 2"
    by (simp add: powr_add)
  then have p1: "(2::real) powr (of_int e + 1) = 2 / 2 ^ i"
    by (simp add: p)
  have l: "1 \<le> x * 2 ^ i" and h: "x * 2 ^ i < 2"
    using b unfolding p p1 by (simp_all add: field_simps)
  have "2 ^ 52 \<le> x * 2 ^ (52 + i)" "x * 2 ^ (52 + i) < 2 ^ 53"
    using l h by (simp_all add: power_add)
  then show ?thesis
    using ij by (intro exI [of _ "52 + i"]) simp
qed

text \<open>
  Python's true division \<open>a / b\<close> on two \<open>int\<close> operands: the exact quotient,
  correctly rounded; \<open>OverflowError\<close> when it is too large for a \<open>float\<close>. A
  quotient too small for a \<open>float\<close> becomes \<open>0.0\<close>.
\<close>

definition py_truediv :: "int \<Rightarrow> int \<Rightarrow> py_error + real" where
  "py_truediv a b =
     (if b = 0 then Inl ZeroDivisionError
      else
        (case fl (real_of_int a / real_of_int b) of
           Finite r \<Rightarrow> Inr r
         | _ \<Rightarrow> Inl OverflowError))"

section \<open>Chapter 04: the learning schedule of stochastic gradient descent\<close>

text \<open>
  \<^verbatim>\<open>
  n_epochs = 50
  m = 100  # number of instances
  t0, t1 = 5, 50  # learning schedule parameters

  def learning_schedule(t):
      return t0 / (t + t1)
  ...
  for epoch in range(n_epochs):
      for i in range(m):
          ...
          eta = learning_schedule(epoch * m + i)
  \<close>
\<close>

definition n_epochs :: int where
  "n_epochs = 50"

definition m :: int where
  "m = 100"

definition t0 :: int where
  "t0 = 5"

definition t1 :: int where
  "t1 = 50"

definition learning_schedule :: "int \<Rightarrow> py_error + real" where
  "learning_schedule t = py_truediv t0 (t + t1)"

text \<open>The learning rate of inner step \<open>i\<close> of epoch \<open>epoch\<close>.\<close>

definition sgd_eta :: "int \<Rightarrow> int \<Rightarrow> py_error + real" where
  "sgd_eta epoch i = learning_schedule (epoch * m + i)"

text \<open>
  On the steps of a run, \<open>0 \<le> t < n_epochs * m\<close>, the schedule returns the
  quotient \<open>5 / (t + 50)\<close> with a relative rounding error of at most \<open>2\<^sup>-\<^sup>5\<^sup>3\<close>.
\<close>

lemma learning_schedule_rounding:
  fixes t :: int
  assumes "0 \<le> t" and "t < 5000"
  shows "\<exists>r. learning_schedule t = Inr r \<and>
    \<bar>r - 5 / (real_of_int t + 50)\<bar> \<le> 5 / (real_of_int t + 50) / 2 ^ 53"
proof -
  define x :: real where "x = 5 / (real_of_int t + 50)"
  have d: "0 < real_of_int t + 50" "real_of_int t + 50 < 5050"
    using assms by simp_all
  have lo: "1 / 2 ^ 10 \<le> x"
    using d by (simp add: x_def field_simps)
  have hi: "x < 1"
    using d assms(1) by (simp add: x_def field_simps)
  obtain k where k: "k \<le> 52 + 10" "2 ^ 52 \<le> x * 2 ^ k" "x * 2 ^ k < 2 ^ 53"
    using binade_exists [OF lo hi] by blast
  have pos: "0 < x"
    using d by (simp add: x_def)
  from k(1) have "k \<le> 1074" by simp
  from fl_rel_error [OF pos k(2) k(3) this]
  obtain r where r: "fl x = Finite r" "\<bar>r - x\<bar> \<le> x / 2 ^ 53"
    by blast
  have q: "real_of_int t0 / (real_of_int t + real_of_int t1) = x"
    by (simp add: x_def t0_def t1_def)
  have nz: "t + t1 \<noteq> 0"
    using assms(1) by (simp add: t1_def)
  have "learning_schedule t = Inr r"
    using nz by (simp add: learning_schedule_def py_truediv_def q r(1))
  then show ?thesis
    using r(2) by (auto simp add: x_def)
qed

lemma learning_schedule_positive:
  fixes t :: int
  assumes "0 \<le> t" and "t < 5000"
  shows "\<exists>r. learning_schedule t = Inr r \<and> 0 < r"
proof -
  obtain r where r: "learning_schedule t = Inr r"
      "\<bar>r - 5 / (real_of_int t + 50)\<bar> \<le> 5 / (real_of_int t + 50) / 2 ^ 53"
    using learning_schedule_rounding [OF assms] by blast
  define x :: real where "x = 5 / (real_of_int t + 50)"
  have pos: "0 < x"
    using assms(1) by (simp add: x_def)
  have "x / 2 ^ 53 < x"
    using pos by simp
  moreover have "\<bar>r - x\<bar> \<le> x / 2 ^ 53"
    using r(2) by (simp add: x_def)
  ultimately have "0 < r"
    by linarith
  with r(1) show ?thesis
    by blast
qed

lemma learning_schedule_decreasing:
  fixes a b :: int
  assumes "0 \<le> a" and "a < b" and "b < 5000"
  shows "\<exists>ra rb. learning_schedule a = Inr ra \<and> learning_schedule b = Inr rb \<and> rb < ra"
proof -
  define A :: real where "A = real_of_int a + 50"
  define B :: real where "B = real_of_int b + 50"
  have "a + 1 \<le> b"
    using assms(2) by simp
  then have "real_of_int (a + 1) \<le> real_of_int b"
    by (rule of_int_le_iff [THEN iffD2])
  then have AB: "A + 1 \<le> B"
    by (simp add: A_def B_def)
  have A: "50 \<le> A" "A < 5050"
    using assms by (simp_all add: A_def)
  have Apos: "0 < A" and Bpos: "0 < B"
    using A AB by simp_all
  have a5: "a < 5000" and b0: "0 \<le> b"
    using assms by simp_all
  obtain ra where ra: "learning_schedule a = Inr ra" "\<bar>ra - 5 / A\<bar> \<le> 5 / A / 2 ^ 53"
    using learning_schedule_rounding [OF assms(1) a5] by (auto simp add: A_def)
  obtain rb where rb: "learning_schedule b = Inr rb" "\<bar>rb - 5 / B\<bar> \<le> 5 / B / 2 ^ 53"
    using learning_schedule_rounding [OF b0 assms(3)] by (auto simp add: B_def)
  define eps :: real where "eps = 1 / 2 ^ 53"
  have eps: "0 < eps" "10101 * eps < 1"
    by (simp_all add: eps_def)
  have "2 * A * eps + eps < 10101 * eps"
    using A(2) eps(1) by (simp add: algebra_simps)
  then have "A * (1 + eps) < (A + 1) * (1 - eps)"
    using eps(2) by (simp add: algebra_simps)
  also have "\<dots> \<le> B * (1 - eps)"
    using AB eps(2) eps(1) by (simp add: mult_right_mono)
  finally have key: "A * (1 + eps) < B * (1 - eps)" .
  from key have "A * 5 + (A * (eps * 5) + B * (eps * 5)) < B * 5"
    by (simp add: algebra_simps)
  then have "5 / B * (1 + eps) < 5 / A * (1 - eps)"
    using Apos Bpos by (simp add: field_simps)
  moreover have "rb \<le> 5 / B * (1 + eps)"
    using rb(2) by (simp add: eps_def algebra_simps abs_le_iff)
  moreover have "5 / A * (1 - eps) \<le> ra"
    using ra(2) by (simp add: eps_def algebra_simps abs_le_iff)
  ultimately have "rb < ra"
    by linarith
  with ra(1) rb(1) show ?thesis
    by blast
qed

lemma sgd_step_order:
  fixes e e' i i' :: int
  assumes "0 \<le> i" and "i < m" and "0 \<le> i'" and "i' < m"
    and "e < e' \<or> (e = e' \<and> i < i')"
  shows "e * m + i < e' * m + i'"
proof (cases "e < e'")
  case True
  then have "e + 1 \<le> e'" by simp
  then have "(e + 1) * m \<le> e' * m"
    by (simp add: m_def)
  then show ?thesis
    using assms(2,3) by (simp add: algebra_simps)
next
  case False
  then show ?thesis using assms(5) by simp
qed

lemma sgd_step_in_run:
  fixes e i :: int
  assumes "e < n_epochs" and "i < m"
  shows "e * m + i < 5000"
proof -
  have "e + 1 \<le> 50"
    using assms(1) by (simp add: n_epochs_def)
  then have "(e + 1) * 100 \<le> 50 * (100::int)"
    by (rule mult_right_mono) simp
  then show ?thesis
    using assms(2) by (simp add: m_def algebra_simps)
qed

text \<open>
  Python evaluates the schedule in double precision, and there the claim fails
  for large \<open>t\<close>: the quotient \<open>5 / (10\<^sup>4\<^sup>0\<^sup>0 + 50)\<close> is too small for a double and
  the schedule returns \<open>0.0\<close>, which is not positive; and the quotients at
  \<open>t = 10\<^sup>1\<^sup>7\<close> and \<open>t = 10\<^sup>1\<^sup>7 + 1\<close> round to the same double, so the schedule is
  not strictly decreasing.
\<close>

theorem learning_schedule_large_t_counterexample:
  "learning_schedule (10 ^ 400) = Inr 0 \<and>
   learning_schedule (10 ^ 17) = Inr (1014120480182583 / 2 ^ 104) \<and>
   learning_schedule (10 ^ 17 + 1) = Inr (1014120480182583 / 2 ^ 104)"
proof -
  have a: "fl (5 / (10 ^ 400 + 50)) = Finite 0"
    using fl_subnormal [of "5 / (10 ^ 400 + 50)"] by (simp add: round_even_def)
  have b: "fl (5 / (10 ^ 17 + 50)) = Finite (1014120480182583 / 2 ^ 104)"
    by (rule fl_eval [where k = 107 and n = 8112963841460664]) (simp_all add: round_even_def)
  have c: "fl (5 / (10 ^ 17 + 51)) = Finite (1014120480182583 / 2 ^ 104)"
    by (rule fl_eval [where k = 107 and n = 8112963841460664]) (simp_all add: round_even_def)
  show ?thesis
    using a b c by (simp add: learning_schedule_def py_truediv_def t0_def t1_def)
qed

text \<open>
  C10. On the steps of the run, \<open>0 \<le> t < n_epochs * m = 5000\<close>, the learning
  schedule \<open>t0 / (t + t1)\<close> with \<open>t0 = 5\<close>, \<open>t1 = 50\<close>, evaluated in double
  precision, returns a strictly positive rate (in particular it raises
  nothing), it is strictly decreasing there, and therefore every step of the
  stochastic gradient descent loop (epoch \<open>e'\<close>, inner index \<open>i'\<close>) uses a
  smaller rate than every earlier step (epoch \<open>e\<close>, inner index \<open>i\<close>) of the run.
\<close>

theorem learning_schedule_positive_decreasing_in_run:
  "(0 \<le> t \<and> t < n_epochs * m \<longrightarrow> (\<exists>r. learning_schedule t = Inr r \<and> 0 < r)) \<and>
   (0 \<le> a \<and> a < b \<and> b < n_epochs * m \<longrightarrow>
      (\<exists>ra rb. learning_schedule a = Inr ra \<and> learning_schedule b = Inr rb \<and> rb < ra)) \<and>
   (0 \<le> e \<and> e' < n_epochs \<and> 0 \<le> i \<and> i < m \<and> 0 \<le> i' \<and> i' < m \<and>
    (e < e' \<or> (e = e' \<and> i < i')) \<longrightarrow>
      (\<exists>r r'. sgd_eta e i = Inr r \<and> sgd_eta e' i' = Inr r' \<and> r' < r))"
proof (intro conjI impI)
  assume "0 \<le> t \<and> t < n_epochs * m"
  then show "\<exists>r. learning_schedule t = Inr r \<and> 0 < r"
    using learning_schedule_positive [of t] by (simp add: n_epochs_def m_def)
next
  assume "0 \<le> a \<and> a < b \<and> b < n_epochs * m"
  then show "\<exists>ra rb. learning_schedule a = Inr ra \<and> learning_schedule b = Inr rb \<and> rb < ra"
    using learning_schedule_decreasing [of a b] by (simp add: n_epochs_def m_def)
next
  assume h: "0 \<le> e \<and> e' < n_epochs \<and> 0 \<le> i \<and> i < m \<and> 0 \<le> i' \<and> i' < m \<and>
    (e < e' \<or> (e = e' \<and> i < i'))"
  then have lt: "e * m + i < e' * m + i'"
    using sgd_step_order [of i i' e e'] by blast
  have "0 \<le> e * m"
    using h by (simp add: m_def)
  then have nn: "0 \<le> e * m + i"
    using h by simp
  have "e' * m + i' < 5000"
    using h sgd_step_in_run [of e' i'] by blast
  from learning_schedule_decreasing [OF nn lt this]
  show "\<exists>r r'. sgd_eta e i = Inr r \<and> sgd_eta e' i' = Inr r' \<and> r' < r"
    by (simp add: sgd_eta_def)
qed

lemma learning_schedule_0: "learning_schedule 0 = Inr (3602879701896397 / 2 ^ 55)"
proof -
  have "fl (5 / 50) = Finite (3602879701896397 / 2 ^ 55)"
    by (rule fl_eval [where k = 56 and n = 7205759403792794]) (simp_all add: round_even_def)
  then show ?thesis
    by (simp add: learning_schedule_def py_truediv_def t0_def t1_def)
qed

lemma learning_schedule_1: "learning_schedule 1 = Inr (7064470003718425 / 2 ^ 56)"
proof -
  have "fl (5 / 51) = Finite (7064470003718425 / 2 ^ 56)"
    by (rule fl_eval [where k = 56 and n = 7064470003718425]) (simp_all add: round_even_def)
  then show ?thesis
    by (simp add: learning_schedule_def py_truediv_def t0_def t1_def)
qed

lemma learning_schedule_99: "learning_schedule 99 = Inr (4836080136773687 / 2 ^ 57)"
proof -
  have "fl (5 / 149) = Finite (4836080136773687 / 2 ^ 57)"
    by (rule fl_eval [where k = 57 and n = 4836080136773687]) (simp_all add: round_even_def)
  then show ?thesis
    by (simp add: learning_schedule_def py_truediv_def t0_def t1_def)
qed

lemma learning_schedule_100: "learning_schedule 100 = Inr (4803839602528529 / 2 ^ 57)"
proof -
  have "fl (5 / 150) = Finite (4803839602528529 / 2 ^ 57)"
    by (rule fl_eval [where k = 57 and n = 4803839602528529]) (simp_all add: round_even_def)
  then show ?thesis
    by (simp add: learning_schedule_def py_truediv_def t0_def t1_def)
qed

lemma learning_schedule_4999: "learning_schedule 4999 = Inr (4566930103413931 / 2 ^ 62)"
proof -
  have "fl (5 / 5049) = Finite (4566930103413931 / 2 ^ 62)"
    by (rule fl_eval [where k = 62 and n = 4566930103413931]) (simp_all add: round_even_def)
  then show ?thesis
    by (simp add: learning_schedule_def py_truediv_def t0_def t1_def)
qed

theorem learning_schedule_positive_decreasing_in_run_witness:
  "(0::int) \<le> 0 \<and> (0::int) < n_epochs * m \<and>
   learning_schedule 0 = Inr (3602879701896397 / 2 ^ 55) \<and>
   (0::int) < 4999 \<and> (4999::int) < n_epochs * m \<and>
   learning_schedule 4999 = Inr (4566930103413931 / 2 ^ 62) \<and>
   (4566930103413931 / 2 ^ 62 :: real) < 3602879701896397 / 2 ^ 55 \<and>
   (1::int) < n_epochs \<and> (0::int) \<le> 99 \<and> (99::int) < m \<and> (0::int) < m \<and> (0::int) < 1 \<and>
   sgd_eta 0 99 = Inr (4836080136773687 / 2 ^ 57) \<and>
   sgd_eta 1 0 = Inr (4803839602528529 / 2 ^ 57) \<and>
   (4803839602528529 / 2 ^ 57 :: real) < 4836080136773687 / 2 ^ 57"
  using learning_schedule_positive_decreasing_in_run [of 0 0 4999 0 1 99 0]
  by (simp add: sgd_eta_def learning_schedule_0 learning_schedule_99 learning_schedule_100
      learning_schedule_4999 n_epochs_def m_def)

section \<open>Chapter 04: linear regression by the normal equation and by gradient descent\<close>

subsection \<open>NumPy arrays\<close>

text \<open>
  A two-dimensional array is the list of its rows. The operations below are
  the ones the notebook applies; they agree with NumPy on arrays of matching
  shapes, which is how the notebook uses them (\<open>m \<times> 2\<close>, \<open>m \<times> 1\<close>, \<open>2 \<times> 1\<close>,
  \<open>1 \<times> 2\<close> and \<open>1 \<times> 1\<close> arrays).
\<close>

type_synonym ndarray = "real list list"

text \<open>\<open>c * A\<close> and \<open>c + A\<close> for a scalar \<open>c\<close>.\<close>

definition smul :: "real \<Rightarrow> ndarray \<Rightarrow> ndarray" where
  "smul c A = map (map (\<lambda>x. c * x)) A"

definition sadd :: "real \<Rightarrow> ndarray \<Rightarrow> ndarray" where
  "sadd c A = map (map (\<lambda>x. c + x)) A"

text \<open>\<open>A + B\<close> and \<open>A - B\<close>, elementwise.\<close>

definition madd :: "ndarray \<Rightarrow> ndarray \<Rightarrow> ndarray" where
  "madd A B = map2 (map2 (\<lambda>a b. a + b)) A B"

definition msub :: "ndarray \<Rightarrow> ndarray \<Rightarrow> ndarray" where
  "msub A B = map2 (map2 (\<lambda>a b. a - b)) A B"

text \<open>\<open>A.T\<close> is \<^const>\<open>transpose\<close>; \<open>A.dot(B)\<close> is the matrix product.\<close>

definition dot :: "ndarray \<Rightarrow> ndarray \<Rightarrow> ndarray" where
  "dot A B = map (\<lambda>row. map (\<lambda>col. sum_list (map2 (\<lambda>a b. a * b) row col)) (transpose B)) A"

text \<open>\<open>np.ones((r, c))\<close> and \<open>np.c_[A, B]\<close> (the columns of \<open>A\<close>, then those of \<open>B\<close>).\<close>

definition np_ones :: "int \<Rightarrow> int \<Rightarrow> ndarray" where
  "np_ones r c = replicate (nat r) (replicate (nat c) 1)"

definition np_c :: "ndarray \<Rightarrow> ndarray \<Rightarrow> ndarray" where
  "np_c A B = map2 (\<lambda>a b. a @ b) A B"

text \<open>
  The slice \<open>xs[i:j]\<close>: a negative bound counts from the end, and both bounds
  are clipped to the length; a slice never raises.
\<close>

definition slice_bound :: "nat \<Rightarrow> int \<Rightarrow> nat" where
  "slice_bound n k = (if k < 0 then nat (max (k + int n) 0) else min (nat k) n)"

definition py_slice :: "'a list \<Rightarrow> int \<Rightarrow> int \<Rightarrow> 'a list" where
  "py_slice xs i j =
     (let lo = slice_bound (length xs) i; hi = slice_bound (length xs) j
      in take (hi - lo) (drop lo xs))"

text \<open>\<open>range(n)\<close>, and a \<open>for\<close> loop whose body may raise.\<close>

definition py_range :: "int \<Rightarrow> int list" where
  "py_range n = map int [0..<nat n]"

fun for_loop :: "('i \<Rightarrow> 's \<Rightarrow> py_error + 's) \<Rightarrow> 'i list \<Rightarrow> 's \<Rightarrow> py_error + 's" where
  "for_loop body [] s = Inr s"
| "for_loop body (i # rest) s =
     (case body i s of
        Inl e \<Rightarrow> Inl e
      | Inr s' \<Rightarrow> for_loop body rest s')"

text \<open>
  NumPy's global random generator has a state of type \<open>'g\<close>. The library's
  functions are parameters: \<open>seed\<close> sets the state to one that depends on the
  seed only; \<open>rand\<close> and \<open>randn\<close> draw an array of the given shape and
  \<open>randint\<close> an integer, each returning the next state as well. So is
  \<open>np.linalg.inv\<close>, which raises on a singular matrix.
\<close>

record 'g np_random =
  seed :: "int \<Rightarrow> 'g"
  rand :: "'g \<Rightarrow> int \<Rightarrow> int \<Rightarrow> ndarray \<times> 'g"
  randn :: "'g \<Rightarrow> int \<Rightarrow> int \<Rightarrow> ndarray \<times> 'g"
  randint :: "'g \<Rightarrow> int \<Rightarrow> int \<times> 'g"

subsection \<open>The cells\<close>

text \<open>
  \<^verbatim>\<open>
  np.random.seed(42)
  m = 100  # number of instances
  X = 2 * np.random.rand(m, 1)  # feature
  y = 4 + 3 * X + np.random.randn(m, 1)  # target with noise
  \<close>
  The cell is run with the generator in state \<open>g\<close> and returns \<open>X\<close>, \<open>y\<close> and
  the generator's new state.
\<close>

definition create_dataset :: "'g np_random \<Rightarrow> 'g \<Rightarrow> ndarray \<times> ndarray \<times> 'g" where
  "create_dataset np g =
     (let g1 = seed np 42;
          (R, g2) = rand np g1 m 1;
          X = smul 2 R;
          (N, g3) = randn np g2 m 1;
          y = madd (sadd 4 (smul 3 X)) N
      in (X, y, g3))"

text \<open>
  \<^verbatim>\<open>
  X_b = np.c_[np.ones((m, 1)), X]  # add bias feature x0=1
  theta_best = np.linalg.inv(X_b.T.dot(X_b)).dot(X_b.T).dot(y)
  \<close>
\<close>

definition add_bias :: "ndarray \<Rightarrow> ndarray" where
  "add_bias X = np_c (np_ones m 1) X"

definition normal_equation ::
  "(ndarray \<Rightarrow> py_error + ndarray) \<Rightarrow> ndarray \<Rightarrow> ndarray \<Rightarrow> py_error + ndarray" where
  "normal_equation linalg_inv X_b y =
     (case linalg_inv (dot (transpose X_b) X_b) of
        Inl e \<Rightarrow> Inl e
      | Inr V \<Rightarrow> Inr (dot (dot V (transpose X_b)) y))"

text \<open>
  \<^verbatim>\<open>
  eta = 0.1  # learning rate
  n_iterations = 1000

  theta = np.random.randn(2,1)  # random initialization

  for iteration in range(n_iterations):
      gradients = 2/m * X_b.T.dot(X_b.dot(theta) - y)
      theta = theta - eta * gradients
  \<close>
\<close>

text \<open>
  The literal \<open>0.1\<close> is the double nearest to one tenth, and \<open>2/m\<close> is a
  division of Python integers.
\<close>

definition eta :: real where
  "eta = 3602879701896397 / 2 ^ 55"

definition n_iterations :: int where
  "n_iterations = 1000"

definition bgd_body :: "ndarray \<Rightarrow> ndarray \<Rightarrow> int \<Rightarrow> ndarray \<Rightarrow> py_error + ndarray" where
  "bgd_body X_b y iteration theta =
     (case py_truediv 2 m of
        Inl e \<Rightarrow> Inl e
      | Inr c \<Rightarrow>
          (let gradients = smul c (dot (transpose X_b) (msub (dot X_b theta) y))
           in Inr (msub theta (smul eta gradients))))"

definition batch_gradient_descent ::
  "'g np_random \<Rightarrow> 'g \<Rightarrow> ndarray \<Rightarrow> ndarray \<Rightarrow> py_error + ndarray \<times> 'g" where
  "batch_gradient_descent np g X_b y =
     (let (theta, g') = randn np g 2 1
      in case for_loop (bgd_body X_b y) (py_range n_iterations) theta of
           Inl e \<Rightarrow> Inl e
         | Inr theta' \<Rightarrow> Inr (theta', g'))"

text \<open>
  \<^verbatim>\<open>
  n_epochs = 50
  t0, t1 = 5, 50  # learning schedule parameters
  ...
  theta_sgd = np.random.randn(2, 1)

  for epoch in range(n_epochs):
      for i in range(m):
          random_index = np.random.randint(m)
          xi = X_b[random_index:random_index+1]
          yi = y[random_index:random_index+1]
          gradients = 2 * xi.T.dot(xi.dot(theta_sgd) - yi)
          eta = learning_schedule(epoch * m + i)
          theta_sgd = theta_sgd - eta * gradients
  \<close>
  The state of the loops is \<open>theta_sgd\<close> together with the generator.
\<close>

definition sgd_body ::
  "'g np_random \<Rightarrow> ndarray \<Rightarrow> ndarray \<Rightarrow> int \<Rightarrow> int \<Rightarrow> ndarray \<times> 'g \<Rightarrow> py_error + ndarray \<times> 'g" where
  "sgd_body np X_b y epoch i s =
     (case s of (theta_sgd, g) \<Rightarrow>
        (let (random_index, g') = randint np g m;
             xi = py_slice X_b random_index (random_index + 1);
             yi = py_slice y random_index (random_index + 1);
             gradients = smul 2 (dot (transpose xi) (msub (dot xi theta_sgd) yi))
         in case learning_schedule (epoch * m + i) of
              Inl e \<Rightarrow> Inl e
            | Inr eta' \<Rightarrow> Inr (msub theta_sgd (smul eta' gradients), g')))"

definition stochastic_gradient_descent ::
  "'g np_random \<Rightarrow> 'g \<Rightarrow> ndarray \<Rightarrow> ndarray \<Rightarrow> py_error + ndarray \<times> 'g" where
  "stochastic_gradient_descent np g X_b y =
     (let (theta_sgd, g') = randn np g 2 1
      in for_loop (\<lambda>epoch. for_loop (sgd_body np X_b y epoch) (py_range m))
           (py_range n_epochs) (theta_sgd, g'))"

text \<open>
  The value of \<open>theta_best\<close> when the first two code cells are run with the
  generator in state \<open>g\<close>, and the three parameter vectors computed when the
  notebook's numerical cells are run top to bottom. No cell in between draws
  from the generator.
\<close>

definition theta_best_run ::
  "'g np_random \<Rightarrow> (ndarray \<Rightarrow> py_error + ndarray) \<Rightarrow> 'g \<Rightarrow> py_error + ndarray" where
  "theta_best_run np linalg_inv g =
     (let (X, y, g1) = create_dataset np g
      in normal_equation linalg_inv (add_bias X) y)"

definition notebook_run ::
  "'g np_random \<Rightarrow> (ndarray \<Rightarrow> py_error + ndarray) \<Rightarrow> 'g
     \<Rightarrow> py_error + ndarray \<times> ndarray \<times> ndarray" where
  "notebook_run np linalg_inv g =
     (let (X, y, g1) = create_dataset np g;
          X_b = add_bias X
      in case normal_equation linalg_inv X_b y of
           Inl e \<Rightarrow> Inl e
         | Inr theta_best \<Rightarrow>
             (case batch_gradient_descent np g1 X_b y of
                Inl e \<Rightarrow> Inl e
              | Inr (theta, g2) \<Rightarrow>
                  (case stochastic_gradient_descent np g2 X_b y of
                     Inl e \<Rightarrow> Inl e
                   | Inr (theta_sgd, g3) \<Rightarrow> Inr (theta_best, theta, theta_sgd))))"

subsection \<open>The textbook updates\<close>

text \<open>
  The textbook states the algorithms by components. For a data matrix \<open>X\<close>
  with one instance per row, targets \<open>y\<close> and a parameter vector \<open>\<theta>\<close> (both
  column vectors), component \<open>j\<close> of the gradient vector \<open>X\<^sup>T (X \<theta> - y)\<close> is
  \<open>\<Sum>\<^sub>i X\<^sub>i\<^sub>j ((\<Sum>\<^sub>l X\<^sub>i\<^sub>l \<theta>\<^sub>l) - y\<^sub>i)\<close>.
\<close>

definition textbook_gradient :: "ndarray \<Rightarrow> ndarray \<Rightarrow> ndarray \<Rightarrow> nat \<Rightarrow> real" where
  "textbook_gradient X y theta j =
     (\<Sum>i\<leftarrow>[0..<length X].
        X ! i ! j * ((\<Sum>l\<leftarrow>[0..<length theta]. X ! i ! l * theta ! l ! 0) - y ! i ! 0))"

text \<open>
  Batch gradient descent: one update replaces \<open>\<theta>\<close> by
  \<open>\<theta> - \<eta> (2/m) X\<^sup>T (X \<theta> - y)\<close>.
\<close>

definition textbook_bgd_update :: "real \<Rightarrow> real \<Rightarrow> ndarray \<Rightarrow> ndarray \<Rightarrow> ndarray \<Rightarrow> ndarray" where
  "textbook_bgd_update rate two_over_m X y theta =
     map (\<lambda>j. [theta ! j ! 0 - rate * two_over_m * textbook_gradient X y theta j])
       [0..<length theta]"

text \<open>
  Stochastic gradient descent: a step on the single instance \<open>(x, y)\<close> replaces
  \<open>\<theta>\<close> by \<open>\<theta> - \<eta> 2 x\<^sup>T (x \<theta> - y)\<close>, that is \<open>\<theta>\<^sub>j\<close> by
  \<open>\<theta>\<^sub>j - \<eta> 2 x\<^sub>j ((\<Sum>\<^sub>l x\<^sub>l \<theta>\<^sub>l) - y)\<close>.
\<close>

definition textbook_sgd_update :: "real \<Rightarrow> real list \<Rightarrow> real \<Rightarrow> ndarray \<Rightarrow> ndarray" where
  "textbook_sgd_update rate x y theta =
     map (\<lambda>j. [theta ! j ! 0 -
                 rate * 2 * (x ! j * ((\<Sum>l\<leftarrow>[0..<length theta]. x ! l * theta ! l ! 0) - y))])
       [0..<length theta]"

text \<open>
  The rate of step \<open>t\<close> under the schedule: the double nearest to \<open>5 / (t + 50)\<close>.
  The steps are numbered through the epochs, \<open>t = epoch * 100 + i\<close>; each step
  draws the index of its instance.
\<close>

definition schedule_rate :: "int \<Rightarrow> real" where
  "schedule_rate t = (case fl (5 / (real_of_int t + 50)) of Finite r \<Rightarrow> r | _ \<Rightarrow> 0)"

definition textbook_sgd_step ::
  "'g np_random \<Rightarrow> ndarray \<Rightarrow> ndarray \<Rightarrow> int \<times> int \<Rightarrow> ndarray \<times> 'g \<Rightarrow> ndarray \<times> 'g" where
  "textbook_sgd_step np X y step s =
     (case step of (epoch, i) \<Rightarrow>
        (case s of (theta, g) \<Rightarrow>
           (let (k, g') = randint np g 100
            in (textbook_sgd_update (schedule_rate (epoch * 100 + i))
                  (X ! nat k) (y ! nat k ! 0) theta,
                g'))))"

text \<open>An array has shape \<open>(r, c)\<close>: it has \<open>r\<close> rows, each of \<open>c\<close> entries.\<close>

definition has_shape :: "ndarray \<Rightarrow> nat \<Rightarrow> nat \<Rightarrow> bool" where
  "has_shape A r c = (length A = r \<and> list_all (\<lambda>row. length row = c) A)"

subsection \<open>An example generator\<close>

text \<open>
  NumPy's generator and \<open>np.linalg.inv\<close> are not part of the repository. To
  run the cells on concrete values, the parameters are instantiated with a
  linear congruential generator (its uniform draws, shifted by one half, stand
  in for the normal draws) and with the inverse of a \<open>2 \<times> 2\<close> matrix.
\<close>

definition lcg_next :: "nat \<Rightarrow> nat" where
  "lcg_next g = (1103515245 * g + 12345) mod 2147483648"

fun lcg_draws :: "nat \<Rightarrow> nat \<Rightarrow> real list \<times> nat" where
  "lcg_draws 0 g = ([], g)"
| "lcg_draws (Suc n) g =
     (let g' = lcg_next g; (xs, g'') = lcg_draws n g'
      in (real g' / 2147483648 # xs, g''))"

fun lcg_rows :: "nat \<Rightarrow> nat \<Rightarrow> nat \<Rightarrow> ndarray \<times> nat" where
  "lcg_rows 0 c g = ([], g)"
| "lcg_rows (Suc r) c g =
     (let (row, g') = lcg_draws c g; (rows, g'') = lcg_rows r c g'
      in (row # rows, g''))"

definition lcg_random :: "nat np_random" where
  "lcg_random =
     \<lparr>seed = (\<lambda>s. nat s mod 2147483648),
      rand = (\<lambda>g r c. lcg_rows (nat r) (nat c) g),
      randn = (\<lambda>g r c. let (A, g') = lcg_rows (nat r) (nat c) g in (sadd (- 1 / 2) A, g')),
      randint = (\<lambda>g n. let g' = lcg_next g in (int g' mod n, g'))\<rparr>"

definition inv2 :: "ndarray \<Rightarrow> py_error + ndarray" where
  "inv2 A =
     (case A of
        [[a, b], [c, d]] \<Rightarrow>
          (if a * d - b * c = 0 then Inl (LibraryError ''LinAlgError'')
           else Inr [[d / (a * d - b * c), - b / (a * d - b * c)],
                     [- c / (a * d - b * c), a / (a * d - b * c)]])
      | _ \<Rightarrow> Inl (LibraryError ''LinAlgError''))"

subsection \<open>The loops are the textbook algorithms\<close>

lemma eta_is_literal: "fl (1 / 10) = Finite eta"
  unfolding eta_def
  by (rule fl_eval [where k = 56 and n = 7205759403792794]) (simp_all add: round_even_def)

lemma two_over_m: "py_truediv 2 m = Inr (5764607523034235 / 2 ^ 58)"
proof -
  have "fl (2 / 100) = Finite (5764607523034235 / 2 ^ 58)"
    by (rule fl_eval [where k = 58 and n = 5764607523034235]) (simp_all add: round_even_def)
  then show ?thesis
    by (simp add: py_truediv_def m_def)
qed

lemma upt_1: "[0..<1] = [0]"
  by (simp add: upt_rec)

lemma upt_2: "[0..<2] = [0, 1]"
  by (simp add: upt_rec numeral_2_eq_2)

lemma has_shape_row: "has_shape A r c \<Longrightarrow> i < r \<Longrightarrow> length (A ! i) = c"
  by (simp add: has_shape_def list_all_length)

lemma has_shape_column:
  assumes "has_shape A 2 1"
  shows "\<exists>a b. A = [[a], [b]]"
proof -
  from assms have len: "length A = 2"
    by (simp add: has_shape_def)
  then obtain r1 r2 where A: "A = [r1, r2]"
    by (auto simp add: numeral_2_eq_2 length_Suc_conv)
  from assms A have "length r1 = 1" "length r2 = 1"
    by (simp_all add: has_shape_def)
  then obtain a b where "r1 = [a]" "r2 = [b]"
    by (auto simp add: length_Suc_conv)
  with A show ?thesis
    by blast
qed

lemma has_shape_pair:
  assumes "length row = 2"
  shows "row = [row ! 0, row ! 1]"
proof -
  from assms obtain a b where "row = [a, b]"
    by (auto simp add: numeral_2_eq_2 length_Suc_conv)
  then show ?thesis
    by simp
qed

lemma has_shape_single:
  assumes "length row = 1"
  shows "row = [row ! 0]"
proof -
  from assms obtain a where "row = [a]"
    by (auto simp add: length_Suc_conv)
  then show ?thesis
    by simp
qed

lemma transpose_shape:
  assumes "has_shape A r c" and "0 < r"
  shows "transpose A = map (\<lambda>j. map (\<lambda>i. A ! i ! j) [0..<r]) [0..<c]"
proof -
  have len: "length A = r"
    using assms(1) by (simp add: has_shape_def)
  have "transpose A = map (\<lambda>j. map (\<lambda>i. A ! i ! j) [0..<length A]) [0..<c]"
  proof (rule transpose_rectangle)
    assume "A = []"
    then show "c = 0"
      using len assms(2) by simp
  next
    fix i
    assume "i < length A"
    then show "length (A ! i) = c"
      using assms(1) len by (simp add: has_shape_row)
  qed
  then show ?thesis
    by (simp add: len)
qed

text \<open>The product of an \<open>n \<times> 2\<close> array with a column of two entries.\<close>

lemma dot_column:
  assumes "has_shape X n 2"
  shows "dot X [[a], [b]] = map (\<lambda>row. [row ! 0 * a + row ! 1 * b]) X"
proof -
  have t: "transpose [[a], [b]] = [[a, b]]"
    by simp
  have "\<And>row. row \<in> set X \<Longrightarrow>
      sum_list (map2 (\<lambda>a b. a * b) row [a, b]) = row ! 0 * a + row ! 1 * b"
  proof -
    fix row
    assume "row \<in> set X"
    then have "length row = 2"
      using assms by (simp add: has_shape_def list_all_iff)
    then have "row = [row ! 0, row ! 1]"
      by (rule has_shape_pair)
    then obtain u v where "row = [u, v]"
      by blast
    then show "sum_list (map2 (\<lambda>a b. a * b) row [a, b]) = row ! 0 * a + row ! 1 * b"
      by simp
  qed
  then show ?thesis
    unfolding dot_def t by simp
qed

text \<open>The residual \<open>X \<theta> - y\<close>, by rows.\<close>

lemma residual_rows:
  assumes X: "has_shape X n 2" and y: "has_shape y n 1"
  shows "msub (dot X [[a], [b]]) y =
    map (\<lambda>i. [X ! i ! 0 * a + X ! i ! 1 * b - y ! i ! 0]) [0..<n]"
proof (rule nth_equalityI)
  have lx: "length X = n" and ly: "length y = n"
    using X y by (simp_all add: has_shape_def)
  show "length (msub (dot X [[a], [b]]) y) =
      length (map (\<lambda>i. [X ! i ! 0 * a + X ! i ! 1 * b - y ! i ! 0]) [0..<n])"
    by (simp add: msub_def dot_column [OF X] lx ly)
  fix i
  assume "i < length (msub (dot X [[a], [b]]) y)"
  then have i: "i < n"
    by (simp add: msub_def dot_column [OF X] lx ly)
  have "length (y ! i) = 1"
    using y i by (rule has_shape_row)
  then have yi: "y ! i = [y ! i ! 0]"
    by (rule has_shape_single)
  have "msub (dot X [[a], [b]]) y ! i =
      map2 (\<lambda>a b. a - b) [X ! i ! 0 * a + X ! i ! 1 * b] (y ! i)"
    using i by (simp add: msub_def dot_column [OF X] lx ly)
  also have "\<dots> = [X ! i ! 0 * a + X ! i ! 1 * b - y ! i ! 0]"
    by (subst yi) simp
  finally show "msub (dot X [[a], [b]]) y ! i =
      map (\<lambda>i. [X ! i ! 0 * a + X ! i ! 1 * b - y ! i ! 0]) [0..<n] ! i"
    using i by simp
qed

lemma map2_upt:
  "map2 f (map g [0..<n]) (map h [0..<n]) = map (\<lambda>i. f (g i) (h i)) [0..<n]"
  by (simp add: map2_map_map)

text \<open>The product of \<open>X\<^sup>T\<close> with a column given by rows.\<close>

lemma dot_transpose_column:
  assumes X: "has_shape X n 2" and n: "0 < n"
  shows "dot (transpose X) (map (\<lambda>i. [r i]) [0..<n]) =
    map (\<lambda>j. [\<Sum>i\<leftarrow>[0..<n]. X ! i ! j * r i]) [0..<2]"
proof -
  have R: "has_shape (map (\<lambda>i. [r i]) [0..<n]) n 1"
    by (simp add: has_shape_def list_all_iff)
  have tR: "transpose (map (\<lambda>i. [r i]) [0..<n]) = [map r [0..<n]]"
  proof -
    have "transpose (map (\<lambda>i. [r i]) [0..<n]) =
        map (\<lambda>j. map (\<lambda>i. map (\<lambda>i. [r i]) [0..<n] ! i ! j) [0..<n]) [0..<1]"
      using R n by (rule transpose_shape)
    also have "\<dots> = [map (\<lambda>i. map (\<lambda>i. [r i]) [0..<n] ! i ! 0) [0..<n]]"
      by (simp add: upt_1)
    also have "map (\<lambda>i. map (\<lambda>i. [r i]) [0..<n] ! i ! 0) [0..<n] = map r [0..<n]"
      by (rule map_cong) simp_all
    finally show ?thesis .
  qed
  have tX: "transpose X = map (\<lambda>j. map (\<lambda>i. X ! i ! j) [0..<n]) [0..<2]"
    using X n by (rule transpose_shape)
  show ?thesis
    unfolding dot_def tR tX by (simp add: map2_upt comp_def)
qed

lemma gradient_textbook:
  assumes X: "has_shape X n 2" and y: "has_shape y n 1" and n: "0 < n"
  shows "dot (transpose X) (msub (dot X [[a], [b]]) y) =
    [[textbook_gradient X y [[a], [b]] 0], [textbook_gradient X y [[a], [b]] 1]]"
proof -
  have lx: "length X = n"
    using X by (simp add: has_shape_def)
  show ?thesis
    unfolding residual_rows [OF X y] dot_transpose_column [OF X n]
    by (simp add: textbook_gradient_def lx upt_2)
qed

lemma bgd_body_textbook:
  assumes X: "has_shape X_b n 2" and y: "has_shape y n 1" and n: "0 < n"
    and theta: "has_shape theta 2 1"
  shows "bgd_body X_b y iteration theta =
    Inr (textbook_bgd_update eta (5764607523034235 / 2 ^ 58) X_b y theta)"
proof -
  obtain a b where ab: "theta = [[a], [b]]"
    using has_shape_column [OF theta] by blast
  show ?thesis
    unfolding ab bgd_body_def two_over_m gradient_textbook [OF X y n]
    by (simp add: textbook_bgd_update_def smul_def msub_def upt_2 mult.assoc)
qed

lemma textbook_bgd_update_shape:
  "has_shape theta 2 1 \<Longrightarrow> has_shape (textbook_bgd_update rate c X y theta) 2 1"
  by (simp add: has_shape_def textbook_bgd_update_def list_all_iff)

lemma textbook_sgd_update_shape:
  "has_shape theta 2 1 \<Longrightarrow> has_shape (textbook_sgd_update rate x y theta) 2 1"
  by (simp add: has_shape_def textbook_sgd_update_def list_all_iff)

text \<open>A loop whose body cannot raise on the states it meets is a fold.\<close>

lemma for_loop_invariant:
  assumes "P s"
    and "\<And>i s. i \<in> set idx \<Longrightarrow> P s \<Longrightarrow> body i s = Inr (f i s) \<and> P (f i s)"
  shows "for_loop body idx s = Inr (fold f idx s) \<and> P (fold f idx s)"
  using assms by (induction idx arbitrary: s) simp_all

lemma fold_const_funpow: "fold (\<lambda>i. f) idx s = (f ^^ length idx) s"
  by (induction idx arbitrary: s) (simp_all add: funpow_swap1)

lemma py_range_length: "0 \<le> n \<Longrightarrow> length (py_range n) = nat n"
  by (simp add: py_range_def)

lemma py_range_bounds: "i \<in> set (py_range n) \<Longrightarrow> 0 \<le> i \<and> i < n"
  by (auto simp add: py_range_def)

lemma py_slice_one:
  assumes "0 \<le> k" and "k < int (length xs)"
  shows "py_slice xs k (k + 1) = [xs ! nat k]"
proof -
  have lo: "slice_bound (length xs) k = nat k"
    using assms by (simp add: slice_bound_def)
  have hi: "slice_bound (length xs) (k + 1) = nat k + 1"
    using assms by (simp add: slice_bound_def nat_add_distrib)
  have "nat k < length xs" using assms by simp
  then have "take 1 (drop (nat k) xs) = [xs ! nat k]"
    by (simp add: take_Suc_conv_app_nth One_nat_def del: take_Suc_Cons)
  then show ?thesis
    by (simp add: py_slice_def lo hi)
qed

lemma learning_schedule_rate:
  assumes "0 \<le> t" and "t < 5000"
  shows "learning_schedule t = Inr (schedule_rate t)"
proof -
  obtain r where r: "learning_schedule t = Inr r"
    using learning_schedule_positive [OF assms] by blast
  have nz: "t + t1 \<noteq> 0"
    using assms(1) by (simp add: t1_def)
  have "fl (5 / (real_of_int t + 50)) = Finite r"
    using r nz
    by (cases "fl (5 / (real_of_int t + 50))")
      (simp_all add: learning_schedule_def py_truediv_def t0_def t1_def)
  then show ?thesis
    using r by (simp add: schedule_rate_def)
qed

lemma sgd_gradient_textbook:
  assumes x: "length x = 2"
  shows "smul 2 (dot (transpose [x]) (msub (dot [x] [[a], [b]]) [[v]])) =
    [[2 * (x ! 0 * (x ! 0 * a + x ! 1 * b - v))], [2 * (x ! 1 * (x ! 0 * a + x ! 1 * b - v))]]"
proof -
  obtain p q where x: "x = [p, q]"
    using has_shape_pair [OF x] by blast
  show ?thesis
    unfolding x by (simp add: dot_def msub_def smul_def)
qed

lemma sgd_body_textbook:
  assumes X: "has_shape X_b 100 2" and y: "has_shape y 100 1"
    and theta: "has_shape theta 2 1"
    and idx: "0 \<le> fst (randint np g m) \<and> fst (randint np g m) < 100"
    and epoch: "0 \<le> epoch" "epoch < n_epochs" and i: "0 \<le> i" "i < m"
  shows "sgd_body np X_b y epoch i (theta, g) =
    Inr (textbook_sgd_step np X_b y (epoch, i) (theta, g))"
proof -
  obtain k g' where kg: "randint np g m = (k, g')"
    by (cases "randint np g m")
  have k: "0 \<le> k" "k < 100"
    using idx by (simp_all add: kg)
  obtain a b where ab: "theta = [[a], [b]]"
    using has_shape_column [OF theta] by blast
  have lx: "length X_b = 100" and ly: "length y = 100"
    using X y by (simp_all add: has_shape_def)
  have xi: "py_slice X_b k (k + 1) = [X_b ! nat k]"
    using k by (simp add: py_slice_one lx)
  have yi: "py_slice y k (k + 1) = [y ! nat k]"
    using k by (simp add: py_slice_one ly)
  have nk: "nat k < 100"
    using k by simp
  have rowx: "length (X_b ! nat k) = 2"
    using X nk by (rule has_shape_row)
  have "length (y ! nat k) = 1"
    using y nk by (rule has_shape_row)
  then have rowy: "y ! nat k = [y ! nat k ! 0]"
    by (rule has_shape_single)
  have "0 \<le> epoch * m"
    using epoch(1) by (simp add: m_def)
  then have t0: "0 \<le> epoch * m + i"
    using i(1) by simp
  have t1: "epoch * m + i < 5000"
    using epoch(2) i(2) by (rule sgd_step_in_run)
  have rate: "learning_schedule (epoch * m + i) = Inr (schedule_rate (epoch * m + i))"
    using t0 t1 by (rule learning_schedule_rate)
  have grad: "smul 2 (dot (transpose [X_b ! nat k])
        (msub (dot [X_b ! nat k] [[a], [b]]) [y ! nat k])) =
      [[2 * (X_b ! nat k ! 0 * (X_b ! nat k ! 0 * a + X_b ! nat k ! 1 * b - y ! nat k ! 0))],
       [2 * (X_b ! nat k ! 1 * (X_b ! nat k ! 0 * a + X_b ! nat k ! 1 * b - y ! nat k ! 0))]]"
    by (subst rowy) (rule sgd_gradient_textbook [OF rowx])
  have km: "randint np g 100 = (k, g')"
    using kg by (simp add: m_def)
  have m100: "epoch * m + i = epoch * 100 + i"
    by (simp add: m_def)
  have "sgd_body np X_b y epoch i (theta, g) =
      Inr (msub theta (smul (schedule_rate (epoch * m + i))
            (smul 2 (dot (transpose [X_b ! nat k])
              (msub (dot [X_b ! nat k] theta) [y ! nat k])))), g')"
    by (simp only: sgd_body_def prod.case kg Let_def xi yi rate sum.case)
  also have "\<dots> = Inr (textbook_sgd_update (schedule_rate (epoch * 100 + i))
      (X_b ! nat k) (y ! nat k ! 0) theta, g')"
    unfolding ab grad m100
    by (simp add: textbook_sgd_update_def smul_def msub_def upt_2 mult.assoc)
  also have "\<dots> = Inr (textbook_sgd_step np X_b y (epoch, i) (theta, g))"
    by (simp only: textbook_sgd_step_def prod.case km Let_def)
  finally show ?thesis .
qed

lemma fold_product:
  "fold (\<lambda>a. fold (\<lambda>b. f (a, b)) ys) xs s = fold f (List.product xs ys) s"
proof (induction xs arbitrary: s)
  case Nil
  then show ?case by simp
next
  case (Cons x xs)
  have "fold f (map (Pair x) ys) s = fold (\<lambda>b. f (x, b)) ys s"
    by (simp add: fold_map comp_def)
  then show ?case
    using Cons.IH by simp
qed

lemma textbook_sgd_step_shape:
  "has_shape (fst s) 2 1 \<Longrightarrow> has_shape (fst (textbook_sgd_step np X y step s)) 2 1"
  by (cases s; cases step)
    (simp add: textbook_sgd_step_def has_shape_def textbook_sgd_update_def list_all_iff
      split: prod.splits)

lemma sgd_loops_textbook:
  assumes X: "has_shape X_b 100 2" and y: "has_shape y 100 1"
    and idx: "\<And>g. 0 \<le> fst (randint np g m) \<and> fst (randint np g m) < 100"
    and s: "has_shape (fst s) 2 1"
  shows "for_loop (\<lambda>epoch. for_loop (sgd_body np X_b y epoch) (py_range m)) (py_range n_epochs) s =
     Inr (fold (textbook_sgd_step np X_b y) (List.product (py_range 50) (py_range 100)) s)"
proof -
  let ?P = "\<lambda>s :: ndarray \<times> 'a. has_shape (fst s) 2 1"
  have inner: "for_loop (sgd_body np X_b y epoch) (py_range m) s =
        Inr (fold (\<lambda>i. textbook_sgd_step np X_b y (epoch, i)) (py_range m) s) \<and>
      ?P (fold (\<lambda>i. textbook_sgd_step np X_b y (epoch, i)) (py_range m) s)"
    if e: "epoch \<in> set (py_range n_epochs)" and P: "?P s" for epoch s
  proof (rule for_loop_invariant [where P = ?P, OF P])
    fix i and s :: "ndarray \<times> 'a"
    assume i: "i \<in> set (py_range m)" and Ps: "has_shape (fst s) 2 1"
    obtain theta g where s: "s = (theta, g)"
      by (cases s)
    have "sgd_body np X_b y epoch i (theta, g) =
        Inr (textbook_sgd_step np X_b y (epoch, i) (theta, g))"
      using X y Ps idx [of g] py_range_bounds [OF e] py_range_bounds [OF i]
      by (intro sgd_body_textbook) (simp_all add: s)
    moreover have "has_shape (fst (textbook_sgd_step np X_b y (epoch, i) s)) 2 1"
      using Ps by (rule textbook_sgd_step_shape)
    ultimately show "sgd_body np X_b y epoch i s =
        Inr (textbook_sgd_step np X_b y (epoch, i) s) \<and>
        has_shape (fst (textbook_sgd_step np X_b y (epoch, i) s)) 2 1"
      by (simp only: s simp_thms)
  qed
  have "for_loop (\<lambda>epoch. for_loop (sgd_body np X_b y epoch) (py_range m)) (py_range n_epochs) s =
      Inr (fold (\<lambda>epoch. fold (\<lambda>i. textbook_sgd_step np X_b y (epoch, i)) (py_range m))
             (py_range n_epochs) s) \<and>
      ?P (fold (\<lambda>epoch. fold (\<lambda>i. textbook_sgd_step np X_b y (epoch, i)) (py_range m))
             (py_range n_epochs) s)"
    by (rule for_loop_invariant [where P = ?P, OF s]) (rule inner)
  then show ?thesis
    by (simp add: fold_product m_def n_epochs_def)
qed

lemma bgd_loop_textbook:
  assumes X: "has_shape X_b n 2" and y: "has_shape y n 1" and n: "0 < n"
    and theta: "has_shape theta 2 1"
  shows "for_loop (bgd_body X_b y) (py_range n_iterations) theta =
    Inr ((textbook_bgd_update eta (5764607523034235 / 2 ^ 58) X_b y ^^ 1000) theta)"
proof -
  let ?f = "textbook_bgd_update eta (5764607523034235 / 2 ^ 58) X_b y"
  have "for_loop (bgd_body X_b y) (py_range n_iterations) theta =
      Inr (fold (\<lambda>i. ?f) (py_range n_iterations) theta) \<and>
      has_shape (fold (\<lambda>i. ?f) (py_range n_iterations) theta) 2 1"
  proof (rule for_loop_invariant [where P = "\<lambda>t. has_shape t 2 1", OF theta])
    fix i :: int and s
    assume s: "has_shape s 2 1"
    have "bgd_body X_b y i s = Inr (?f s)"
      using X y n s by (rule bgd_body_textbook)
    moreover have "has_shape (?f s) 2 1"
      using s by (rule textbook_bgd_update_shape)
    ultimately show "bgd_body X_b y i s = Inr (?f s) \<and> has_shape (?f s) 2 1"
      by (simp only: simp_thms)
  qed
  then show ?thesis
    by (simp add: fold_const_funpow py_range_length n_iterations_def)
qed

text \<open>
  One batch update and one stochastic step, evaluated: on
  \<open>X_b = [[1, 1], [1, 2]]\<close>, \<open>y = [[3], [5]]\<close> and \<open>theta = 0\<close> the gradient vector
  is \<open>0.02 * [[-8], [-13]]\<close>, and the update subtracts \<open>0.1\<close> times it.
\<close>

lemma bgd_body_example:
  "bgd_body [[1, 1], [1, 2]] [[3], [5]] 0 [[0], [0]] =
     Inr [[20769187434139312099389054151295 / 1298074214633706907132624082305024],
          [269999436643811057292057703966835 / 10384593717069655257060992658440192]] \<and>
   textbook_bgd_update eta (5764607523034235 / 2 ^ 58) [[1, 1], [1, 2]] [[3], [5]] [[0], [0]] =
     [[20769187434139312099389054151295 / 1298074214633706907132624082305024],
      [269999436643811057292057703966835 / 10384593717069655257060992658440192]]"
  unfolding bgd_body_def two_over_m
  by (simp add: dot_def msub_def smul_def eta_def textbook_bgd_update_def textbook_gradient_def
      upt_2)

text \<open>
  The stochastic loop does not use the fixed rate \<open>eta = 0.1\<close> of the batch
  loop. Its cell rebinds \<open>eta\<close> at every inner step to the schedule's rate,
  which is \<open>0.1\<close> at the first step only: the second step of the first epoch
  has the rate \<open>5 / 51\<close>, rounded, and its update differs from the update with
  the fixed rate.
\<close>

theorem sgd_rate_not_fixed_counterexample:
  "sgd_eta 0 1 = Inr (7064470003718425 / 2 ^ 56) \<and>
   7064470003718425 / 2 ^ 56 \<noteq> eta \<and>
   sgd_body lcg_random (replicate 100 [1, 1]) (replicate 100 [3]) 0 1 ([[0], [0]], 0) =
     Inr ([[21193410011155275 / 36028797018963968], [21193410011155275 / 36028797018963968]],
          12345) \<and>
   textbook_sgd_update eta [1, 1] 3 [[0], [0]] =
     [[10808639105689191 / 18014398509481984], [10808639105689191 / 18014398509481984]]"
proof -
  have r: "learning_schedule (0 * m + 1) = Inr (7064470003718425 / 2 ^ 56)"
    using learning_schedule_1 by simp
  have k: "randint lcg_random 0 m = (45, 12345)"
    by (simp add: lcg_random_def lcg_next_def m_def Let_def)
  have xi: "py_slice (replicate 100 [1, 1 :: real]) 45 (45 + 1) = [[1, 1]]"
    using py_slice_one [of 45 "replicate 100 [1, 1 :: real]"] by simp
  have yi: "py_slice (replicate 100 [3 :: real]) 45 (45 + 1) = [[3]]"
    using py_slice_one [of 45 "replicate 100 [3 :: real]"] by simp
  have "sgd_body lcg_random (replicate 100 [1, 1]) (replicate 100 [3]) 0 1 ([[0], [0]], 0) =
      Inr (msub [[0], [0]] (smul (7064470003718425 / 2 ^ 56)
            (smul 2 (dot (transpose [[1, 1]]) (msub (dot [[1, 1]] [[0], [0]]) [[3]])))), 12345)"
    by (simp only: sgd_body_def prod.case k Let_def xi yi r sum.case)
  also have "\<dots> =
     Inr ([[21193410011155275 / 36028797018963968], [21193410011155275 / 36028797018963968]],
          12345)"
    by (simp add: dot_def msub_def smul_def)
  finally have "sgd_body lcg_random (replicate 100 [1, 1]) (replicate 100 [3]) 0 1
      ([[0], [0]], 0) =
     Inr ([[21193410011155275 / 36028797018963968], [21193410011155275 / 36028797018963968]],
          12345)" .
  moreover have "sgd_eta 0 1 = Inr (7064470003718425 / 2 ^ 56)"
    using r by (simp add: sgd_eta_def)
  moreover have "textbook_sgd_update eta [1, 1] 3 [[0], [0]] =
     [[10808639105689191 / 18014398509481984], [10808639105689191 / 18014398509481984]]"
    by (simp add: textbook_sgd_update_def eta_def upt_2)
  ultimately show ?thesis
    by (simp add: eta_def)
qed

text \<open>
  C5. On data of the notebook's shapes (\<open>X_b\<close> of 100 rows and 2 columns, \<open>y\<close>
  of 100 rows and 1 column, \<open>randn(2, 1)\<close> returning a \<open>2 \<times> 1\<close> array and
  \<open>randint(m)\<close> an index below \<open>m = 100\<close>) the batch loop draws a random \<open>theta\<close>
  and then performs exactly 1000 updates, each replacing \<open>theta\<close> by
  \<open>theta - eta * (2/m) * X_b\<^sup>T (X_b theta - y)\<close> with the fixed rate
  \<open>eta = 0.1\<close>. The stochastic loop draws a random \<open>theta_sgd\<close> and then
  performs, for each of 50 epochs, 100 inner steps; each step draws an index
  \<open>k\<close> and replaces \<open>theta_sgd\<close> by \<open>theta_sgd - eta * 2 * xi\<^sup>T (xi theta_sgd - yi)\<close>
  on the instance \<open>xi = X_b[k]\<close>, \<open>yi = y[k]\<close>, where \<open>eta\<close> is not the fixed rate
  but the schedule's rate \<open>learning_schedule(epoch * m + i)\<close>, the double
  nearest to \<open>5 / (epoch * m + i + 50)\<close>. Neither loop raises. The constants
  \<open>0.1\<close> and \<open>2/m\<close> are doubles; the array arithmetic is taken exactly.
\<close>

theorem gradient_descent_is_textbook_with_schedule:
  assumes "has_shape X_b 100 2" and "has_shape y 100 1"
    and "\<And>g. has_shape (fst (randn np g 2 1)) 2 1"
    and "\<And>g. 0 \<le> fst (randint np g m) \<and> fst (randint np g m) < 100"
  shows "batch_gradient_descent np g X_b y =
     Inr ((textbook_bgd_update eta (5764607523034235 / 2 ^ 58) X_b y ^^ 1000)
            (fst (randn np g 2 1)),
          snd (randn np g 2 1)) \<and>
   stochastic_gradient_descent np g X_b y =
     Inr (fold (textbook_sgd_step np X_b y) (List.product (py_range 50) (py_range 100))
            (randn np g 2 1)) \<and>
   length (List.product (py_range 50) (py_range 100)) = 50 * 100 \<and>
   fl (1 / 10) = Finite eta \<and> fl (2 / 100) = Finite (5764607523034235 / 2 ^ 58)"
proof (intro conjI)
  obtain theta0 g' where rn: "randn np g 2 1 = (theta0, g')"
    by (cases "randn np g 2 1")
  have shape0: "has_shape theta0 2 1"
    using assms(3) [of g] by (simp add: rn)
  have pos: "(0::nat) < 100"
    by simp
  have "for_loop (bgd_body X_b y) (py_range n_iterations) theta0 =
      Inr ((textbook_bgd_update eta (5764607523034235 / 2 ^ 58) X_b y ^^ 1000) theta0)"
    using assms(1,2) pos shape0 by (rule bgd_loop_textbook)
  then show "batch_gradient_descent np g X_b y =
     Inr ((textbook_bgd_update eta (5764607523034235 / 2 ^ 58) X_b y ^^ 1000)
            (fst (randn np g 2 1)),
          snd (randn np g 2 1))"
    by (simp add: batch_gradient_descent_def rn)
  have shape1: "has_shape (fst (theta0, g')) 2 1"
    using shape0 by simp
  have "for_loop (\<lambda>epoch. for_loop (sgd_body np X_b y epoch) (py_range m)) (py_range n_epochs)
        (theta0, g') =
      Inr (fold (textbook_sgd_step np X_b y) (List.product (py_range 50) (py_range 100))
        (theta0, g'))"
    using assms(1,2,4) shape1 by (rule sgd_loops_textbook)
  then show "stochastic_gradient_descent np g X_b y =
     Inr (fold (textbook_sgd_step np X_b y) (List.product (py_range 50) (py_range 100))
            (randn np g 2 1))"
    by (simp add: stochastic_gradient_descent_def rn)
next
  show "length (List.product (py_range 50) (py_range 100)) = 50 * 100"
    by (simp add: py_range_length)
next
  show "fl (1 / 10) = Finite eta"
    by (rule eta_is_literal)
next
  show "fl (2 / 100) = Finite (5764607523034235 / 2 ^ 58)"
    by (rule fl_eval [where k = 58 and n = 5764607523034235]) (simp_all add: round_even_def)
qed

lemma lcg_randn_column:
  "fst (randn lcg_random g 2 1) =
     [[- 1 / 2 + real (lcg_next g) / 2147483648],
      [- 1 / 2 + real (lcg_next (lcg_next g)) / 2147483648]]"
proof -
  have "lcg_rows (Suc (Suc 0)) (Suc 0) g =
      ([[real (lcg_next g) / 2147483648], [real (lcg_next (lcg_next g)) / 2147483648]],
       lcg_next (lcg_next g))"
    by (simp add: Let_def)
  then show ?thesis
    by (simp add: lcg_random_def sadd_def numeral_2_eq_2)
qed

theorem gradient_descent_is_textbook_with_schedule_witness:
  "length (replicate 100 [1, 2 :: real]) = 100 \<and>
   length (replicate 100 [5 :: real]) = 100 \<and>
   batch_gradient_descent lcg_random 0 (replicate 100 [1, 2]) (replicate 100 [5]) =
     Inr ((textbook_bgd_update eta (5764607523034235 / 2 ^ 58)
             (replicate 100 [1, 2]) (replicate 100 [5]) ^^ 1000)
            (fst (randn lcg_random 0 2 1)),
          snd (randn lcg_random 0 2 1)) \<and>
   stochastic_gradient_descent lcg_random 0 (replicate 100 [1, 2]) (replicate 100 [5]) =
     Inr (fold (textbook_sgd_step lcg_random (replicate 100 [1, 2]) (replicate 100 [5]))
            (List.product (py_range 50) (py_range 100)) (randn lcg_random 0 2 1))"
proof -
  have X: "has_shape (replicate 100 [1, 2 :: real]) 100 2"
    by (simp add: has_shape_def list_all_iff)
  have y: "has_shape (replicate 100 [5 :: real]) 100 1"
    by (simp add: has_shape_def list_all_iff)
  have n: "\<And>g. has_shape (fst (randn lcg_random g 2 1)) 2 1"
    by (simp add: lcg_randn_column has_shape_def)
  have k: "\<And>g. 0 \<le> fst (randint lcg_random g m) \<and> fst (randint lcg_random g m) < 100"
    by (simp add: lcg_random_def m_def Let_def)
  show ?thesis
    using gradient_descent_is_textbook_with_schedule [OF X y n k, of 0] by simp
qed

text \<open>
  C7, as amended. The notebook seeds the generator before it draws its data,
  so its computed values do not depend on the generator's state before the
  run: two executions give the same data set, the same \<open>theta_best\<close> from the
  normal equation, and the same results of both gradient descent loops.
\<close>

theorem seeded_notebook_deterministic:
  "create_dataset np g = create_dataset np g' \<and>
   theta_best_run np linalg_inv g = theta_best_run np linalg_inv g' \<and>
   notebook_run np linalg_inv g = notebook_run np linalg_inv g'"
  by (simp add: create_dataset_def theta_best_run_def notebook_run_def)

text \<open>
  The claim that no cell is guaranteed to give equal results on two
  executions fails: with the example generator started in two different
  states, the first cell yields the same data and the normal equation cell the
  same \<open>theta_best\<close>.
\<close>

theorem theta_best_equal_counterexample:
  "create_dataset lcg_random 0 = create_dataset lcg_random 12345 \<and>
   theta_best_run lcg_random inv2 0 = theta_best_run lcg_random inv2 12345"
  by (simp add: create_dataset_def theta_best_run_def)

section \<open>NumPy and standard-library operations used by the agents\<close>

text \<open>
  One-dimensional arrays are lists, two-dimensional arrays are lists of rows.
  Indexing with an integer follows Python: a negative index counts from the
  end, an index outside \<open>[-n, n)\<close> raises \<open>IndexError\<close>.
\<close>

definition norm_index :: "nat \<Rightarrow> int \<Rightarrow> py_error + nat" where
  "norm_index n i =
     (if 0 \<le> i \<and> i < int n then Inr (nat i)
      else if i < 0 \<and> - int n \<le> i then Inr (nat (int n + i))
      else Inl IndexError)"

definition np_getitem :: "'a list \<Rightarrow> int \<Rightarrow> py_error + 'a" where
  "np_getitem xs i =
     (case norm_index (length xs) i of
        Inl e \<Rightarrow> Inl e
      | Inr j \<Rightarrow> Inr (xs ! j))"

definition np_setitem :: "'a list \<Rightarrow> int \<Rightarrow> 'a \<Rightarrow> py_error + 'a list" where
  "np_setitem xs i v =
     (case norm_index (length xs) i of
        Inl e \<Rightarrow> Inl e
      | Inr j \<Rightarrow> Inr (xs[j := v]))"

text \<open>\<open>np.amax\<close> of a one-dimensional array; an empty array raises \<open>ValueError\<close>.\<close>

fun np_amax :: "real list \<Rightarrow> py_error + real" where
  "np_amax [] = Inl ValueError"
| "np_amax (x # xs) = Inr (fold max xs x)"

text \<open>\<open>np.argmax\<close>: the index of the first occurrence of the maximum.\<close>

fun argmax_from :: "nat \<Rightarrow> real \<Rightarrow> nat \<Rightarrow> real list \<Rightarrow> nat" where
  "argmax_from best_i best_v i [] = best_i"
| "argmax_from best_i best_v i (x # xs) =
     (if best_v < x then argmax_from i x (Suc i) xs
      else argmax_from best_i best_v (Suc i) xs)"

fun np_argmax :: "real list \<Rightarrow> py_error + int" where
  "np_argmax [] = Inl ValueError"
| "np_argmax (x # xs) = Inr (int (argmax_from 0 x 1 xs))"

text \<open>
  \<open>random.randrange(n)\<close>: \<open>ValueError\<close> for \<open>n \<le> 0\<close>, otherwise a value of
  \<open>[0, n)\<close>; \<open>k\<close> is the generator's raw draw.
\<close>

definition randrange :: "int \<Rightarrow> int \<Rightarrow> py_error + int" where
  "randrange n k = (if n \<le> 0 then Inl ValueError else Inr (k mod n))"

text \<open>
  \<open>collections.deque(maxlen=n)\<close>: \<open>append\<close> adds the item on the right and,
  when the deque then holds more than \<open>maxlen\<close> items, removes the leftmost one.
\<close>

record 'a deque =
  items :: "'a list"
  maxlen :: nat

definition deque_new :: "nat \<Rightarrow> 'a deque" where
  "deque_new n = \<lparr>items = [], maxlen = n\<rparr>"

definition deque_append :: "'a deque \<Rightarrow> 'a \<Rightarrow> 'a deque" where
  "deque_append d x =
     (let xs = items d @ [x]
      in if maxlen d < length xs then d\<lparr>items := tl xs\<rparr> else d\<lparr>items := xs\<rparr>)"

section \<open>DQNAgent\<close>

text \<open>
  \<^verbatim>\<open>
  class DQNAgent:
      def __init__(self, state_size, action_size):
          self.state_size = state_size
          self.action_size = action_size
          self.memory = deque(maxlen=2000)
          self.gamma = 0.95    # discount rate
          self.epsilon = 1.0   # exploration rate
          self.epsilon_min = 0.01
          self.epsilon_decay = 0.995
          self.learning_rate = 0.001
          self.model = self._build_model()
          self.target_model = self._build_model()
  \<close>
  A stored transition is the tuple \<open>(state, action, reward, next_state, done)\<close>.
  The Keras networks are values of a type \<open>'w\<close>; \<open>predict\<close> and \<open>fit\<close> are the
  library's operations on them and are parameters of the model, as are the two
  freshly built networks \<open>w1\<close> and \<open>w2\<close> that \<open>_build_model\<close> returns.
\<close>

type_synonym 's transition = "'s \<times> int \<times> real \<times> 's \<times> bool"

record ('s, 'w) DQNAgent =
  state_size :: int
  action_size :: int
  memory :: "'s transition deque"
  gamma :: real
  epsilon :: real
  epsilon_min :: real
  epsilon_decay :: real
  learning_rate :: real
  model :: 'w
  target_model :: 'w

definition dqn_init :: "int \<Rightarrow> int \<Rightarrow> 'w \<Rightarrow> 'w \<Rightarrow> ('s, 'w) DQNAgent" where
  "dqn_init ssize asize w1 w2 =
     \<lparr>state_size = ssize, action_size = asize, memory = deque_new 2000,
      gamma = 95 / 100, epsilon = 1, epsilon_min = 1 / 100,
      epsilon_decay = 995 / 1000, learning_rate = 1 / 1000,
      model = w1, target_model = w2\<rparr>"

text \<open>
  \<^verbatim>\<open>
  def remember(self, state, action, reward, next_state, done):
      self.memory.append((state, action, reward, next_state, done))
  \<close>
\<close>

definition remember ::
  "('s, 'w) DQNAgent \<Rightarrow> 's \<Rightarrow> int \<Rightarrow> real \<Rightarrow> 's \<Rightarrow> bool \<Rightarrow> ('s, 'w) DQNAgent" where
  "remember self state action reward next_state done =
     self\<lparr>memory := deque_append (memory self) (state, action, reward, next_state, done)\<rparr>"

text \<open>
  \<^verbatim>\<open>
  def act(self, state):
      if np.random.rand() <= self.epsilon:
          return random.randrange(self.action_size)
      act_values = self.model.predict(state)
      return np.argmax(act_values[0])
  \<close>
  \<open>u\<close> is the value drawn by \<open>np.random.rand()\<close> and \<open>k\<close> the draw of
  \<open>random.randrange\<close>. The agent is not changed.
\<close>

definition act ::
  "('w \<Rightarrow> 's \<Rightarrow> real list list) \<Rightarrow> ('s, 'w) DQNAgent \<Rightarrow> 's \<Rightarrow> real \<Rightarrow> int \<Rightarrow> py_error + int" where
  "act predict self state u k =
     (if u \<le> epsilon self then randrange (action_size self) k
      else
        (case np_getitem (predict (model self) state) 0 of
           Inl e \<Rightarrow> Inl e
         | Inr row \<Rightarrow> np_argmax row))"

text \<open>
  The body of the loop of \<open>replay\<close>, up to the call of \<open>fit\<close>:
  \<^verbatim>\<open>
  target = self.model.predict(state)
  if done:
      target[0][action] = reward
  else:
      t = self.target_model.predict(next_state)
      target[0][action] = reward + self.gamma * np.amax(t[0])
  \<close>
  Python evaluates the right-hand side of the assignment first, then
  \<open>target[0]\<close>, then stores into that row.
\<close>

definition store_row0 :: "real list list \<Rightarrow> int \<Rightarrow> real \<Rightarrow> py_error + real list list" where
  "store_row0 target action v =
     (case np_getitem target 0 of
        Inl e \<Rightarrow> Inl e
      | Inr row \<Rightarrow>
          (case np_setitem row action v of
             Inl e \<Rightarrow> Inl e
           | Inr row' \<Rightarrow> Inr (target[0 := row'])))"

definition replay_target ::
  "('w \<Rightarrow> 's \<Rightarrow> real list list) \<Rightarrow> real \<Rightarrow> 'w \<Rightarrow> 'w \<Rightarrow> 's transition
     \<Rightarrow> py_error + real list list" where
  "replay_target predict gam w tw tr =
     (case tr of (state, action, reward, next_state, done) \<Rightarrow>
        (let target = predict w state
         in if done then store_row0 target action reward
            else
              (let t = predict tw next_state
               in case np_getitem t 0 of
                    Inl e \<Rightarrow> Inl e
                  | Inr t0row \<Rightarrow>
                      (case np_amax t0row of
                         Inl e \<Rightarrow> Inl e
                       | Inr mx \<Rightarrow> store_row0 target action (reward + gam * mx)))))"

text \<open>
  \<^verbatim>\<open>
  for state, action, reward, next_state, done in minibatch:
      ...
      self.model.fit(state, target, epochs=1, verbose=0)
  \<close>
  \<open>fit\<close> updates the online network in place; the target network is not touched.
\<close>

fun replay_loop ::
  "('w \<Rightarrow> 's \<Rightarrow> real list list) \<Rightarrow> ('w \<Rightarrow> 's \<Rightarrow> real list list \<Rightarrow> 'w) \<Rightarrow> real \<Rightarrow> 'w \<Rightarrow> 'w
     \<Rightarrow> 's transition list \<Rightarrow> py_error + 'w" where
  "replay_loop predict fit gam tw w [] = Inr w"
| "replay_loop predict fit gam tw w (tr # rest) =
     (case replay_target predict gam w tw tr of
        Inl e \<Rightarrow> Inl e
      | Inr target \<Rightarrow> replay_loop predict fit gam tw (fit w (fst tr) target) rest)"

text \<open>
  \<^verbatim>\<open>
  def replay(self, batch_size):
      minibatch = random.sample(self.memory, batch_size)
      for ... in minibatch: ...
      if self.epsilon > self.epsilon_min:
          self.epsilon *= self.epsilon_decay
  \<close>
  \<open>random.sample\<close> raises \<open>ValueError\<close> when \<open>batch_size\<close> is negative or larger
  than the population; otherwise it returns \<open>batch_size\<close> items chosen by the
  generator, here the parameter \<open>sample\<close>.
\<close>

definition replay ::
  "('w \<Rightarrow> 's \<Rightarrow> real list list) \<Rightarrow> ('w \<Rightarrow> 's \<Rightarrow> real list list \<Rightarrow> 'w)
     \<Rightarrow> ('s transition list \<Rightarrow> nat \<Rightarrow> 's transition list)
     \<Rightarrow> ('s, 'w) DQNAgent \<Rightarrow> int \<Rightarrow> py_error + ('s, 'w) DQNAgent" where
  "replay predict fit sample self batch_size =
     (if batch_size < 0 \<or> int (length (items (memory self))) < batch_size then Inl ValueError
      else
        (let minibatch = sample (items (memory self)) (nat batch_size)
         in case replay_loop predict fit (gamma self) (target_model self) (model self) minibatch of
              Inl e \<Rightarrow> Inl e
            | Inr w \<Rightarrow>
                Inr (self\<lparr>model := w,
                          epsilon := (if epsilon self > epsilon_min self
                                      then epsilon self * epsilon_decay self
                                      else epsilon self)\<rparr>)))"

text \<open>
  \<^verbatim>\<open>
  def update_target_model(self):
      self.target_model.set_weights(self.model.get_weights())
  \<close>
\<close>

definition update_target_model :: "('s, 'w) DQNAgent \<Rightarrow> ('s, 'w) DQNAgent" where
  "update_target_model self = self\<lparr>target_model := model self\<rparr>"

text \<open>A call of one of the agent's methods, and a sequence of calls on one agent.\<close>

datatype 's dqn_call =
    Remember 's int real 's bool
  | Act 's real int
  | Replay int
  | UpdateTargetModel

definition dqn_call ::
  "('w \<Rightarrow> 's \<Rightarrow> real list list) \<Rightarrow> ('w \<Rightarrow> 's \<Rightarrow> real list list \<Rightarrow> 'w)
     \<Rightarrow> ('s transition list \<Rightarrow> nat \<Rightarrow> 's transition list)
     \<Rightarrow> ('s, 'w) DQNAgent \<Rightarrow> 's dqn_call \<Rightarrow> py_error + ('s, 'w) DQNAgent" where
  "dqn_call predict fit sample self c =
     (case c of
        Remember state action reward next_state done \<Rightarrow>
          Inr (remember self state action reward next_state done)
      | Act state u k \<Rightarrow>
          (case act predict self state u k of Inl e \<Rightarrow> Inl e | Inr a \<Rightarrow> Inr self)
      | Replay batch_size \<Rightarrow> replay predict fit sample self batch_size
      | UpdateTargetModel \<Rightarrow> Inr (update_target_model self))"

fun dqn_run ::
  "('w \<Rightarrow> 's \<Rightarrow> real list list) \<Rightarrow> ('w \<Rightarrow> 's \<Rightarrow> real list list \<Rightarrow> 'w)
     \<Rightarrow> ('s transition list \<Rightarrow> nat \<Rightarrow> 's transition list)
     \<Rightarrow> ('s, 'w) DQNAgent \<Rightarrow> 's dqn_call list \<Rightarrow> py_error + ('s, 'w) DQNAgent" where
  "dqn_run predict fit sample self [] = Inr self"
| "dqn_run predict fit sample self (c # cs) =
     (case dqn_call predict fit sample self c of
        Inl e \<Rightarrow> Inl e
      | Inr self' \<Rightarrow> dqn_run predict fit sample self' cs)"

subsection \<open>The replay memory is bounded\<close>

definition memory_ok :: "('s, 'w) DQNAgent \<Rightarrow> bool" where
  "memory_ok self = (maxlen (memory self) = 2000 \<and> length (items (memory self)) \<le> 2000)"

lemma deque_append_length:
  "length (items d) \<le> maxlen d \<Longrightarrow> length (items (deque_append d x)) \<le> maxlen d"
  by (simp add: deque_append_def Let_def)

lemma deque_append_maxlen: "maxlen (deque_append d x) = maxlen d"
  by (simp add: deque_append_def Let_def)

lemma deque_append_items:
  "length (items d) \<le> maxlen d \<Longrightarrow> 0 < maxlen d \<Longrightarrow>
   items (deque_append d x) =
     (if length (items d) = maxlen d then tl (items d) @ [x] else items d @ [x])"
  by (cases "items d") (auto simp add: deque_append_def Let_def)

lemma memory_ok_init: "memory_ok (dqn_init ssize asize w1 w2)"
  by (simp add: memory_ok_def dqn_init_def deque_new_def)

lemma memory_ok_remember:
  "memory_ok self \<Longrightarrow> memory_ok (remember self s a r s' d)"
  using deque_append_length [of "memory self" "(s, a, r, s', d)"]
  by (simp add: memory_ok_def remember_def deque_append_maxlen)

lemma memory_replay:
  "replay predict fit sample self n = Inr self' \<Longrightarrow> memory self' = memory self"
  by (auto simp add: replay_def Let_def split: if_splits sum.splits)

lemma memory_ok_call:
  "memory_ok self \<Longrightarrow> dqn_call predict fit sample self c = Inr self' \<Longrightarrow> memory_ok self'"
proof (cases c)
  case (Remember s a r s' d)
  assume "memory_ok self" and "dqn_call predict fit sample self c = Inr self'"
  then show ?thesis
    using Remember memory_ok_remember [of self s a r s' d] by (simp add: dqn_call_def)
next
  case (Act s u k)
  assume "memory_ok self" and "dqn_call predict fit sample self c = Inr self'"
  then show ?thesis
    using Act by (auto simp add: dqn_call_def split: sum.splits)
next
  case (Replay n)
  assume ok: "memory_ok self" and "dqn_call predict fit sample self c = Inr self'"
  then have "replay predict fit sample self n = Inr self'"
    using Replay by (simp add: dqn_call_def)
  then have "memory self' = memory self"
    by (rule memory_replay)
  with ok show ?thesis by (simp add: memory_ok_def)
next
  case UpdateTargetModel
  assume "memory_ok self" and "dqn_call predict fit sample self c = Inr self'"
  then show ?thesis
    using UpdateTargetModel by (auto simp add: dqn_call_def update_target_model_def memory_ok_def)
qed

lemma memory_ok_run:
  "memory_ok self \<Longrightarrow> dqn_run predict fit sample self cs = Inr self' \<Longrightarrow> memory_ok self'"
proof (induction cs arbitrary: self)
  case Nil
  then show ?case by simp
next
  case (Cons c cs)
  then obtain mid where step: "dqn_call predict fit sample self c = Inr mid"
    and rest: "dqn_run predict fit sample mid cs = Inr self'"
    by (auto split: sum.splits)
  have "memory_ok mid"
    using Cons.prems(1) step by (rule memory_ok_call)
  then show ?case
    using rest by (rule Cons.IH)
qed


lemma run_remember_replicate:
  "n + length (items (memory self)) \<le> maxlen (memory self) \<Longrightarrow>
   dqn_run predict fit sample self (replicate n (Remember s a r s' d)) =
     Inr (self\<lparr>memory := (memory self)\<lparr>items := items (memory self) @ replicate n (s, a, r, s', d)\<rparr>\<rparr>)"
proof (induction n arbitrary: self)
  case 0
  then show ?case by simp
next
  case (Suc n)
  let ?mid = "remember self s a r s' d"
  have mid: "memory ?mid = (memory self)\<lparr>items := items (memory self) @ [(s, a, r, s', d)]\<rparr>"
    using Suc.prems by (simp add: remember_def deque_append_def Let_def)
  then have "n + length (items (memory ?mid)) \<le> maxlen (memory ?mid)"
    using Suc.prems by simp
  then have "dqn_run predict fit sample ?mid (replicate n (Remember s a r s' d)) =
     Inr (?mid\<lparr>memory := (memory ?mid)\<lparr>items := items (memory ?mid) @ replicate n (s, a, r, s', d)\<rparr>\<rparr>)"
    by (rule Suc.IH)
  then show ?case
    using mid by (simp add: dqn_call_def remember_def replicate_app_Cons_same)
qed

text \<open>
  C8. Whatever sequence of method calls has been made on a freshly constructed
  agent, its replay memory holds at most 2000 transitions; a further
  \<open>remember\<close> keeps that bound, and it drops exactly the oldest transition
  when the memory is full and only appends otherwise.
\<close>

theorem dqn_memory_bounded:
  assumes "dqn_run predict fit sample (dqn_init ssize asize w1 w2) calls = Inr self"
  shows "length (items (memory self)) \<le> 2000 \<and>
         length (items (memory (remember self s a r s' d))) \<le> 2000 \<and>
         items (memory (remember self s a r s' d)) =
           (if length (items (memory self)) = 2000
            then tl (items (memory self)) @ [(s, a, r, s', d)]
            else items (memory self) @ [(s, a, r, s', d)])"
proof -
  have ok: "memory_ok self"
    using memory_ok_init assms by (rule memory_ok_run)
  have ok': "memory_ok (remember self s a r s' d)"
    using ok by (rule memory_ok_remember)
  have "items (deque_append (memory self) (s, a, r, s', d)) =
          (if length (items (memory self)) = maxlen (memory self)
           then tl (items (memory self)) @ [(s, a, r, s', d)]
           else items (memory self) @ [(s, a, r, s', d)])"
    using ok by (intro deque_append_items) (simp_all add: memory_ok_def)
  then show ?thesis
    using ok ok' by (simp add: memory_ok_def remember_def)
qed

theorem dqn_memory_bounded_witness:
  "dqn_run (\<lambda>w s. [[0]]) (\<lambda>w s t. w) (\<lambda>xs k. take k xs) (dqn_init 4 2 () ())
      (replicate 2000 (Remember (0::nat) 1 1 0 False)) =
     Inr ((dqn_init 4 2 () ())\<lparr>memory := \<lparr>items = replicate 2000 (0, 1, 1, 0, False), maxlen = 2000\<rparr>\<rparr>) \<and>
   items (memory (remember
      ((dqn_init 4 2 () ())\<lparr>memory := \<lparr>items = replicate 2000 (0::nat, 1, 1, 0, False), maxlen = 2000\<rparr>\<rparr>)
      7 0 5 8 True)) =
     replicate 1999 (0, 1, 1, 0, False) @ [(7, 0, 5, 8, True)]"
proof -
  have run: "dqn_run (\<lambda>w s. [[0]]) (\<lambda>w s t. w) (\<lambda>xs k. take k xs) (dqn_init 4 2 () ())
      (replicate 2000 (Remember (0::nat) 1 1 0 False)) =
     Inr ((dqn_init 4 2 () ())\<lparr>memory := \<lparr>items = replicate 2000 (0, 1, 1, 0, False), maxlen = 2000\<rparr>\<rparr>)"
    by (simp add: run_remember_replicate dqn_init_def deque_new_def)
  show ?thesis
    using run dqn_memory_bounded [OF run, of 7 0 5 8 True] by simp
qed

subsection \<open>The fitting targets of replay\<close>

text \<open>
  The textbook Q-learning target, stated from the rule itself: the entry of the
  taken action is the reward for a terminal transition and the reward plus the
  discounted maximum of the target network's values at the next state
  otherwise; every other entry is the online network's own prediction.
\<close>

definition textbook_q_target ::
  "real \<Rightarrow> real list \<Rightarrow> real list \<Rightarrow> nat \<Rightarrow> real \<Rightarrow> bool \<Rightarrow> real list" where
  "textbook_q_target gam q_state q_next action reward done =
     map (\<lambda>j. if j = action
              then (if done then reward else reward + gam * Max (set q_next))
              else q_state ! j)
       [0..<length q_state]"

definition textbook_fit ::
  "('w \<Rightarrow> 's \<Rightarrow> real list list) \<Rightarrow> ('w \<Rightarrow> 's \<Rightarrow> real list list \<Rightarrow> 'w) \<Rightarrow> real \<Rightarrow> 'w
     \<Rightarrow> 'w \<Rightarrow> 's transition \<Rightarrow> 'w" where
  "textbook_fit predict fit gam tw w tr =
     (case tr of (state, action, reward, next_state, done) \<Rightarrow>
        fit w state
          (textbook_q_target gam (hd (predict w state)) (hd (predict tw next_state))
             (nat action) reward done
           # tl (predict w state)))"

lemma list_update_as_map:
  "xs[k := v] = map (\<lambda>j. if j = k then v else xs ! j) [0..<length xs]"
  by (rule nth_equalityI) simp_all

lemma store_row0_Cons:
  "0 \<le> a \<Longrightarrow> a < int (length q) \<Longrightarrow>
   store_row0 (q # rest) a v = Inr (q[nat a := v] # rest)"
  by (simp add: store_row0_def np_getitem_def np_setitem_def norm_index_def)

lemma np_amax_Max: "xs \<noteq> [] \<Longrightarrow> np_amax xs = Inr (Max (set xs))"
proof (cases xs)
  case Nil
  assume "xs \<noteq> []"
  with Nil show ?thesis by simp
next
  case (Cons x rest)
  then show ?thesis
    using Max.set_eq_fold [of x rest] by simp
qed

lemma replay_target_textbook:
  assumes shape: "\<forall>w s. predict w s \<noteq> [] \<and> length (hd (predict w s)) = n"
    and n: "0 < n"
    and a: "0 \<le> action" "action < int n"
  shows "replay_target predict gam w tw (state, action, reward, next_state, done) =
           Inr (textbook_q_target gam (hd (predict w state)) (hd (predict tw next_state))
                  (nat action) reward done
                # tl (predict w state))"
proof -
  have "predict w state \<noteq> []" and "length (hd (predict w state)) = n"
    using shape by simp_all
  then obtain q rest where q: "predict w state = q # rest" "length q = n"
    by (cases "predict w state") simp_all
  have "predict tw next_state \<noteq> []" and "length (hd (predict tw next_state)) = n"
    using shape by simp_all
  then obtain q' rest' where q': "predict tw next_state = q' # rest'" "length q' = n"
    by (cases "predict tw next_state") simp_all
  have ne: "q' \<noteq> []" using q'(2) n by auto
  have st: "\<And>v. store_row0 (q # rest) action v = Inr (q[nat action := v] # rest)"
    using a q(2) by (simp add: store_row0_Cons)
  show ?thesis
    using ne by (simp add: replay_target_def q q' st np_getitem_def norm_index_def np_amax_Max
        textbook_q_target_def list_update_as_map [of q])
qed

lemma replay_loop_textbook:
  assumes shape: "\<forall>w s. predict w s \<noteq> [] \<and> length (hd (predict w s)) = n"
    and n: "0 < n"
  shows "\<forall>tr\<in>set minibatch. 0 \<le> fst (snd tr) \<and> fst (snd tr) < int n \<Longrightarrow>
         replay_loop predict fit gam tw w minibatch =
           Inr (foldl (textbook_fit predict fit gam tw) w minibatch)"
proof (induction minibatch arbitrary: w)
  case Nil
  then show ?case by simp
next
  case (Cons tr rest)
  obtain state action reward next_state d where tr: "tr = (state, action, reward, next_state, d)"
    by (cases tr) auto
  have a: "0 \<le> action" "action < int n"
    using Cons.prems tr by auto
  have tgt: "replay_target predict gam w tw tr =
           Inr (textbook_q_target gam (hd (predict w state)) (hd (predict tw next_state))
                  (nat action) reward d
                # tl (predict w state))"
    unfolding tr using shape n a by (rule replay_target_textbook)
  have "\<forall>tr\<in>set rest. 0 \<le> fst (snd tr) \<and> fst (snd tr) < int n"
    using Cons.prems by simp
  then have "replay_loop predict fit gam tw (textbook_fit predict fit gam tw w tr) rest =
           Inr (foldl (textbook_fit predict fit gam tw) (textbook_fit predict fit gam tw w tr) rest)"
    by (rule Cons.IH)
  moreover have "replay_loop predict fit gam tw w (tr # rest) =
           replay_loop predict fit gam tw (textbook_fit predict fit gam tw w tr) rest"
    using tgt by (simp add: textbook_fit_def tr)
  ultimately show ?case
    by simp
qed


text \<open>
  C6. \<open>replay\<close> applies the textbook Q-learning rule to every transition of
  the sampled minibatch, in order: the network is fitted on the state with a
  target whose entry for the taken action is the reward when \<open>done\<close> holds and
  the reward plus \<open>gamma\<close> times the maximum of the target network's values at
  the next state otherwise, all other entries being the online network's
  current predictions for the state. The networks map a state to one row of
  \<open>action_size\<close> values, and the stored actions are indices of that row.
\<close>

theorem replay_is_textbook_q_learning:
  assumes shape: "\<forall>w s. predict w s \<noteq> [] \<and> length (hd (predict w s)) = nat (action_size self)"
    and size: "0 < action_size self"
    and batch: "0 \<le> batch_size" "batch_size \<le> int (length (items (memory self)))"
    and minibatch: "minibatch = sample (items (memory self)) (nat batch_size)"
    and actions: "\<forall>tr\<in>set minibatch. 0 \<le> fst (snd tr) \<and> fst (snd tr) < action_size self"
  shows "replay predict fit sample self batch_size =
           Inr (self\<lparr>model :=
                       foldl (textbook_fit predict fit (gamma self) (target_model self))
                         (model self) minibatch,
                     epsilon :=
                       (if epsilon self > epsilon_min self
                        then epsilon self * epsilon_decay self
                        else epsilon self)\<rparr>)"
proof -
  have pos: "0 < nat (action_size self)"
    using size by simp
  have acts: "\<forall>tr\<in>set minibatch. 0 \<le> fst (snd tr) \<and> fst (snd tr) < int (nat (action_size self))"
    using actions size by simp
  have "replay_loop predict fit (gamma self) (target_model self) (model self) minibatch =
           Inr (foldl (textbook_fit predict fit (gamma self) (target_model self))
                  (model self) minibatch)"
    using shape pos acts by (rule replay_loop_textbook)
  then show ?thesis
    using batch minibatch by (simp add: replay_def Let_def)
qed

theorem replay_is_textbook_q_learning_witness:
  "items (memory
      (remember (remember (dqn_init 1 2 (1::real) 2) (3::real) 0 1 4 False) 5 1 10 6 True)) =
     [(3, 0, 1, 4, False), (5, 1, 10, 6, True)] \<and>
   replay (\<lambda>w s. [[w, s]]) (\<lambda>w s t. sum_list (concat t)) (\<lambda>xs k. take k xs)
      (remember (remember (dqn_init 1 2 (1::real) 2) (3::real) 0 1 4 False) 5 1 10 6 True) 2 =
     Inr ((remember (remember (dqn_init 1 2 1 2) 3 0 1 4 False) 5 1 10 6 True)
            \<lparr>model := 89 / 5, epsilon := 199 / 200\<rparr>)"
proof -
  let ?self = "remember (remember (dqn_init 1 2 (1::real) 2) (3::real) 0 1 4 False) 5 1 10 6 True"
  let ?predict = "\<lambda>(w::real) (s::real). [[w, s]]"
  have mem: "items (memory ?self) = [(3, 0, 1, 4, False), (5, 1, 10, 6, True)]"
    by (simp add: remember_def dqn_init_def deque_new_def deque_append_def)
  have asz: "action_size ?self = 2" and gam: "gamma ?self = 95 / 100"
    and ws: "model ?self = 1" "target_model ?self = 2"
    and eps: "epsilon ?self = 1" "epsilon_min ?self = 1 / 100" "epsilon_decay ?self = 995 / 1000"
    by (simp_all add: remember_def dqn_init_def)
  have shape: "\<forall>w s. ?predict w s \<noteq> [] \<and> length (hd (?predict w s)) = nat (action_size ?self)"
    by (simp add: asz)
  have acts: "\<forall>tr\<in>set (take (nat 2) (items (memory ?self))).
                0 \<le> fst (snd tr) \<and> fst (snd tr) < action_size ?self"
    by (simp add: mem asz)
  have "replay ?predict (\<lambda>w s t. sum_list (concat t)) (\<lambda>xs k. take k xs) ?self 2 =
           Inr (?self\<lparr>model :=
                       foldl (textbook_fit ?predict (\<lambda>w s t. sum_list (concat t)) (gamma ?self) (target_model ?self))
                         (model ?self) (take (nat 2) (items (memory ?self))),
                     epsilon :=
                       (if epsilon ?self > epsilon_min ?self
                        then epsilon ?self * epsilon_decay ?self
                        else epsilon ?self)\<rparr>)"
    using shape by (rule replay_is_textbook_q_learning) (simp_all add: mem asz)
  then show ?thesis
    by (simp add: mem gam ws eps textbook_fit_def textbook_q_target_def upt_rec)
qed

section \<open>PGAgent\<close>

text \<open>
  The arithmetic of \<open>PGAgent.train\<close> is the arithmetic of Python floats and of
  NumPy \<open>float64\<close> arrays, in double precision.

  \<open>np.sum\<close> of a one-dimensional array adds the array's pairwise sum to the
  initial value \<open>0\<close>. The pairwise sum of fewer than 8 elements adds them from
  left to right, starting from zero; up to 128 elements it keeps 8 running
  sums over the blocks of 8, combines them, and adds the elements left over;
  a longer array is split at about the middle, at a multiple of 8.
\<close>

fun sum_from :: "np_float \<Rightarrow> np_float list \<Rightarrow> np_float" where
  "sum_from res [] = res"
| "sum_from res (x # xs) = sum_from (fadd res x) xs"

fun add_blocks :: "nat \<Rightarrow> np_float list \<Rightarrow> np_float list \<Rightarrow> np_float list" where
  "add_blocks 0 r a = r"
| "add_blocks (Suc b) r a = add_blocks b (map2 fadd r (take 8 a)) (drop 8 a)"

definition block_sum :: "np_float list \<Rightarrow> np_float" where
  "block_sum a =
     (let n = length a;
          r = add_blocks (n div 8 - 1) (take 8 a) (drop 8 a);
          res = fadd (fadd (fadd (r ! 0) (r ! 1)) (fadd (r ! 2) (r ! 3)))
                     (fadd (fadd (r ! 4) (r ! 5)) (fadd (r ! 6) (r ! 7)))
      in sum_from res (drop (8 * (n div 8)) a))"

definition split_point :: "nat \<Rightarrow> nat" where
  "split_point n = n div 2 - (n div 2) mod 8"

function pairwise_sum :: "np_float list \<Rightarrow> np_float" where
  "pairwise_sum a =
     (if length a < 8 then sum_from (Finite 0) a
      else if length a \<le> 128 then block_sum a
      else fadd (pairwise_sum (take (split_point (length a)) a))
                (pairwise_sum (drop (split_point (length a)) a)))"
  by pat_completeness auto

lemma split_point_bounds:
  assumes "128 < n"
  shows "0 < split_point n \<and> split_point n < n"
proof -
  have "(n div 2) mod 8 < 8"
    by simp
  moreover have "64 \<le> n div 2"
    using assms by simp
  moreover have "n div 2 < n"
    using assms by simp
  ultimately show ?thesis
    unfolding split_point_def by linarith
qed

termination pairwise_sum
proof (relation "measure length")
  show "wf (measure length)"
    by simp
next
  fix a :: "np_float list"
  assume "\<not> length a < 8" and "\<not> length a \<le> 128"
  then have "128 < length a"
    by simp
  then have "0 < split_point (length a) \<and> split_point (length a) < length a"
    by (rule split_point_bounds)
  then show "(take (split_point (length a)) a, a) \<in> measure length"
    by simp
next
  fix a :: "np_float list"
  assume "\<not> length a < 8" and "\<not> length a \<le> 128"
  then have "128 < length a"
    by simp
  then have "0 < split_point (length a) \<and> split_point (length a) < length a"
    by (rule split_point_bounds)
  then have "length a - split_point (length a) < length a"
    by linarith
  then show "(drop (split_point (length a)) a, a) \<in> measure length"
    by simp
qed

declare pairwise_sum.simps [simp del]

definition np_sum :: "np_float list \<Rightarrow> np_float" where
  "np_sum a = fadd (Finite 0) (pairwise_sum a)"

text \<open>
  \<open>np.mean\<close> divides the sum by the number of elements, and \<open>np.std\<close> is the
  square root of the mean of the squared deviations from the mean. Neither
  raises: on an empty array both are \<open>0 / 0 = nan\<close>.
\<close>

definition np_mean :: "np_float list \<Rightarrow> np_float" where
  "np_mean a = fdiv (np_sum a) (Finite (real (length a)))"

definition np_std :: "np_float list \<Rightarrow> np_float" where
  "np_std a =
     (let arrmean = np_mean a;
          x = map (\<lambda>v. fsub v arrmean) a;
          x2 = map (\<lambda>v. fmul v v) x
      in fsqrt (fdiv (np_sum x2) (Finite (real (length a)))))"

text \<open>
  \<open>np.vstack\<close> of a list of rows: \<open>ValueError\<close> on an empty list and on rows
  of different lengths.
\<close>

definition np_vstack :: "real list list \<Rightarrow> py_error + real list list" where
  "np_vstack rows =
     (if rows = [] then Inl ValueError
      else if list_all (\<lambda>row. length row = length (hd rows)) rows then Inr rows
      else Inl ValueError)"

text \<open>
  \<open>tf.keras.utils.to_categorical(y, num_classes)\<close>: when \<open>num_classes\<close> is
  zero (or not given) it is the largest label plus one, and \<open>np.max\<close> of no
  labels raises \<open>ValueError\<close>; an array with a negative number of columns
  cannot be created; then one row per label, with a one at the label's index,
  stored by NumPy indexing.
\<close>

fun one_hot_rows :: "int list \<Rightarrow> int \<Rightarrow> py_error + real list list" where
  "one_hot_rows [] num_classes = Inr []"
| "one_hot_rows (y # ys) num_classes =
     (case np_setitem (replicate (nat num_classes) 0) y 1 of
        Inl e \<Rightarrow> Inl e
      | Inr row \<Rightarrow>
          (case one_hot_rows ys num_classes of
             Inl e \<Rightarrow> Inl e
           | Inr rows \<Rightarrow> Inr (row # rows)))"

definition to_categorical :: "int list \<Rightarrow> int \<Rightarrow> py_error + real list list" where
  "to_categorical y num_classes =
     (if num_classes = 0 \<and> y = [] then Inl ValueError
      else
        (let k = (if num_classes = 0 then fold max (tl y) (hd y) + 1 else num_classes)
         in if k < 0 then Inl ValueError else one_hot_rows y k))"

text \<open>
  \<^verbatim>\<open>
  class PGAgent:
      def __init__(self, state_size, action_size):
          self.state_size = state_size
          self.action_size = action_size
          self.gamma = 0.95
          self.learning_rate = 0.001
          self.states = []
          self.actions = []
          self.rewards = []
          self.model = self._build_model()

      def remember(self, state, action, reward):
          self.states.append(state)
          self.actions.append(action)
          self.rewards.append(reward)
  \<close>
  The literals \<open>0.95\<close> and \<open>0.001\<close> are the nearest doubles. The rewards are
  Python floats.
\<close>

record 'w PGAgent =
  state_size :: int
  action_size :: int
  gamma :: real
  learning_rate :: real
  states :: "real list list"
  actions :: "int list"
  rewards :: "np_float list"
  model :: 'w

definition pg_init :: "int \<Rightarrow> int \<Rightarrow> 'w \<Rightarrow> 'w PGAgent" where
  "pg_init ssize asize w =
     \<lparr>state_size = ssize, action_size = asize,
      gamma = 4278419646001971 / 2 ^ 52, learning_rate = 1152921504606847 / 2 ^ 60,
      states = [], actions = [], rewards = [], model = w\<rparr>"

definition pg_remember :: "'w PGAgent \<Rightarrow> real list \<Rightarrow> int \<Rightarrow> np_float \<Rightarrow> 'w PGAgent" where
  "pg_remember self state action reward =
     self\<lparr>states := states self @ [state],
          actions := actions self @ [action],
          rewards := rewards self @ [reward]\<rparr>"

text \<open>
  \<^verbatim>\<open>
  def train(self):
      discounted_rewards = []
      Gt = 0
      for reward in reversed(self.rewards):
          Gt = reward + self.gamma * Gt
          discounted_rewards.insert(0, Gt)
  \<close>
  The loop runs over the reversed rewards; \<open>insert(0, Gt)\<close> puts the new
  return in front.
\<close>

fun discount_loop :: "real \<Rightarrow> np_float list \<Rightarrow> np_float \<Rightarrow> np_float list \<Rightarrow> np_float list" where
  "discount_loop gam [] Gt discounted_rewards = discounted_rewards"
| "discount_loop gam (reward # rest) Gt discounted_rewards =
     (let Gt' = fadd reward (fmul (Finite gam) Gt)
      in discount_loop gam rest Gt' (Gt' # discounted_rewards))"

definition discounted_returns :: "'w PGAgent \<Rightarrow> np_float list" where
  "discounted_returns self = discount_loop (gamma self) (rev (rewards self)) (Finite 0) []"

text \<open>
  \<^verbatim>\<open>
      # Normalize rewards
      discounted_rewards = np.array(discounted_rewards)
      discounted_rewards = (discounted_rewards - np.mean(discounted_rewards)) / np.std(discounted_rewards)
  \<close>
  There is no test of the divisor; the subtraction and the division are
  elementwise and do not raise.
\<close>

definition normalize_rewards :: "np_float list \<Rightarrow> np_float list" where
  "normalize_rewards discounted_rewards =
     (let mean = np_mean discounted_rewards;
          std = np_std discounted_rewards
      in map (\<lambda>x. fdiv (fsub x mean) std) discounted_rewards)"

definition sample_weight :: "'w PGAgent \<Rightarrow> np_float list" where
  "sample_weight self = normalize_rewards (discounted_returns self)"

text \<open>
  \<^verbatim>\<open>
      actions = tf.keras.utils.to_categorical(self.actions, num_classes=self.action_size)
      self.model.train_on_batch(np.vstack(self.states), actions, sample_weight=discounted_rewards)
      self.states, self.actions, self.rewards = [], [], []
  \<close>
  \<open>train_on_batch\<close> is the library's update of the network, a parameter here.
\<close>

definition pg_train ::
  "('w \<Rightarrow> real list list \<Rightarrow> real list list \<Rightarrow> np_float list \<Rightarrow> 'w) \<Rightarrow> 'w PGAgent
     \<Rightarrow> py_error + 'w PGAgent" where
  "pg_train train_on_batch self =
     (let discounted_rewards = sample_weight self
      in case to_categorical (actions self) (action_size self) of
           Inl e \<Rightarrow> Inl e
         | Inr onehot \<Rightarrow>
             (case np_vstack (states self) of
                Inl e \<Rightarrow> Inl e
              | Inr X \<Rightarrow>
                  Inr (self\<lparr>model := train_on_batch (model self) X onehot discounted_rewards,
                            states := [], actions := [], rewards := []\<rparr>)))"

subsection \<open>The divisor of the normalisation\<close>

lemma gamma_is_literal: "fl (95 / 100) = Finite (4278419646001971 / 2 ^ 52)"
  by (rule fl_eval [where k = 53 and n = 8556839292003942]) (simp_all add: round_even_def)

lemma learning_rate_is_literal: "fl (1 / 1000) = Finite (1152921504606847 / 2 ^ 60)"
  by (rule fl_eval [where k = 62 and n = 4611686018427388]) (simp_all add: round_even_def)

lemma discount_loop_length:
  "length (discount_loop gam rs Gt acc) = length rs + length acc"
  by (induction rs arbitrary: Gt acc) (simp_all add: Let_def)

lemma discounted_returns_length:
  "length (discounted_returns self) = length (rewards self)"
  by (simp add: discounted_returns_def discount_loop_length)

lemma sample_weight_length: "length (sample_weight self) = length (rewards self)"
  by (simp add: sample_weight_def normalize_rewards_def Let_def discounted_returns_length)

lemma pairwise_sum_small: "length a < 8 \<Longrightarrow> pairwise_sum a = sum_from (Finite 0) a"
  by (subst pairwise_sum.simps) simp

lemma np_sum_1: "np_sum [x] = fadd (Finite 0) (fadd (Finite 0) x)"
  by (simp add: np_sum_def pairwise_sum_small)

lemma np_sum_2: "np_sum [x, y] = fadd (Finite 0) (fadd (fadd (Finite 0) x) y)"
  by (simp add: np_sum_def pairwise_sum_small)

lemma np_sum_3: "np_sum [x, y, z] = fadd (Finite 0) (fadd (fadd (fadd (Finite 0) x) y) z)"
  by (simp add: np_sum_def pairwise_sum_small)

lemma real_length_1: "real (length [x]) = 1"
  by simp

lemma real_length_2: "real (length [x, y]) = 2"
  by simp

lemma real_length_3: "real (length [x, y, z]) = 3"
  by simp

text \<open>Dividing by a zero standard deviation never gives a finite number.\<close>

lemma fdiv_zero_not_finite: "\<not> is_finite (fdiv v (Finite 0))"
  by (cases v) (simp_all add: signed_inf_def)

lemma zero_std_weights:
  assumes "np_std xs = Finite 0"
  shows "list_all (\<lambda>v. \<not> is_finite v) (normalize_rewards xs)"
  using assms by (simp add: normalize_rewards_def Let_def list_all_iff fdiv_zero_not_finite)

text \<open>One stored transition with a finite reward.\<close>

lemma single_return:
  assumes "is_double reward"
  shows "discounted_returns (pg_remember (pg_init ssize asize w) state action (Finite reward)) =
    [Finite reward]"
  using assms
  by (simp add: discounted_returns_def pg_remember_def pg_init_def is_double_def fl_zero)

lemma single_mean:
  assumes "is_double x"
  shows "np_mean [Finite x] = Finite x"
  using assms by (simp add: np_mean_def np_sum_1 is_double_def)

lemma single_std:
  assumes "is_double x"
  shows "np_std [Finite x] = Finite 0"
  using assms
  by (simp add: np_std_def single_mean np_sum_1 fsub_def fl_zero Let_def)

lemma single_weight:
  assumes "is_double x"
  shows "normalize_rewards [Finite x] = [NaN]"
  using assms
  by (simp add: normalize_rewards_def single_mean single_std fsub_def fl_zero Let_def)

lemma sqrt_example: "sqrt (1 / 2 ^ 112) = 1 / 2 ^ 56"
  by (rule real_sqrt_unique) (simp_all add: power_divide)

text \<open>
  In double precision equal discounted returns do not make the divisor zero,
  and distinct returns do not make it non-zero. With the rewards \<open>0.005\<close>,
  \<open>0.005\<close>, \<open>0.1\<close> all three discounted returns are \<open>0.1\<close>; their computed mean is
  the next double above \<open>0.1\<close>, so that the standard deviation is \<open>2\<^sup>-\<^sup>5\<^sup>6\<close> and
  every sample weight is the finite number \<open>-1\<close>. With the rewards \<open>2\<^sup>-\<^sup>6\<^sup>0\<^sup>0\<close>,
  \<open>0\<close> the discounted returns differ, but the squared deviations underflow to
  zero: the standard deviation is zero and the sample weights are infinite.
\<close>

theorem pg_equal_returns_counterexample:
  "discounted_returns
     (pg_remember (pg_remember (pg_remember (pg_init 4 2 ()) [0, 0, 0, 0] 0 (Finite (5764607523034235 / 2 ^ 60)))
        [0, 0, 0, 0] 1 (Finite (5764607523034235 / 2 ^ 60))) [0, 0, 0, 0] 0 (Finite (3602879701896397 / 2 ^ 55))) =
     [Finite (3602879701896397 / 2 ^ 55), Finite (3602879701896397 / 2 ^ 55), Finite (3602879701896397 / 2 ^ 55)] \<and>
   np_std [Finite (3602879701896397 / 2 ^ 55), Finite (3602879701896397 / 2 ^ 55), Finite (3602879701896397 / 2 ^ 55)] = Finite (1 / 2 ^ 56) \<and>
   sample_weight
     (pg_remember (pg_remember (pg_remember (pg_init 4 2 ()) [0, 0, 0, 0] 0 (Finite (5764607523034235 / 2 ^ 60)))
        [0, 0, 0, 0] 1 (Finite (5764607523034235 / 2 ^ 60))) [0, 0, 0, 0] 0 (Finite (3602879701896397 / 2 ^ 55))) =
     [Finite (- 1), Finite (- 1), Finite (- 1)] \<and>
   discounted_returns
     (pg_remember (pg_remember (pg_init 4 2 ()) [0, 0, 0, 0] 0 (Finite (1 / 2 ^ 600))) [0, 0, 0, 0] 1 (Finite 0)) =
     [Finite (1 / 2 ^ 600), Finite 0] \<and>
   np_std [Finite (1 / 2 ^ 600), Finite 0] = Finite 0 \<and>
   sample_weight
     (pg_remember (pg_remember (pg_init 4 2 ()) [0, 0, 0, 0] 0 (Finite (1 / 2 ^ 600))) [0, 0, 0, 0] 1 (Finite 0)) =
     [PosInf, NegInf]"
proof -
  let ?three = "pg_remember (pg_remember (pg_remember (pg_init 4 2 ()) [0, 0, 0, 0] 0 (Finite (5764607523034235 / 2 ^ 60)))
        [0, 0, 0, 0] 1 (Finite (5764607523034235 / 2 ^ 60))) [0, 0, 0, 0] 0 (Finite (3602879701896397 / 2 ^ 55))"
  let ?two = "pg_remember (pg_remember (pg_init 4 2 ()) [0, 0, 0, 0] 0 (Finite (1 / 2 ^ 600)))
        [0, 0, 0, 0] 1 (Finite 0)"
  have d1: "fmul (Finite (4278419646001971 / 2 ^ 52)) (Finite 0) = Finite 0"
    by (simp add: fsub_def fl_zero)
  have d2: "fadd (Finite (3602879701896397 / 2 ^ 55)) (Finite 0) = Finite (3602879701896397 / 2 ^ 55)"
  proof -
    have "fl ((3602879701896397 / 2 ^ 55) + 0) = Finite (3602879701896397 / 2 ^ 55)"
      by (rule fl_eval [where k = 56 and n = "7205759403792794"]) (simp_all add: round_even_def)
    then show ?thesis
      by (simp add: fsub_def)
  qed
  have d3: "fmul (Finite (4278419646001971 / 2 ^ 52)) (Finite (3602879701896397 / 2 ^ 55)) = Finite (3422735716801577 / 2 ^ 55)"
  proof -
    have "fl ((4278419646001971 / 2 ^ 52) * (3602879701896397 / 2 ^ 55)) = Finite (3422735716801577 / 2 ^ 55)"
      by (rule fl_eval [where k = 56 and n = "6845471433603154"]) (simp_all add: round_even_def)
    then show ?thesis
      by (simp add: fsub_def)
  qed
  have d4: "fadd (Finite (5764607523034235 / 2 ^ 60)) (Finite (3422735716801577 / 2 ^ 55)) = Finite (3602879701896397 / 2 ^ 55)"
  proof -
    have "fl ((5764607523034235 / 2 ^ 60) + (3422735716801577 / 2 ^ 55)) = Finite (3602879701896397 / 2 ^ 55)"
      by (rule fl_eval [where k = 56 and n = "7205759403792794"]) (simp_all add: round_even_def)
    then show ?thesis
      by (simp add: fsub_def)
  qed
  have s1: "fadd (Finite 0) (Finite (3602879701896397 / 2 ^ 55)) = Finite (3602879701896397 / 2 ^ 55)"
  proof -
    have "fl (0 + (3602879701896397 / 2 ^ 55)) = Finite (3602879701896397 / 2 ^ 55)"
      by (rule fl_eval [where k = 56 and n = "7205759403792794"]) (simp_all add: round_even_def)
    then show ?thesis
      by (simp add: fsub_def)
  qed
  have s2: "fadd (Finite (3602879701896397 / 2 ^ 55)) (Finite (3602879701896397 / 2 ^ 55)) = Finite (3602879701896397 / 2 ^ 54)"
  proof -
    have "fl ((3602879701896397 / 2 ^ 55) + (3602879701896397 / 2 ^ 55)) = Finite (3602879701896397 / 2 ^ 54)"
      by (rule fl_eval [where k = 55 and n = "7205759403792794"]) (simp_all add: round_even_def)
    then show ?thesis
      by (simp add: fsub_def)
  qed
  have s3: "fadd (Finite (3602879701896397 / 2 ^ 54)) (Finite (3602879701896397 / 2 ^ 55)) = Finite (1351079888211149 / 2 ^ 52)"
  proof -
    have "fl ((3602879701896397 / 2 ^ 54) + (3602879701896397 / 2 ^ 55)) = Finite (1351079888211149 / 2 ^ 52)"
      by (rule fl_eval [where k = 54 and n = "5404319552844596"]) (simp_all add: round_even_def)
    then show ?thesis
      by (simp add: fsub_def)
  qed
  have s4: "fadd (Finite 0) (Finite (1351079888211149 / 2 ^ 52)) = Finite (1351079888211149 / 2 ^ 52)"
  proof -
    have "fl (0 + (1351079888211149 / 2 ^ 52)) = Finite (1351079888211149 / 2 ^ 52)"
      by (rule fl_eval [where k = 54 and n = "5404319552844596"]) (simp_all add: round_even_def)
    then show ?thesis
      by (simp add: fsub_def)
  qed
  have mean: "fdiv (Finite (1351079888211149 / 2 ^ 52)) (Finite 3) = Finite (7205759403792795 / 2 ^ 56)"
  proof -
    have "fl ((1351079888211149 / 2 ^ 52) / 3) = Finite (7205759403792795 / 2 ^ 56)"
      by (rule fl_eval [where k = 56 and n = "7205759403792795"]) (simp_all add: round_even_def)
    then show ?thesis
      by (simp add: fsub_def)
  qed
  have dev: "fsub (Finite (3602879701896397 / 2 ^ 55)) (Finite (7205759403792795 / 2 ^ 56)) = Finite (- 1 / 2 ^ 56)"
  proof -
    have "fl ((3602879701896397 / 2 ^ 55) - (7205759403792795 / 2 ^ 56)) = Finite (- 1 / 2 ^ 56)"
      by (rule fl_eval [where k = 108 and n = "- 4503599627370496"]) (simp_all add: round_even_def)
    then show ?thesis
      by (simp add: fsub_def)
  qed
  have sq: "fmul (Finite (- 1 / 2 ^ 56)) (Finite (- 1 / 2 ^ 56)) = Finite (1 / 2 ^ 112)"
  proof -
    have "fl ((- 1 / 2 ^ 56) * (- 1 / 2 ^ 56)) = Finite (1 / 2 ^ 112)"
      by (rule fl_eval [where k = 164 and n = "4503599627370496"]) (simp_all add: round_even_def)
    then show ?thesis
      by (simp add: fsub_def)
  qed
  have v1: "fadd (Finite 0) (Finite (1 / 2 ^ 112)) = Finite (1 / 2 ^ 112)"
  proof -
    have "fl (0 + (1 / 2 ^ 112)) = Finite (1 / 2 ^ 112)"
      by (rule fl_eval [where k = 164 and n = "4503599627370496"]) (simp_all add: round_even_def)
    then show ?thesis
      by (simp add: fsub_def)
  qed
  have v2: "fadd (Finite (1 / 2 ^ 112)) (Finite (1 / 2 ^ 112)) = Finite (1 / 2 ^ 111)"
  proof -
    have "fl ((1 / 2 ^ 112) + (1 / 2 ^ 112)) = Finite (1 / 2 ^ 111)"
      by (rule fl_eval [where k = 163 and n = "4503599627370496"]) (simp_all add: round_even_def)
    then show ?thesis
      by (simp add: fsub_def)
  qed
  have v3: "fadd (Finite (1 / 2 ^ 111)) (Finite (1 / 2 ^ 112)) = Finite (3 / 2 ^ 112)"
  proof -
    have "fl ((1 / 2 ^ 111) + (1 / 2 ^ 112)) = Finite (3 / 2 ^ 112)"
      by (rule fl_eval [where k = 163 and n = "6755399441055744"]) (simp_all add: round_even_def)
    then show ?thesis
      by (simp add: fsub_def)
  qed
  have v4: "fadd (Finite 0) (Finite (3 / 2 ^ 112)) = Finite (3 / 2 ^ 112)"
  proof -
    have "fl (0 + (3 / 2 ^ 112)) = Finite (3 / 2 ^ 112)"
      by (rule fl_eval [where k = 163 and n = "6755399441055744"]) (simp_all add: round_even_def)
    then show ?thesis
      by (simp add: fsub_def)
  qed
  have var: "fdiv (Finite (3 / 2 ^ 112)) (Finite 3) = Finite (1 / 2 ^ 112)"
  proof -
    have "fl ((3 / 2 ^ 112) / 3) = Finite (1 / 2 ^ 112)"
      by (rule fl_eval [where k = 164 and n = "4503599627370496"]) (simp_all add: round_even_def)
    then show ?thesis
      by (simp add: fsub_def)
  qed
  have w: "fdiv (Finite (- 1 / 2 ^ 56)) (Finite (1 / 2 ^ 56)) = Finite (- 1)"
  proof -
    have "fl ((- 1 / 2 ^ 56) / (1 / 2 ^ 56)) = Finite (- 1)"
      by (rule fl_eval [where k = 52 and n = "- 4503599627370496"]) (simp_all add: round_even_def)
    then show ?thesis
      by (simp add: fsub_def)
  qed
  have root: "fsqrt (Finite (1 / 2 ^ 112)) = Finite (1 / 2 ^ 56)"
  proof -
    have "fl (1 / 2 ^ 56) = Finite (1 / 2 ^ 56)"
      by (rule fl_eval [where k = 108 and n = 4503599627370496]) (simp_all add: round_even_def)
    then show ?thesis
      by (simp only: fsqrt.simps sqrt_example) simp
  qed
  have rewards3: "rewards ?three = [Finite (5764607523034235 / 2 ^ 60), Finite (5764607523034235 / 2 ^ 60), Finite (3602879701896397 / 2 ^ 55)]"
    by (simp add: pg_remember_def pg_init_def)
  have gamma3: "gamma ?three = 4278419646001971 / 2 ^ 52"
    by (simp add: pg_remember_def pg_init_def)
  have returns3: "discounted_returns ?three = [Finite (3602879701896397 / 2 ^ 55), Finite (3602879701896397 / 2 ^ 55), Finite (3602879701896397 / 2 ^ 55)]"
    by (simp only: discounted_returns_def rewards3 gamma3 rev.simps append.simps
        discount_loop.simps Let_def d1 d2 d3 d4)
  have mean3: "np_mean [Finite (3602879701896397 / 2 ^ 55), Finite (3602879701896397 / 2 ^ 55), Finite (3602879701896397 / 2 ^ 55)] = Finite (7205759403792795 / 2 ^ 56)"
    by (simp only: np_mean_def np_sum_3 real_length_3 s1 s2 s3 s4 mean)
  have std3: "np_std [Finite (3602879701896397 / 2 ^ 55), Finite (3602879701896397 / 2 ^ 55), Finite (3602879701896397 / 2 ^ 55)] = Finite (1 / 2 ^ 56)"
    by (simp only: np_std_def Let_def mean3 list.map np_sum_3 real_length_3 dev sq v1 v2 v3 v4
        var root)
  have weights3: "sample_weight ?three = [Finite (- 1), Finite (- 1), Finite (- 1)]"
    by (simp only: sample_weight_def returns3 normalize_rewards_def Let_def mean3 std3 list.map
        dev w)
  have e1: "fadd (Finite 0) (Finite 0) = Finite 0"
    by (simp add: fsub_def fl_zero)
  have e2: "fadd (Finite (1 / 2 ^ 600)) (Finite 0) = Finite (1 / 2 ^ 600)"
  proof -
    have "fl ((1 / 2 ^ 600) + 0) = Finite (1 / 2 ^ 600)"
      by (rule fl_eval [where k = 652 and n = "4503599627370496"]) (simp_all add: round_even_def)
    then show ?thesis
      by (simp add: fsub_def)
  qed
  have e3: "fadd (Finite 0) (Finite (1 / 2 ^ 600)) = Finite (1 / 2 ^ 600)"
  proof -
    have "fl (0 + (1 / 2 ^ 600)) = Finite (1 / 2 ^ 600)"
      by (rule fl_eval [where k = 652 and n = "4503599627370496"]) (simp_all add: round_even_def)
    then show ?thesis
      by (simp add: fsub_def)
  qed
  have e4: "fdiv (Finite (1 / 2 ^ 600)) (Finite 2) = Finite (1 / 2 ^ 601)"
  proof -
    have "fl ((1 / 2 ^ 600) / 2) = Finite (1 / 2 ^ 601)"
      by (rule fl_eval [where k = 653 and n = "4503599627370496"]) (simp_all add: round_even_def)
    then show ?thesis
      by (simp add: fsub_def)
  qed
  have e5: "fsub (Finite (1 / 2 ^ 600)) (Finite (1 / 2 ^ 601)) = Finite (1 / 2 ^ 601)"
  proof -
    have "fl ((1 / 2 ^ 600) - (1 / 2 ^ 601)) = Finite (1 / 2 ^ 601)"
      by (rule fl_eval [where k = 653 and n = "4503599627370496"]) (simp_all add: round_even_def)
    then show ?thesis
      by (simp add: fsub_def)
  qed
  have e6: "fsub (Finite 0) (Finite (1 / 2 ^ 601)) = Finite (- 1 / 2 ^ 601)"
  proof -
    have "fl (0 - (1 / 2 ^ 601)) = Finite (- 1 / 2 ^ 601)"
      by (rule fl_eval [where k = 653 and n = "- 4503599627370496"]) (simp_all add: round_even_def)
    then show ?thesis
      by (simp add: fsub_def)
  qed
  have e7: "fmul (Finite (1 / 2 ^ 601)) (Finite (1 / 2 ^ 601)) = Finite 0"
  proof -
    have "fl (1 / 2 ^ 601 * (1 / 2 ^ 601)) = Finite 0"
      using fl_subnormal [of "1 / 2 ^ 601 * (1 / 2 ^ 601)"] by (simp add: round_even_def)
    then show ?thesis
      by simp
  qed
  have e8: "fmul (Finite (- 1 / 2 ^ 601)) (Finite (- 1 / 2 ^ 601)) = Finite 0"
  proof -
    have "fl (1 / 2 ^ 601 * (1 / 2 ^ 601)) = Finite 0"
      using fl_subnormal [of "1 / 2 ^ 601 * (1 / 2 ^ 601)"] by (simp add: round_even_def)
    then show ?thesis
      by simp
  qed
  have e9: "fdiv (Finite 0) (Finite 2) = Finite 0"
    by (simp add: fl_zero)
  have e10: "fsqrt (Finite 0) = Finite 0"
    by (simp add: fl_zero)
  have e11: "fdiv (Finite (1 / 2 ^ 601)) (Finite 0) = PosInf"
    by (simp add: signed_inf_def)
  have e12: "fdiv (Finite (- 1 / 2 ^ 601)) (Finite 0) = NegInf"
    by (simp add: signed_inf_def)
  have e13: "fmul (Finite (4278419646001971 / 2 ^ 52)) (Finite 0) = Finite 0"
    by (simp add: fl_zero)
  have rewards2: "rewards ?two = [Finite (1 / 2 ^ 600), Finite 0]"
    by (simp add: pg_remember_def pg_init_def)
  have gamma2: "gamma ?two = 4278419646001971 / 2 ^ 52"
    by (simp add: pg_remember_def pg_init_def)
  have returns2: "discounted_returns ?two = [Finite (1 / 2 ^ 600), Finite 0]"
    by (simp only: discounted_returns_def rewards2 gamma2 rev.simps append.simps
        discount_loop.simps Let_def e13 e1 e2)
  have mean2: "np_mean [Finite (1 / 2 ^ 600), Finite 0] = Finite (1 / 2 ^ 601)"
    by (simp only: np_mean_def np_sum_2 real_length_2 e3 e2 e4)
  have std2: "np_std [Finite (1 / 2 ^ 600), Finite 0] = Finite 0"
    by (simp only: np_std_def Let_def mean2 list.map np_sum_2 real_length_2 e5 e6 e7 e8 e1 e9
        e10)
  have weights2: "sample_weight ?two = [PosInf, NegInf]"
    by (simp only: sample_weight_def returns2 normalize_rewards_def Let_def mean2 std2 list.map
        e5 e6 e11 e12)
  show ?thesis
    using returns3 std3 weights3 returns2 std2 weights2 by (simp only: simp_thms)
qed

text \<open>
  C9. \<open>train\<close> divides the centred discounted returns by their standard
  deviation without a guard. Whenever the computed standard deviation is zero,
  every sample weight is \<open>nan\<close> or an infinity; this is the case after a single
  \<open>remember\<close> of a finite reward on a fresh agent, where the one weight is
  \<open>nan\<close>. No exception is raised by the division: whenever the one-hot
  encoding of the actions and the stacking of the states succeed, the weights
  are handed to \<open>train_on_batch\<close> as they are.
\<close>

theorem pg_train_unguarded_division_by_std:
  "(np_std (discounted_returns self) = Finite 0 \<longrightarrow>
      list_all (\<lambda>v. \<not> is_finite v) (sample_weight self) \<and>
      length (sample_weight self) = length (rewards self)) \<and>
   (is_double reward \<longrightarrow>
      np_std (discounted_returns
        (pg_remember (pg_init ssize asize w) state action (Finite reward))) = Finite 0 \<and>
      sample_weight (pg_remember (pg_init ssize asize w) state action (Finite reward)) = [NaN]) \<and>
   (to_categorical (actions self) (action_size self) = Inr onehot \<and>
    np_vstack (states self) = Inr X \<longrightarrow>
      pg_train train_on_batch self =
        Inr (self\<lparr>model := train_on_batch (model self) X onehot (sample_weight self),
                  states := [], actions := [], rewards := []\<rparr>))"
proof (intro conjI impI)
  assume "np_std (discounted_returns self) = Finite 0"
  then show "list_all (\<lambda>v. \<not> is_finite v) (sample_weight self)"
    unfolding sample_weight_def by (rule zero_std_weights)
next
  show "length (sample_weight self) = length (rewards self)"
    by (rule sample_weight_length)
next
  assume d: "is_double reward"
  show "np_std (discounted_returns
      (pg_remember (pg_init ssize asize w) state action (Finite reward))) = Finite 0"
    by (simp only: single_return [OF d] single_std [OF d])
next
  assume d: "is_double reward"
  show "sample_weight (pg_remember (pg_init ssize asize w) state action (Finite reward)) = [NaN]"
    by (simp only: sample_weight_def single_return [OF d] single_weight [OF d])
next
  assume "to_categorical (actions self) (action_size self) = Inr onehot \<and>
    np_vstack (states self) = Inr X"
  then show "pg_train train_on_batch self =
        Inr (self\<lparr>model := train_on_batch (model self) X onehot (sample_weight self),
                  states := [], actions := [], rewards := []\<rparr>)"
    by (simp add: pg_train_def)
qed

theorem pg_train_unguarded_division_by_std_witness:
  "fl 3 = Finite 3 \<and>
   discounted_returns (pg_remember (pg_init 4 2 ()) [0, 0, 0, 0] 1 (Finite 3)) = [Finite 3] \<and>
   np_std [Finite 3] = Finite 0 \<and>
   sample_weight (pg_remember (pg_init 4 2 ()) [0, 0, 0, 0] 1 (Finite 3)) = [NaN] \<and>
   to_categorical [1] 2 = Inr [[0, 1]] \<and>
   np_vstack [[0, 0, 0, 0]] = Inr [[0, 0, 0, 0]] \<and>
   pg_train (\<lambda>w X a sw. if sw = [NaN] then Suc w else w)
       ((pg_remember (pg_init 4 2 0) [0, 0, 0, 0] 1 (Finite 3))) =
     Inr (pg_init 4 2 1)"
proof -
  let ?one = "pg_remember (pg_init 4 2 ()) [0, 0, 0, 0] 1 (Finite 3)"
  let ?one' = "pg_remember (pg_init 4 2 (0::nat)) [0, 0, 0, 0] 1 (Finite 3)"
  let ?tob = "\<lambda>(w::nat) (X::real list list) (a::real list list) sw. if sw = [NaN] then Suc w else w"
  have three: "fl 3 = Finite 3"
    by (rule fl_eval [where k = 51 and n = 6755399441055744]) (simp_all add: round_even_def)
  then have d: "is_double 3"
    by (simp add: is_double_def)
  have g1: "discounted_returns ?one = [Finite 3]"
    using d by (rule single_return)
  have g1': "discounted_returns ?one' = [Finite 3]"
    using d by (rule single_return)
  have c1: "to_categorical (actions ?one') (action_size ?one') = Inr [[0, 1]]"
    by (simp add: pg_remember_def pg_init_def to_categorical_def np_setitem_def norm_index_def
        numeral_2_eq_2)
  have c2: "to_categorical [1] 2 = Inr [[0, 1]]"
    by (simp add: to_categorical_def np_setitem_def norm_index_def numeral_2_eq_2)
  have v1: "np_vstack (states ?one') = Inr [[0, 0, 0, 0]]"
    by (simp add: pg_remember_def pg_init_def np_vstack_def)
  have v2: "np_vstack [[0, 0, 0, 0]] = Inr [[0, 0, 0, 0 :: real]]"
    by (simp add: np_vstack_def)
  note at_one = pg_train_unguarded_division_by_std
    [of ?one 3 4 2 "()" "[0, 0, 0, 0]" 1 "[[0, 1]]" "[[0, 0, 0, 0]]" "\<lambda>w X a sw. w"]
  note at_one' = pg_train_unguarded_division_by_std
    [of ?one' 3 4 2 0 "[0, 0, 0, 0]" 1 "[[0, 1]]" "[[0, 0, 0, 0]]" ?tob]
  have std: "np_std (discounted_returns ?one) = Finite 0"
    using at_one d by blast
  have single: "sample_weight ?one = [NaN]"
    using at_one d by blast
  have single': "sample_weight ?one' = [NaN]"
    using at_one' d by blast
  have train: "pg_train ?tob ?one' =
      Inr (?one'\<lparr>model := ?tob (model ?one') [[0, 0, 0, 0]] [[0, 1]] (sample_weight ?one'),
                 states := [], actions := [], rewards := []\<rparr>)"
    using at_one' c1 v1 by blast
  have reset: "?one'\<lparr>model := ?tob (model ?one') [[0, 0, 0, 0]] [[0, 1]] (sample_weight ?one'),
      states := [], actions := [], rewards := []\<rparr> = pg_init 4 2 1"
    unfolding single' by (simp add: pg_remember_def pg_init_def)
  have std': "np_std [Finite 3] = Finite 0"
    using std by (simp only: g1)
  show ?thesis
    using three g1 std' single c2 v2 train by (simp only: reset simp_thms)
qed

section \<open>Cells that work on the file system\<close>

subsection \<open>Files and directories\<close>

text \<open>
  The file system below the working directory maps a path, given as the list
  of its components, to a directory or to a regular file with its content.
  Paths are relative and separated by \<open>/\<close>, as in the notebooks; permissions,
  links and the special components \<open>.\<close> and \<open>..\<close> are outside the model.
\<close>

datatype node = Dir | File string

type_synonym filesystem = "string list \<rightharpoonup> node"

fun split_on :: "char \<Rightarrow> string \<Rightarrow> string list" where
  "split_on sep [] = [[]]"
| "split_on sep (c # cs) =
     (if c = sep then [] # split_on sep cs
      else (case split_on sep cs of
              [] \<Rightarrow> [[c]]
            | w # ws \<Rightarrow> (c # w) # ws))"

definition split_path :: "string \<Rightarrow> string list" where
  "split_path p = filter (\<lambda>w. w \<noteq> []) (split_on CHR ''/'' p)"

text \<open>\<open>os.path.join(a, b)\<close> on POSIX.\<close>

definition path_join :: "string \<Rightarrow> string \<Rightarrow> string" where
  "path_join a b =
     (if b \<noteq> [] \<and> hd b = CHR ''/'' then b
      else if a = [] \<or> last a = CHR ''/'' then a @ b
      else a @ ''/'' @ b)"

text \<open>
  \<open>os.makedirs(path, exist_ok=True)\<close> creates the missing directories from
  the top; an existing directory is accepted, a regular file in the way
  raises.
\<close>

fun makedirs_from :: "filesystem \<Rightarrow> string list \<Rightarrow> string list \<Rightarrow> py_error + filesystem" where
  "makedirs_from fs pre [] = Inr fs"
| "makedirs_from fs pre (c # rest) =
     (case fs (pre @ [c]) of
        Some Dir \<Rightarrow> makedirs_from fs (pre @ [c]) rest
      | Some (File content) \<Rightarrow> Inl (if rest = [] then FileExistsError else NotADirectoryError)
      | None \<Rightarrow> makedirs_from (fs(pre @ [c] \<mapsto> Dir)) (pre @ [c]) rest)"

definition makedirs :: "filesystem \<Rightarrow> string \<Rightarrow> py_error + filesystem" where
  "makedirs fs path =
     (if split_path path = [] then Inl FileNotFoundError
      else makedirs_from fs [] (split_path path))"

text \<open>
  \<open>open(path, "w")\<close> creates the file or truncates it; the directory that is
  to hold it must exist. \<open>f.write(s)\<close> appends to the open file. The file
  object is represented by its path.
\<close>

definition open_w :: "filesystem \<Rightarrow> string \<Rightarrow> py_error + filesystem" where
  "open_w fs path =
     (let p = split_path path
      in if p = [] then Inl FileNotFoundError
         else
           (case (if butlast p = [] then Some Dir else fs (butlast p)) of
              None \<Rightarrow> Inl FileNotFoundError
            | Some (File content) \<Rightarrow> Inl NotADirectoryError
            | Some Dir \<Rightarrow>
                (case fs p of
                   Some Dir \<Rightarrow> Inl IsADirectoryError
                 | _ \<Rightarrow> Inr (fs(p \<mapsto> File '''')))))"

definition fwrite :: "filesystem \<Rightarrow> string \<Rightarrow> string \<Rightarrow> filesystem" where
  "fwrite fs path s =
     (case fs (split_path path) of
        Some (File content) \<Rightarrow> fs(split_path path \<mapsto> File (content @ s))
      | _ \<Rightarrow> fs)"

text \<open>Reading a file: the path must name a regular file.\<close>

definition read_file :: "filesystem \<Rightarrow> string \<Rightarrow> py_error + string" where
  "read_file fs path =
     (case fs (split_path path) of
        None \<Rightarrow> Inl FileNotFoundError
      | Some Dir \<Rightarrow> Inl IsADirectoryError
      | Some (File content) \<Rightarrow> Inr content)"

text \<open>\<open>str(i)\<close> for an integer, as an f-string formats it.\<close>

fun str_nat :: "nat \<Rightarrow> string" where
  "str_nat n =
     (if n < 10 then [''0123456789'' ! n]
      else str_nat (n div 10) @ [''0123456789'' ! (n mod 10)])"

declare str_nat.simps [simp del]

definition py_str :: "int \<Rightarrow> string" where
  "py_str i = (if i < 0 then CHR ''-'' # str_nat (nat (- i)) else str_nat (nat i))"

subsection \<open>Chapter 13: the sample text files\<close>

text \<open>
  \<^verbatim>\<open>
  # Create sample text files
  import os
  os.makedirs("data", exist_ok=True)
  for i in range(3):
      with open(f"data/file_{i}.txt", "w") as f:
          f.write(f"Sample line 1 in file {i}\n")
          f.write(f"Sample line 2 in file {i}\n")
  \<close>
\<close>

definition write_sample_file :: "int \<Rightarrow> filesystem \<Rightarrow> py_error + filesystem" where
  "write_sample_file i fs =
     (let f = ''data/file_'' @ py_str i @ ''.txt''
      in case open_w fs f of
           Inl e \<Rightarrow> Inl e
         | Inr fs' \<Rightarrow>
             Inr (fwrite
                    (fwrite fs' f (''Sample line 1 in file '' @ py_str i @ ''\<newline>''))
                    f (''Sample line 2 in file '' @ py_str i @ ''\<newline>'')))"

definition create_sample_text_files :: "filesystem \<Rightarrow> py_error + filesystem" where
  "create_sample_text_files fs =
     (case makedirs fs ''data'' of
        Inl e \<Rightarrow> Inl e
      | Inr fs1 \<Rightarrow> for_loop write_sample_file (py_range 3) fs1)"

subsection \<open>Chapter 02: fetching and loading the housing data\<close>

text \<open>
  \<^verbatim>\<open>
  DOWNLOAD_ROOT = "https://raw.githubusercontent.com/ageron/handson-ml2/master/"
  HOUSING_PATH = os.path.join("datasets", "housing")
  HOUSING_URL = DOWNLOAD_ROOT + "datasets/housing/housing.tgz"

  def fetch_housing_data(housing_url=HOUSING_URL, housing_path=HOUSING_PATH):
      os.makedirs(housing_path, exist_ok=True)
      tgz_path = os.path.join(housing_path, "housing.tgz")
      urllib.request.urlretrieve(housing_url, tgz_path)
      with tarfile.open(tgz_path) as housing_tgz:
          housing_tgz.extractall(path=housing_path)

  def load_housing_data(housing_path=HOUSING_PATH):
      csv_path = os.path.join(housing_path, "housing.csv")
      return pd.read_csv(csv_path)

  fetch_housing_data()
  housing = load_housing_data()
  housing.head()
  \<close>
  The network and the two file formats belong to the libraries and are
  parameters: \<open>urlopen\<close> gives the content behind a URL or the error of the
  request, \<open>untar\<close> the members (name and content) of an archive or the error
  of reading it, \<open>parse_csv\<close> the data frame of a CSV text or the parser's
  error.
\<close>

definition DOWNLOAD_ROOT :: string where
  "DOWNLOAD_ROOT = ''https://raw.githubusercontent.com/ageron/handson-ml2/master/''"

definition HOUSING_PATH :: string where
  "HOUSING_PATH = path_join ''datasets'' ''housing''"

definition HOUSING_URL :: string where
  "HOUSING_URL = DOWNLOAD_ROOT @ ''datasets/housing/housing.tgz''"

definition urlretrieve ::
  "(string \<Rightarrow> py_error + string) \<Rightarrow> filesystem \<Rightarrow> string \<Rightarrow> string \<Rightarrow> py_error + filesystem" where
  "urlretrieve urlopen fs url filename =
     (case urlopen url of
        Inl e \<Rightarrow> Inl e
      | Inr content \<Rightarrow>
          (case open_w fs filename of
             Inl e \<Rightarrow> Inl e
           | Inr fs' \<Rightarrow> Inr (fwrite fs' filename content)))"

definition tarfile_open ::
  "(string \<Rightarrow> py_error + (string \<times> string) list) \<Rightarrow> filesystem \<Rightarrow> string
     \<Rightarrow> py_error + (string \<times> string) list" where
  "tarfile_open untar fs name =
     (case read_file fs name of
        Inl e \<Rightarrow> Inl e
      | Inr content \<Rightarrow> untar content)"

fun extractall :: "filesystem \<Rightarrow> string \<Rightarrow> (string \<times> string) list \<Rightarrow> py_error + filesystem" where
  "extractall fs path [] = Inr fs"
| "extractall fs path ((name, content) # members) =
     (let target = path_join path name
      in case makedirs_from fs [] (butlast (split_path target)) of
           Inl e \<Rightarrow> Inl e
         | Inr fs1 \<Rightarrow>
             (case open_w fs1 target of
                Inl e \<Rightarrow> Inl e
              | Inr fs2 \<Rightarrow> extractall (fwrite fs2 target content) path members))"

definition fetch_housing_data ::
  "(string \<Rightarrow> py_error + string) \<Rightarrow> (string \<Rightarrow> py_error + (string \<times> string) list)
     \<Rightarrow> filesystem \<Rightarrow> string \<Rightarrow> string \<Rightarrow> py_error + filesystem" where
  "fetch_housing_data urlopen untar fs housing_url housing_path =
     (case makedirs fs housing_path of
        Inl e \<Rightarrow> Inl e
      | Inr fs1 \<Rightarrow>
          (let tgz_path = path_join housing_path ''housing.tgz''
           in case urlretrieve urlopen fs1 housing_url tgz_path of
                Inl e \<Rightarrow> Inl e
              | Inr fs2 \<Rightarrow>
                  (case tarfile_open untar fs2 tgz_path of
                     Inl e \<Rightarrow> Inl e
                   | Inr housing_tgz \<Rightarrow> extractall fs2 housing_path housing_tgz)))"

definition read_csv :: "(string \<Rightarrow> py_error + 'df) \<Rightarrow> filesystem \<Rightarrow> string \<Rightarrow> py_error + 'df" where
  "read_csv parse_csv fs csv_path =
     (case read_file fs csv_path of
        Inl e \<Rightarrow> Inl e
      | Inr content \<Rightarrow> parse_csv content)"

definition load_housing_data ::
  "(string \<Rightarrow> py_error + 'df) \<Rightarrow> filesystem \<Rightarrow> string \<Rightarrow> py_error + 'df" where
  "load_housing_data parse_csv fs housing_path =
     (let csv_path = path_join housing_path ''housing.csv''
      in read_csv parse_csv fs csv_path)"

text \<open>
  The cell's three statements; \<open>housing.head()\<close> only displays rows. The result
  is the file system after the cell and the value of \<open>housing\<close>.
\<close>

definition housing_cell ::
  "(string \<Rightarrow> py_error + string) \<Rightarrow> (string \<Rightarrow> py_error + (string \<times> string) list)
     \<Rightarrow> (string \<Rightarrow> py_error + 'df) \<Rightarrow> filesystem \<Rightarrow> py_error + filesystem \<times> 'df" where
  "housing_cell urlopen untar parse_csv fs =
     (case fetch_housing_data urlopen untar fs HOUSING_URL HOUSING_PATH of
        Inl e \<Rightarrow> Inl e
      | Inr fs' \<Rightarrow>
          (case load_housing_data parse_csv fs' HOUSING_PATH of
             Inl e \<Rightarrow> Inl e
           | Inr housing \<Rightarrow> Inr (fs', housing)))"

subsection \<open>Paths of the two cells\<close>

lemma py_str_digits: "py_str 0 = ''0''" "py_str 1 = ''1''" "py_str 2 = ''2''"
  by (simp_all add: py_str_def str_nat.simps)

lemma py_range_3: "py_range 3 = [0, 1, 2]"
  by (simp add: py_range_def upt_rec)

lemma sample_paths:
  "split_path ''data'' = [''data'']"
  "split_path ''data/file_0.txt'' = [''data'', ''file_0.txt'']"
  "split_path ''data/file_1.txt'' = [''data'', ''file_1.txt'']"
  "split_path ''data/file_2.txt'' = [''data'', ''file_2.txt'']"
  by (simp_all add: split_path_def)

lemma housing_paths:
  "HOUSING_PATH = ''datasets/housing''"
  "path_join ''datasets/housing'' ''housing.tgz'' = ''datasets/housing/housing.tgz''"
  "path_join ''datasets/housing'' ''housing.csv'' = ''datasets/housing/housing.csv''"
  "split_path ''datasets/housing'' = [''datasets'', ''housing'']"
  "split_path ''datasets/housing/housing.tgz'' = [''datasets'', ''housing'', ''housing.tgz'']"
  "split_path ''datasets/housing/housing.csv'' = [''datasets'', ''housing'', ''housing.csv'']"
  by (simp_all add: HOUSING_PATH_def path_join_def split_path_def)


subsection \<open>What the cells leave on disk\<close>

definition is_file :: "filesystem \<Rightarrow> string list \<Rightarrow> bool" where
  "is_file fs p = (case fs p of Some (File content) \<Rightarrow> True | _ \<Rightarrow> False)"

lemma is_file_makedirs_from:
  "makedirs_from fs pre cs = Inr fs' \<Longrightarrow> is_file fs p \<Longrightarrow> is_file fs' p"
proof (induction cs arbitrary: fs pre)
  case Nil
  then show ?case by simp
next
  case (Cons c cs)
  show ?case
  proof (cases "fs (pre @ [c])")
    case None
    then have run: "makedirs_from (fs(pre @ [c] \<mapsto> Dir)) (pre @ [c]) cs = Inr fs'"
      using Cons.prems(1) by simp
    have "p \<noteq> pre @ [c]"
      using None Cons.prems(2) by (auto simp add: is_file_def)
    then have "is_file (fs(pre @ [c] \<mapsto> Dir)) p"
      using Cons.prems(2) by (simp add: is_file_def)
    with run show ?thesis by (rule Cons.IH)
  next
    case (Some nd)
    show ?thesis
    proof (cases nd)
      case Dir
      then have "makedirs_from fs (pre @ [c]) cs = Inr fs'"
        using Some Cons.prems(1) by simp
      then show ?thesis using Cons.prems(2) by (rule Cons.IH)
    next
      case (File content)
      then show ?thesis using Some Cons.prems(1) by simp
    qed
  qed
qed

lemma is_file_open_w:
  "open_w fs path = Inr fs' \<Longrightarrow> is_file fs p \<Longrightarrow> is_file fs' p"
  by (auto simp add: open_w_def Let_def is_file_def
      split: if_splits option.splits node.splits)

lemma is_file_fwrite: "is_file fs p \<Longrightarrow> is_file (fwrite fs path s) p"
  by (auto simp add: fwrite_def is_file_def split: option.splits node.splits)

lemma is_file_extractall:
  "extractall fs path members = Inr fs' \<Longrightarrow> is_file fs p \<Longrightarrow> is_file fs' p"
proof (induction members arbitrary: fs)
  case Nil
  then show ?case by simp
next
  case (Cons mem members)
  obtain name content where mem: "mem = (name, content)"
    by (cases mem) auto
  let ?target = "path_join path name"
  obtain fs1 fs2 where
    mk: "makedirs_from fs [] (butlast (split_path ?target)) = Inr fs1" and
    op: "open_w fs1 ?target = Inr fs2" and
    rest: "extractall (fwrite fs2 ?target content) path members = Inr fs'"
    using Cons.prems(1) by (auto simp add: mem Let_def split: sum.splits)
  have "is_file fs1 p" using mk Cons.prems(2) by (rule is_file_makedirs_from)
  then have "is_file fs2 p" using op by (rule is_file_open_w [rotated])
  then have "is_file (fwrite fs2 ?target content) p" by (rule is_file_fwrite)
  with rest show ?case by (rule Cons.IH)
qed

lemma is_file_after_open_w: "open_w fs path = Inr fs' \<Longrightarrow> is_file fs' (split_path path)"
  by (auto simp add: open_w_def Let_def is_file_def
      split: if_splits option.splits node.splits)

lemma fetch_leaves_archive:
  assumes "fetch_housing_data urlopen untar fs url HOUSING_PATH = Inr fs'"
  shows "is_file fs' [''datasets'', ''housing'', ''housing.tgz'']"
proof -
  let ?tgz = "path_join HOUSING_PATH ''housing.tgz''"
  obtain fs1 fs2 members where
    "urlretrieve urlopen fs1 url ?tgz = Inr fs2" and
    ex: "extractall fs2 HOUSING_PATH members = Inr fs'"
    using assms by (auto simp add: fetch_housing_data_def Let_def split: sum.splits)
  then obtain fs3 content where "open_w fs1 ?tgz = Inr fs3" and fs2: "fs2 = fwrite fs3 ?tgz content"
    by (auto simp add: urlretrieve_def split: sum.splits)
  then have "is_file fs3 (split_path ?tgz)"
    by (simp add: is_file_after_open_w)
  then have "is_file fs2 (split_path ?tgz)"
    unfolding fs2 by (rule is_file_fwrite)
  then have "is_file fs' (split_path ?tgz)"
    using ex by (rule is_file_extractall [rotated])
  then show ?thesis
    by (simp add: housing_paths)
qed

lemma sample_files_from_dir:
  assumes d: "fs [''data''] = Some Dir"
    and f0: "fs [''data'', ''file_0.txt''] \<noteq> Some Dir"
    and f1: "fs [''data'', ''file_1.txt''] \<noteq> Some Dir"
    and f2: "fs [''data'', ''file_2.txt''] \<noteq> Some Dir"
  shows "for_loop write_sample_file (py_range 3) fs =
     Inr (fs([''data'', ''file_0.txt''] \<mapsto>
                File ''Sample line 1 in file 0\<newline>Sample line 2 in file 0\<newline>'',
              [''data'', ''file_1.txt''] \<mapsto>
                File ''Sample line 1 in file 1\<newline>Sample line 2 in file 1\<newline>'',
              [''data'', ''file_2.txt''] \<mapsto>
                File ''Sample line 1 in file 2\<newline>Sample line 2 in file 2\<newline>''))"
proof -
  let ?c0 = "''Sample line 1 in file 0\<newline>Sample line 2 in file 0\<newline>''"
  let ?c1 = "''Sample line 1 in file 1\<newline>Sample line 2 in file 1\<newline>''"
  let ?c2 = "''Sample line 1 in file 2\<newline>Sample line 2 in file 2\<newline>''"
  have step: "write_sample_file i g =
      Inr (g(split_path (''data/file_'' @ py_str i @ ''.txt'') \<mapsto>
              File (''Sample line 1 in file '' @ py_str i @ ''\<newline>'' @
                    ''Sample line 2 in file '' @ py_str i @ ''\<newline>'')))"
    if "g (butlast (split_path (''data/file_'' @ py_str i @ ''.txt''))) = Some Dir"
      and "g (split_path (''data/file_'' @ py_str i @ ''.txt'')) \<noteq> Some Dir"
      and "split_path (''data/file_'' @ py_str i @ ''.txt'') \<noteq> []"
      and "butlast (split_path (''data/file_'' @ py_str i @ ''.txt'')) \<noteq> []"
    for i g
    using that
    by (auto simp add: write_sample_file_def open_w_def fwrite_def Let_def
        split: option.splits node.splits)
  have s0: "write_sample_file 0 fs = Inr (fs([''data'', ''file_0.txt''] \<mapsto> File ?c0))"
    using step [of fs 0] d f0 by (simp add: sample_paths py_str_digits)
  have s1: "write_sample_file 1 (fs([''data'', ''file_0.txt''] \<mapsto> File ?c0)) =
      Inr (fs([''data'', ''file_0.txt''] \<mapsto> File ?c0, [''data'', ''file_1.txt''] \<mapsto> File ?c1))"
    using step [of "fs([''data'', ''file_0.txt''] \<mapsto> File ?c0)" 1] d f1
    by (simp add: sample_paths py_str_digits)
  have s2: "write_sample_file 2
        (fs([''data'', ''file_0.txt''] \<mapsto> File ?c0, [''data'', ''file_1.txt''] \<mapsto> File ?c1)) =
      Inr (fs([''data'', ''file_0.txt''] \<mapsto> File ?c0, [''data'', ''file_1.txt''] \<mapsto> File ?c1,
               [''data'', ''file_2.txt''] \<mapsto> File ?c2))"
    using step [of "fs([''data'', ''file_0.txt''] \<mapsto> File ?c0, [''data'', ''file_1.txt''] \<mapsto> File ?c1)" 2]
      d f2
    by (simp add: sample_paths py_str_digits)
  show ?thesis
    by (simp add: py_range_3 s0 s1 s2)
qed


text \<open>
  C2, as amended. Cells do create state that outlives the notebook. The
  Chapter 13 cell leaves the directory \<open>data\<close> with the three files
  \<open>file_0.txt\<close>, \<open>file_1.txt\<close>, \<open>file_2.txt\<close>, each holding its two sample
  lines, and changes nothing else (provided no regular file \<open>data\<close> and no
  directory of a file's name is in the way); and whenever the Chapter 02
  function \<open>fetch_housing_data\<close> returns, the downloaded archive is a regular
  file \<open>datasets/housing/housing.tgz\<close>.
\<close>

theorem cells_leave_files_on_disk:
  "((fs [''data''] = None \<or> fs [''data''] = Some Dir) \<and>
    fs [''data'', ''file_0.txt''] \<noteq> Some Dir \<and>
    fs [''data'', ''file_1.txt''] \<noteq> Some Dir \<and>
    fs [''data'', ''file_2.txt''] \<noteq> Some Dir \<longrightarrow>
    create_sample_text_files fs =
      Inr (fs([''data''] \<mapsto> Dir,
               [''data'', ''file_0.txt''] \<mapsto>
                 File ''Sample line 1 in file 0\<newline>Sample line 2 in file 0\<newline>'',
               [''data'', ''file_1.txt''] \<mapsto>
                 File ''Sample line 1 in file 1\<newline>Sample line 2 in file 1\<newline>'',
               [''data'', ''file_2.txt''] \<mapsto>
                 File ''Sample line 1 in file 2\<newline>Sample line 2 in file 2\<newline>''))) \<and>
   (fetch_housing_data urlopen untar fs url HOUSING_PATH = Inr fs' \<longrightarrow>
      is_file fs' [''datasets'', ''housing'', ''housing.tgz''])"
proof (intro conjI impI)
  assume h: "(fs [''data''] = None \<or> fs [''data''] = Some Dir) \<and>
    fs [''data'', ''file_0.txt''] \<noteq> Some Dir \<and>
    fs [''data'', ''file_1.txt''] \<noteq> Some Dir \<and>
    fs [''data'', ''file_2.txt''] \<noteq> Some Dir"
  let ?fs1 = "fs([''data''] \<mapsto> Dir)"
  have mk: "makedirs fs ''data'' = Inr ?fs1"
    using h by (auto simp add: makedirs_def sample_paths map_upd_triv)
  have "for_loop write_sample_file (py_range 3) ?fs1 =
     Inr (?fs1([''data'', ''file_0.txt''] \<mapsto>
                File ''Sample line 1 in file 0\<newline>Sample line 2 in file 0\<newline>'',
              [''data'', ''file_1.txt''] \<mapsto>
                File ''Sample line 1 in file 1\<newline>Sample line 2 in file 1\<newline>'',
              [''data'', ''file_2.txt''] \<mapsto>
                File ''Sample line 1 in file 2\<newline>Sample line 2 in file 2\<newline>''))"
    using h by (intro sample_files_from_dir) simp_all
  then show "create_sample_text_files fs =
      Inr (fs([''data''] \<mapsto> Dir,
               [''data'', ''file_0.txt''] \<mapsto>
                 File ''Sample line 1 in file 0\<newline>Sample line 2 in file 0\<newline>'',
               [''data'', ''file_1.txt''] \<mapsto>
                 File ''Sample line 1 in file 1\<newline>Sample line 2 in file 1\<newline>'',
               [''data'', ''file_2.txt''] \<mapsto>
                 File ''Sample line 1 in file 2\<newline>Sample line 2 in file 2\<newline>''))"
    by (simp add: create_sample_text_files_def mk)
next
  assume "fetch_housing_data urlopen untar fs url HOUSING_PATH = Inr fs'"
  then show "is_file fs' [''datasets'', ''housing'', ''housing.tgz'']"
    by (rule fetch_leaves_archive)
qed

lemma fetch_example:
  "fetch_housing_data (\<lambda>u. Inr ''archive'') (\<lambda>c. Inr [(name, text)]) Map.empty
      HOUSING_URL ''datasets/housing'' =
     extractall
       [[''datasets''] \<mapsto> Dir, [''datasets'', ''housing''] \<mapsto> Dir,
        [''datasets'', ''housing'', ''housing.tgz''] \<mapsto> File ''archive'']
       ''datasets/housing'' [(name, text)]"
  by (simp add: fetch_housing_data_def makedirs_def urlretrieve_def open_w_def fwrite_def
      tarfile_open_def read_file_def housing_paths)

lemma extract_example:
  "name = ''housing.csv'' \<or> name = ''README'' \<Longrightarrow>
   extractall
       [[''datasets''] \<mapsto> Dir, [''datasets'', ''housing''] \<mapsto> Dir,
        [''datasets'', ''housing'', ''housing.tgz''] \<mapsto> File ''archive'']
       ''datasets/housing'' [(name, text)] =
     Inr [[''datasets''] \<mapsto> Dir, [''datasets'', ''housing''] \<mapsto> Dir,
          [''datasets'', ''housing'', ''housing.tgz''] \<mapsto> File ''archive'',
          [''datasets'', ''housing'', name] \<mapsto> File text]"
  by (auto simp add: open_w_def fwrite_def path_join_def split_path_def)

theorem cells_leave_files_on_disk_witness:
  "create_sample_text_files Map.empty =
     Inr [[''data''] \<mapsto> Dir,
          [''data'', ''file_0.txt''] \<mapsto>
            File ''Sample line 1 in file 0\<newline>Sample line 2 in file 0\<newline>'',
          [''data'', ''file_1.txt''] \<mapsto>
            File ''Sample line 1 in file 1\<newline>Sample line 2 in file 1\<newline>'',
          [''data'', ''file_2.txt''] \<mapsto>
            File ''Sample line 1 in file 2\<newline>Sample line 2 in file 2\<newline>''] \<and>
   fetch_housing_data (\<lambda>u. Inr ''archive'') (\<lambda>c. Inr [(''housing.csv'', ''a,b'')]) Map.empty
      HOUSING_URL HOUSING_PATH =
     Inr [[''datasets''] \<mapsto> Dir, [''datasets'', ''housing''] \<mapsto> Dir,
          [''datasets'', ''housing'', ''housing.tgz''] \<mapsto> File ''archive'',
          [''datasets'', ''housing'', ''housing.csv''] \<mapsto> File ''a,b''] \<and>
   is_file
     [[''datasets''] \<mapsto> Dir, [''datasets'', ''housing''] \<mapsto> Dir,
      [''datasets'', ''housing'', ''housing.tgz''] \<mapsto> File ''archive'',
      [''datasets'', ''housing'', ''housing.csv''] \<mapsto> File ''a,b'']
     [''datasets'', ''housing'', ''housing.tgz'']"
proof -
  let ?after = "[[''datasets''] \<mapsto> Dir, [''datasets'', ''housing''] \<mapsto> Dir,
      [''datasets'', ''housing'', ''housing.tgz''] \<mapsto> File ''archive'',
      [''datasets'', ''housing'', ''housing.csv''] \<mapsto> File ''a,b'']"
  have run: "fetch_housing_data (\<lambda>u. Inr ''archive'') (\<lambda>c. Inr [(''housing.csv'', ''a,b'')])
      Map.empty HOUSING_URL HOUSING_PATH = Inr ?after"
    unfolding housing_paths(1) fetch_example by (rule extract_example) simp
  show ?thesis
    using run
      cells_leave_files_on_disk [of Map.empty "\<lambda>u. Inr ''archive''"
        "\<lambda>c. Inr [(''housing.csv'', ''a,b'')]" HOUSING_URL ?after]
    by simp
qed

text \<open>
  The claim that no operation writes a file fails on the Chapter 13 cell: run
  in an empty working directory, it leaves \<open>data/file_0.txt\<close> with its two
  lines.
\<close>

theorem sample_text_files_counterexample:
  "(case create_sample_text_files Map.empty of
      Inl e \<Rightarrow> None
    | Inr fs \<Rightarrow> fs [''data'', ''file_0.txt'']) =
     Some (File ''Sample line 1 in file 0\<newline>Sample line 2 in file 0\<newline>'')"
proof -
  have "makedirs Map.empty ''data'' = Inr [[''data''] \<mapsto> Dir]"
    by (simp add: makedirs_def sample_paths)
  moreover have "for_loop write_sample_file (py_range 3) [[''data''] \<mapsto> Dir] =
     Inr ([[''data''] \<mapsto> Dir]([''data'', ''file_0.txt''] \<mapsto>
                File ''Sample line 1 in file 0\<newline>Sample line 2 in file 0\<newline>'',
              [''data'', ''file_1.txt''] \<mapsto>
                File ''Sample line 1 in file 1\<newline>Sample line 2 in file 1\<newline>'',
              [''data'', ''file_2.txt''] \<mapsto>
                File ''Sample line 1 in file 2\<newline>Sample line 2 in file 2\<newline>''))"
    by (rule sample_files_from_dir) simp_all
  ultimately show ?thesis
    by (simp add: create_sample_text_files_def)
qed


subsection \<open>Failures of the housing cell\<close>

lemma load_missing:
  "fs [''datasets'', ''housing'', ''housing.csv''] = None \<Longrightarrow>
   load_housing_data parse_csv fs HOUSING_PATH = Inl FileNotFoundError"
  by (simp add: load_housing_data_def read_csv_def read_file_def housing_paths)

lemma load_result:
  "load_housing_data parse_csv fs HOUSING_PATH = Inr housing \<Longrightarrow>
   \<exists>text. fs [''datasets'', ''housing'', ''housing.csv''] = Some (File text) \<and>
          parse_csv text = Inr housing"
  by (auto simp add: load_housing_data_def read_csv_def read_file_def housing_paths
      split: option.splits node.splits)

lemma open_w_empty_file: "open_w fs path = Inr fs' \<Longrightarrow> fs' (split_path path) = Some (File [])"
  by (auto simp add: open_w_def Let_def split: if_splits option.splits node.splits)

lemma fetch_needs_download:
  assumes run: "fetch_housing_data urlopen untar fs url path = Inr fs'"
  shows "\<exists>content. urlopen url = Inr content \<and> (\<exists>members. untar content = Inr members)"
proof -
  let ?tgz = "path_join path ''housing.tgz''"
  obtain fs1 fs2 members where
    ret: "urlretrieve urlopen fs1 url ?tgz = Inr fs2" and
    tar: "tarfile_open untar fs2 ?tgz = Inr members"
    using run by (auto simp add: fetch_housing_data_def Let_def split: sum.splits)
  obtain content fs3 where url: "urlopen url = Inr content"
    and op: "open_w fs1 ?tgz = Inr fs3" and fs2: "fs2 = fwrite fs3 ?tgz content"
    using ret by (auto simp add: urlretrieve_def split: sum.splits)
  have "fs3 (split_path ?tgz) = Some (File [])"
    using op by (rule open_w_empty_file)
  then have "read_file fs2 ?tgz = Inr content"
    by (simp add: fs2 fwrite_def read_file_def)
  then have "untar content = Inr members"
    using tar by (simp add: tarfile_open_def)
  with url show ?thesis by blast
qed

text \<open>
  The housing cell with its file system and libraries: a failure of any step
  is the result of the cell. A failed download, an archive that cannot be read and a failure
  inside \<open>fetch_housing_data\<close> in general end the cell with that error; a
  missing \<open>housing.csv\<close> ends \<open>load_housing_data\<close> and the cell with
  \<open>FileNotFoundError\<close>; and the cell yields a value only when the download,
  the archive, the file and the parser all succeeded, so that no failure is
  turned into a result.
\<close>

lemma housing_cell_failures:
  "(fetch_housing_data urlopen untar fs HOUSING_URL HOUSING_PATH = Inl e \<longrightarrow>
      housing_cell urlopen untar parse_csv fs = Inl e) \<and>
   (makedirs fs HOUSING_PATH = Inr fs1 \<and> urlopen HOUSING_URL = Inl e \<longrightarrow>
      fetch_housing_data urlopen untar fs HOUSING_URL HOUSING_PATH = Inl e) \<and>
   (makedirs fs HOUSING_PATH = Inr fs1 \<and>
    urlretrieve urlopen fs1 HOUSING_URL (path_join HOUSING_PATH ''housing.tgz'') = Inr fs2 \<and>
    tarfile_open untar fs2 (path_join HOUSING_PATH ''housing.tgz'') = Inl e \<longrightarrow>
      fetch_housing_data urlopen untar fs HOUSING_URL HOUSING_PATH = Inl e) \<and>
   (fs [''datasets'', ''housing'', ''housing.csv''] = None \<longrightarrow>
      load_housing_data parse_csv fs HOUSING_PATH = Inl FileNotFoundError) \<and>
   (fetch_housing_data urlopen untar fs HOUSING_URL HOUSING_PATH = Inr fs' \<and>
    load_housing_data parse_csv fs' HOUSING_PATH = Inl e \<longrightarrow>
      housing_cell urlopen untar parse_csv fs = Inl e) \<and>
   (housing_cell urlopen untar parse_csv fs = Inr (fs', housing) \<longrightarrow>
      fetch_housing_data urlopen untar fs HOUSING_URL HOUSING_PATH = Inr fs' \<and>
      load_housing_data parse_csv fs' HOUSING_PATH = Inr housing \<and>
      (\<exists>content. urlopen HOUSING_URL = Inr content \<and> (\<exists>members. untar content = Inr members)) \<and>
      (\<exists>text. fs' [''datasets'', ''housing'', ''housing.csv''] = Some (File text) \<and>
              parse_csv text = Inr housing))"
proof (intro conjI impI)
  assume "fetch_housing_data urlopen untar fs HOUSING_URL HOUSING_PATH = Inl e"
  then show "housing_cell urlopen untar parse_csv fs = Inl e"
    by (simp add: housing_cell_def)
next
  assume "makedirs fs HOUSING_PATH = Inr fs1 \<and> urlopen HOUSING_URL = Inl e"
  then show "fetch_housing_data urlopen untar fs HOUSING_URL HOUSING_PATH = Inl e"
    by (simp add: fetch_housing_data_def urlretrieve_def)
next
  assume "makedirs fs HOUSING_PATH = Inr fs1 \<and>
    urlretrieve urlopen fs1 HOUSING_URL (path_join HOUSING_PATH ''housing.tgz'') = Inr fs2 \<and>
    tarfile_open untar fs2 (path_join HOUSING_PATH ''housing.tgz'') = Inl e"
  then show "fetch_housing_data urlopen untar fs HOUSING_URL HOUSING_PATH = Inl e"
    by (simp add: fetch_housing_data_def)
next
  assume "fs [''datasets'', ''housing'', ''housing.csv''] = None"
  then show "load_housing_data parse_csv fs HOUSING_PATH = Inl FileNotFoundError"
    by (rule load_missing)
next
  assume "fetch_housing_data urlopen untar fs HOUSING_URL HOUSING_PATH = Inr fs' \<and>
    load_housing_data parse_csv fs' HOUSING_PATH = Inl e"
  then show "housing_cell urlopen untar parse_csv fs = Inl e"
    by (simp add: housing_cell_def)
next
  assume cell: "housing_cell urlopen untar parse_csv fs = Inr (fs', housing)"
  then show f: "fetch_housing_data urlopen untar fs HOUSING_URL HOUSING_PATH = Inr fs'"
    by (auto simp add: housing_cell_def split: sum.splits)
  show l: "load_housing_data parse_csv fs' HOUSING_PATH = Inr housing"
    using cell by (auto simp add: housing_cell_def split: sum.splits)
  show "\<exists>content. urlopen HOUSING_URL = Inr content \<and> (\<exists>members. untar content = Inr members)"
    using f by (rule fetch_needs_download)
  show "\<exists>text. fs' [''datasets'', ''housing'', ''housing.csv''] = Some (File text) \<and>
              parse_csv text = Inr housing"
    using l by (rule load_result)
qed

lemma housing_cell_failures_example:
  "housing_cell (\<lambda>u. Inl (LibraryError ''URLError'')) (\<lambda>c. Inr [(''housing.csv'', ''a,b'')])
      (\<lambda>text. Inr text) Map.empty = Inl (LibraryError ''URLError'') \<and>
   housing_cell (\<lambda>u. Inr ''archive'') (\<lambda>c. Inl (LibraryError ''ReadError''))
      (\<lambda>text. Inr text) Map.empty = Inl (LibraryError ''ReadError'') \<and>
   housing_cell (\<lambda>u. Inr ''archive'') (\<lambda>c. Inr [(''README'', ''none'')])
      (\<lambda>text. Inr text) Map.empty = Inl FileNotFoundError \<and>
   housing_cell (\<lambda>u. Inr ''archive'') (\<lambda>c. Inr [(''housing.csv'', ''a,b'')])
      (\<lambda>text. Inr text) Map.empty =
     Inr ([[''datasets''] \<mapsto> Dir, [''datasets'', ''housing''] \<mapsto> Dir,
           [''datasets'', ''housing'', ''housing.tgz''] \<mapsto> File ''archive'',
           [''datasets'', ''housing'', ''housing.csv''] \<mapsto> File ''a,b''],
          ''a,b'')"
proof -
  let ?dirs = "[[''datasets''] \<mapsto> Dir, [''datasets'', ''housing''] \<mapsto> Dir]"
  let ?tgz = "?dirs([''datasets'', ''housing'', ''housing.tgz''] \<mapsto> File ''archive'')"
  let ?ok = "\<lambda>u::string. (Inr ''archive'' :: py_error + string)"
  let ?id = "\<lambda>text::string. (Inr text :: py_error + string)"
  have mk: "makedirs Map.empty HOUSING_PATH = Inr ?dirs"
    by (simp add: makedirs_def housing_paths)
  have ret: "urlretrieve ?ok ?dirs HOUSING_URL (path_join HOUSING_PATH ''housing.tgz'') = Inr ?tgz"
    by (simp add: urlretrieve_def open_w_def fwrite_def housing_paths)
  have bad_tar: "tarfile_open (\<lambda>c. Inl (LibraryError ''ReadError'')) ?tgz
      (path_join HOUSING_PATH ''housing.tgz'') = Inl (LibraryError ''ReadError'')"
    by (simp add: tarfile_open_def read_file_def housing_paths)
  have readme: "fetch_housing_data ?ok (\<lambda>c. Inr [(''README'', ''none'')]) Map.empty
      HOUSING_URL HOUSING_PATH = Inr (?tgz([''datasets'', ''housing'', ''README''] \<mapsto> File ''none''))"
    unfolding housing_paths(1) fetch_example by (rule extract_example) simp
  have csv: "fetch_housing_data ?ok (\<lambda>c. Inr [(''housing.csv'', ''a,b'')]) Map.empty
      HOUSING_URL HOUSING_PATH = Inr (?tgz([''datasets'', ''housing'', ''housing.csv''] \<mapsto> File ''a,b''))"
    unfolding housing_paths(1) fetch_example by (rule extract_example) simp
  have loaded: "load_housing_data ?id
      (?tgz([''datasets'', ''housing'', ''housing.csv''] \<mapsto> File ''a,b'')) HOUSING_PATH = Inr ''a,b''"
    by (simp add: load_housing_data_def read_csv_def read_file_def housing_paths)
  have one: "housing_cell (\<lambda>u. Inl (LibraryError ''URLError'')) (\<lambda>c. Inr [(''housing.csv'', ''a,b'')])
      ?id Map.empty = Inl (LibraryError ''URLError'')"
    using mk
      housing_cell_failures [of "\<lambda>u. Inl (LibraryError ''URLError'')"
        "\<lambda>c. Inr [(''housing.csv'', ''a,b'')]" Map.empty "LibraryError ''URLError''" ?id ?dirs
        ?dirs ?dirs "''a,b''"]
    by blast
  have two: "housing_cell ?ok (\<lambda>c. Inl (LibraryError ''ReadError'')) ?id Map.empty =
      Inl (LibraryError ''ReadError'')"
    using mk ret bad_tar
      housing_cell_failures [of ?ok "\<lambda>c. Inl (LibraryError ''ReadError'')" Map.empty
        "LibraryError ''ReadError''" ?id ?dirs ?tgz ?tgz "''a,b''"]
    by blast
  let ?readme = "?tgz([''datasets'', ''housing'', ''README''] \<mapsto> File ''none'')"
  have absent: "?readme [''datasets'', ''housing'', ''housing.csv''] = None"
    by simp
  have missing: "load_housing_data ?id ?readme HOUSING_PATH = Inl FileNotFoundError"
    using absent
      housing_cell_failures [of ?ok "\<lambda>c. Inr [(''README'', ''none'')]"
        ?readme FileNotFoundError ?id ?dirs ?tgz ?readme "''a,b''"]
    by blast
  have three: "housing_cell ?ok (\<lambda>c. Inr [(''README'', ''none'')]) ?id Map.empty =
      Inl FileNotFoundError"
    using readme missing
      housing_cell_failures [of ?ok "\<lambda>c. Inr [(''README'', ''none'')]" Map.empty
        FileNotFoundError ?id ?dirs ?tgz ?readme "''a,b''"]
    by blast
  have four: "housing_cell ?ok (\<lambda>c. Inr [(''housing.csv'', ''a,b'')]) ?id Map.empty =
      Inr (?tgz([''datasets'', ''housing'', ''housing.csv''] \<mapsto> File ''a,b''), ''a,b'')"
    using csv loaded by (simp add: housing_cell_def)
  show ?thesis
    using one two three four by simp
qed

section \<open>Exception handling in the code cells\<close>

text \<open>
  Whether a failure is handled is a matter of the statement structure of a
  cell: only a \<open>try\<close> statement (or a context manager that suppresses
  exceptions) can stop an exception. The structure of every code cell of every
  notebook is therefore kept, and the expressions are abstracted: \<open>Stmt\<close>
  stands for a statement without sub-statements (an import, an assignment, an
  expression statement, \<open>pass\<close>, a notebook magic), \<open>Return\<close> for a \<open>return\<close>
  statement, and the compound statements carry their blocks; a \<open>try\<close>
  statement carries its body, the bodies of its handlers, its \<open>else\<close> block and
  its \<open>finally\<close> block. The notebooks contain no \<open>raise\<close>, \<open>assert\<close>, \<open>break\<close>
  or \<open>continue\<close> statement and no asynchronous code.
\<close>

datatype loop_kind = For | While

datatype statement =
    Stmt
  | Return
  | IfStmt "statement list" "statement list"
  | LoopStmt loop_kind "statement list" "statement list"
  | WithStmt "statement list"
  | FunctionDef string "statement list"
  | ClassDef string "statement list"
  | TryStmt "statement list" "statement list list" "statement list" "statement list"

text \<open>A statement is free of handlers when no \<open>try\<close> statement occurs in it.\<close>

fun handler_free :: "statement \<Rightarrow> bool" where
  "handler_free Stmt = True"
| "handler_free Return = True"
| "handler_free (IfStmt body orelse) =
     (list_all handler_free body \<and> list_all handler_free orelse)"
| "handler_free (LoopStmt kind body orelse) =
     (list_all handler_free body \<and> list_all handler_free orelse)"
| "handler_free (WithStmt body) = list_all handler_free body"
| "handler_free (FunctionDef name body) = list_all handler_free body"
| "handler_free (ClassDef name body) = list_all handler_free body"
| "handler_free (TryStmt body handlers orelse finalbody) = False"

text \<open>The bodies of the functions and methods defined in a statement.\<close>

fun bodies_of :: "statement \<Rightarrow> statement list list" where
  "bodies_of Stmt = []"
| "bodies_of Return = []"
| "bodies_of (IfStmt body orelse) =
     concat (map bodies_of body) @ concat (map bodies_of orelse)"
| "bodies_of (LoopStmt kind body orelse) =
     concat (map bodies_of body) @ concat (map bodies_of orelse)"
| "bodies_of (WithStmt body) = concat (map bodies_of body)"
| "bodies_of (FunctionDef name body) = body # concat (map bodies_of body)"
| "bodies_of (ClassDef name body) = concat (map bodies_of body)"
| "bodies_of (TryStmt body handlers orelse finalbody) =
     concat (map bodies_of body) @ concat (map (\<lambda>h. concat (map bodies_of h)) handlers) @
     concat (map bodies_of orelse) @ concat (map bodies_of finalbody)"

definition function_bodies :: "statement list list \<Rightarrow> statement list list" where
  "function_bodies notebook = concat (map bodies_of (concat notebook))"

subsection \<open>Execution\<close>

text \<open>
  Running a cell produces a trace of events and an outcome. Every evaluation
  of an expression, of a simple statement or of the header of a compound
  statement is an event: it succeeds (\<open>Ok\<close>) or it fails with an exception
  (\<open>Fail e\<close>); which of the two is not determined by the structure, so that
  every library call may fail. An evaluation may also call functions defined
  in the notebook, whose bodies are then run; an exception leaving such a body
  is raised by the evaluation. The outcome of a statement or block is normal
  completion, a \<open>return\<close>, or an exception that leaves it.

  The rules are those of the Python language: a block stops at the first
  statement that does not complete normally; a loop evaluates its header
  before each iteration and runs its \<open>else\<close> block when the iteration ends; a
  \<open>with\<close> statement enters its context manager, runs its body and then calls
  the manager's exit, which lets an exception of the body pass (the managers
  of the notebooks are files, a tar archive, a record writer, a distribution
  scope and a gradient tape) and may itself fail; executing a function
  definition only binds the function, and executing a class definition runs
  the class body. In a \<open>try\<close> statement an exception of the body is passed to a
  handler, if one matches, and the \<open>finally\<close> block runs last; its outcome
  replaces the pending one unless it completes normally.
\<close>

datatype event = Ok | Fail py_error

datatype outcome = Normal | Returned | Raised py_error

fun after_finally :: "outcome \<Rightarrow> outcome \<Rightarrow> outcome" where
  "after_finally pending Normal = pending"
| "after_finally pending Returned = Returned"
| "after_finally pending (Raised e) = Raised e"

inductive eval_expr :: "statement list list \<Rightarrow> event list \<Rightarrow> py_error option \<Rightarrow> bool"
  and exec_statement :: "statement list list \<Rightarrow> statement \<Rightarrow> event list \<Rightarrow> outcome \<Rightarrow> bool"
  and exec_block :: "statement list list \<Rightarrow> statement list \<Rightarrow> event list \<Rightarrow> outcome \<Rightarrow> bool"
  for defs :: "statement list list"
where
  eval_ok: "eval_expr defs [Ok] None"
| eval_fail: "eval_expr defs [Fail e] (Some e)"
| eval_call_normal:
    "body \<in> set defs \<Longrightarrow> exec_block defs body tr1 Normal \<Longrightarrow> eval_expr defs tr2 r
     \<Longrightarrow> eval_expr defs (tr1 @ tr2) r"
| eval_call_returned:
    "body \<in> set defs \<Longrightarrow> exec_block defs body tr1 Returned \<Longrightarrow> eval_expr defs tr2 r
     \<Longrightarrow> eval_expr defs (tr1 @ tr2) r"
| eval_call_raised:
    "body \<in> set defs \<Longrightarrow> exec_block defs body tr (Raised e) \<Longrightarrow> eval_expr defs tr (Some e)"
| stmt_ok: "eval_expr defs tr None \<Longrightarrow> exec_statement defs Stmt tr Normal"
| stmt_raised: "eval_expr defs tr (Some e) \<Longrightarrow> exec_statement defs Stmt tr (Raised e)"
| return_ok: "eval_expr defs tr None \<Longrightarrow> exec_statement defs Return tr Returned"
| return_raised: "eval_expr defs tr (Some e) \<Longrightarrow> exec_statement defs Return tr (Raised e)"
| if_raised:
    "eval_expr defs tr (Some e) \<Longrightarrow> exec_statement defs (IfStmt body orelse) tr (Raised e)"
| if_true:
    "eval_expr defs tr1 None \<Longrightarrow> exec_block defs body tr2 out
     \<Longrightarrow> exec_statement defs (IfStmt body orelse) (tr1 @ tr2) out"
| if_false:
    "eval_expr defs tr1 None \<Longrightarrow> exec_block defs orelse tr2 out
     \<Longrightarrow> exec_statement defs (IfStmt body orelse) (tr1 @ tr2) out"
| loop_raised:
    "eval_expr defs tr (Some e) \<Longrightarrow> exec_statement defs (LoopStmt kind body orelse) tr (Raised e)"
| loop_end:
    "eval_expr defs tr1 None \<Longrightarrow> exec_block defs orelse tr2 out
     \<Longrightarrow> exec_statement defs (LoopStmt kind body orelse) (tr1 @ tr2) out"
| loop_iteration:
    "eval_expr defs tr1 None \<Longrightarrow> exec_block defs body tr2 Normal
     \<Longrightarrow> exec_statement defs (LoopStmt kind body orelse) tr3 out
     \<Longrightarrow> exec_statement defs (LoopStmt kind body orelse) (tr1 @ tr2 @ tr3) out"
| loop_returned:
    "eval_expr defs tr1 None \<Longrightarrow> exec_block defs body tr2 Returned
     \<Longrightarrow> exec_statement defs (LoopStmt kind body orelse) (tr1 @ tr2) Returned"
| loop_body_raised:
    "eval_expr defs tr1 None \<Longrightarrow> exec_block defs body tr2 (Raised e)
     \<Longrightarrow> exec_statement defs (LoopStmt kind body orelse) (tr1 @ tr2) (Raised e)"
| with_raised:
    "eval_expr defs tr (Some e) \<Longrightarrow> exec_statement defs (WithStmt body) tr (Raised e)"
| with_exit:
    "eval_expr defs tr1 None \<Longrightarrow> exec_block defs body tr2 out \<Longrightarrow> eval_expr defs tr3 None
     \<Longrightarrow> exec_statement defs (WithStmt body) (tr1 @ tr2 @ tr3) out"
| with_exit_raised:
    "eval_expr defs tr1 None \<Longrightarrow> exec_block defs body tr2 out \<Longrightarrow> eval_expr defs tr3 (Some e)
     \<Longrightarrow> exec_statement defs (WithStmt body) (tr1 @ tr2 @ tr3) (Raised e)"
| def_ok: "eval_expr defs tr None \<Longrightarrow> exec_statement defs (FunctionDef name body) tr Normal"
| def_raised:
    "eval_expr defs tr (Some e) \<Longrightarrow> exec_statement defs (FunctionDef name body) tr (Raised e)"
| class_raised:
    "eval_expr defs tr (Some e) \<Longrightarrow> exec_statement defs (ClassDef name body) tr (Raised e)"
| class_body:
    "eval_expr defs tr1 None \<Longrightarrow> exec_block defs body tr2 out
     \<Longrightarrow> exec_statement defs (ClassDef name body) (tr1 @ tr2) out"
| try_normal:
    "exec_block defs body tr1 Normal \<Longrightarrow> exec_block defs orelse tr2 out
     \<Longrightarrow> exec_block defs finalbody tr3 out3
     \<Longrightarrow> exec_statement defs (TryStmt body handlers orelse finalbody) (tr1 @ tr2 @ tr3)
          (after_finally out out3)"
| try_returned:
    "exec_block defs body tr1 Returned \<Longrightarrow> exec_block defs finalbody tr3 out3
     \<Longrightarrow> exec_statement defs (TryStmt body handlers orelse finalbody) (tr1 @ tr3)
          (after_finally Returned out3)"
| try_handled:
    "exec_block defs body tr1 (Raised e) \<Longrightarrow> handler \<in> set handlers
     \<Longrightarrow> exec_block defs handler tr2 out \<Longrightarrow> exec_block defs finalbody tr3 out3
     \<Longrightarrow> exec_statement defs (TryStmt body handlers orelse finalbody) (tr1 @ tr2 @ tr3)
          (after_finally out out3)"
| try_unhandled:
    "exec_block defs body tr1 (Raised e) \<Longrightarrow> exec_block defs finalbody tr3 out3
     \<Longrightarrow> exec_statement defs (TryStmt body handlers orelse finalbody) (tr1 @ tr3)
          (after_finally (Raised e) out3)"
| block_end: "exec_block defs [] [] Normal"
| block_next:
    "exec_statement defs s tr1 Normal \<Longrightarrow> exec_block defs rest tr2 out
     \<Longrightarrow> exec_block defs (s # rest) (tr1 @ tr2) out"
| block_returned:
    "exec_statement defs s tr Returned \<Longrightarrow> exec_block defs (s # rest) tr Returned"
| block_raised:
    "exec_statement defs s tr (Raised e) \<Longrightarrow> exec_block defs (s # rest) tr (Raised e)"

text \<open>
  A trace and an outcome agree when the failures of the trace are not lost: an
  outcome other than an exception has a trace without failure, and an
  exception that leaves is one that an event of the trace raised.
\<close>

fun propagated :: "event list \<Rightarrow> outcome \<Rightarrow> bool" where
  "propagated tr Normal = list_all (\<lambda>ev. ev = Ok) tr"
| "propagated tr Returned = list_all (\<lambda>ev. ev = Ok) tr"
| "propagated tr (Raised e) = (Fail e \<in> set tr)"

fun propagated_expr :: "event list \<Rightarrow> py_error option \<Rightarrow> bool" where
  "propagated_expr tr None = list_all (\<lambda>ev. ev = Ok) tr"
| "propagated_expr tr (Some e) = (Fail e \<in> set tr)"

subsection \<open>The cells of the notebooks\<close>

text \<open>
  The statement structure of the code cells, one list of cells for each
  notebook, in the order of the files. Lines of a cell that are notebook
  magics (\<open>%\<close>, \<open>!\<close>) count as simple statements.
\<close>

text \<open>
  \<^verbatim>\<open>src/Part1 Fundamental of Machine Learning/Chapter 01/01 Machine Learning Landscape.ipynb\<close>: 1 code cells, starting at the lines
  123.
\<close>

definition skeleton_chapter_01 :: "statement list list" where
  "skeleton_chapter_01 =
     [[Stmt, Stmt, Stmt, Stmt, Stmt, Stmt, Stmt, Stmt, Stmt, Stmt]]"

text \<open>
  \<^verbatim>\<open>src/Part1 Fundamental of Machine Learning/Chapter 02/02 End to End Machine Learning Project.ipynb\<close>: 11 code cells, starting at the lines
  28, 67, 110, 120, 130, 140, 167, 203, 234, 265, 290.
\<close>

definition skeleton_chapter_02 :: "statement list list" where
  "skeleton_chapter_02 =
     [[Stmt, Stmt, Stmt, Stmt, Stmt, Stmt, Stmt, Stmt, Stmt, Stmt, Stmt, Stmt, Stmt],
      [Stmt, Stmt, Stmt, (FunctionDef ''fetch_housing_data'' [Stmt, Stmt, Stmt,
       (WithStmt [Stmt])]), (FunctionDef ''load_housing_data'' [Stmt, Return]), Stmt, Stmt,
       Stmt],
      [Stmt],
      [Stmt],
      [Stmt],
      [Stmt, Stmt],
      [Stmt, Stmt, (LoopStmt For [Stmt, Stmt] []), (LoopStmt For [Stmt] [])],
      [Stmt, Stmt, Stmt, Stmt],
      [Stmt, Stmt, Stmt, Stmt, Stmt],
      [Stmt, Stmt, (ClassDef ''CombinedAttributesAdder'' [(FunctionDef ''__init__'' [Stmt]),
       (FunctionDef ''fit'' [Return]), (FunctionDef ''transform'' [Stmt, Stmt, (IfStmt [Stmt,
       Return] [Return])])])],
      [Stmt, Stmt, Stmt, Stmt, Stmt, Stmt, Stmt]]"

text \<open>
  \<^verbatim>\<open>src/Part1 Fundamental of Machine Learning/Chapter 03/03 Classification.ipynb\<close>: 6 code cells, starting at the lines
  27, 53, 78, 105, 126, 152.
\<close>

definition skeleton_chapter_03 :: "statement list list" where
  "skeleton_chapter_03 =
     [[Stmt, Stmt, Stmt, Stmt, Stmt, Stmt, Stmt],
      [Stmt, Stmt, Stmt, Stmt, Stmt, Stmt],
      [Stmt, Stmt, Stmt, Stmt, Stmt, Stmt, Stmt],
      [Stmt, Stmt],
      [Stmt, (ClassDef ''Never5Classifier'' [(FunctionDef ''fit'' [Return]),
       (FunctionDef ''predict'' [Return])]), Stmt, Stmt],
      [Stmt, Stmt, Stmt, Stmt, Stmt]]"

text \<open>
  \<^verbatim>\<open>src/Part1 Fundamental of Machine Learning/Chapter 04/04 Training Models.ipynb\<close>: 10 code cells, starting at the lines
  51, 99, 129, 170, 227, 278, 326, 362, 436, 495.
\<close>

definition skeleton_chapter_04 :: "statement list list" where
  "skeleton_chapter_04 =
     [[Stmt, Stmt, Stmt, Stmt, Stmt, Stmt, Stmt, Stmt, Stmt, Stmt, Stmt],
      [Stmt, Stmt, Stmt],
      [Stmt, Stmt, Stmt, Stmt, Stmt],
      [Stmt, Stmt, Stmt, (LoopStmt For [Stmt, Stmt] []), Stmt],
      [Stmt, Stmt, (FunctionDef ''learning_schedule'' [Return]), Stmt,
       (LoopStmt For [(LoopStmt For [Stmt, Stmt, Stmt, Stmt, Stmt, Stmt] [])] []), Stmt],
      [Stmt, Stmt, Stmt, Stmt, Stmt, Stmt, Stmt, Stmt, Stmt, Stmt, Stmt, Stmt],
      [Stmt, Stmt, (FunctionDef ''plot_learning_curves'' [Stmt, Stmt, (LoopStmt For [Stmt,
       Stmt, Stmt, Stmt, Stmt] []), Stmt, Stmt, Stmt, Stmt, Stmt, Stmt, Stmt])],
      [Stmt, Stmt],
      [Stmt, Stmt, Stmt, Stmt, Stmt, Stmt, Stmt, Stmt, Stmt, Stmt, Stmt, Stmt, Stmt, Stmt,
       Stmt, Stmt, Stmt, Stmt],
      [Stmt, Stmt, Stmt, Stmt, Stmt, Stmt]]"

text \<open>
  \<^verbatim>\<open>src/Part1 Fundamental of Machine Learning/Chapter 05/05 Support Vector Machines.ipynb\<close>: 4 code cells, starting at the lines
  51, 114, 153, 202.
\<close>

definition skeleton_chapter_05 :: "statement list list" where
  "skeleton_chapter_05 =
     [[Stmt, Stmt, Stmt, Stmt, Stmt, Stmt, Stmt, Stmt, Stmt, Stmt, Stmt],
      [Stmt, Stmt, Stmt, Stmt, Stmt, Stmt, Stmt, Stmt],
      [Stmt, Stmt, Stmt],
      [Stmt, Stmt, Stmt, Stmt, Stmt, Stmt]]"

text \<open>
  \<^verbatim>\<open>src/Part1 Fundamental of Machine Learning/Chapter 06/06 Decision Tree.ipynb\<close>: 3 code cells, starting at the lines
  53, 134, 170.
\<close>

definition skeleton_chapter_06 :: "statement list list" where
  "skeleton_chapter_06 =
     [[Stmt, Stmt, Stmt, Stmt, Stmt, Stmt, Stmt, Stmt, Stmt, Stmt, Stmt, Stmt],
      [Stmt, Stmt, Stmt, Stmt, Stmt, Stmt],
      [Stmt, Stmt, Stmt, Stmt, Stmt, Stmt, Stmt, Stmt, Stmt, Stmt, Stmt, Stmt, Stmt, Stmt,
       Stmt, Stmt, Stmt, Stmt]]"

text \<open>
  \<^verbatim>\<open>src/Part1 Fundamental of Machine Learning/Chapter 07/07 Ensemble Learning and Random Forests.ipynb\<close>: 8 code cells, starting at the lines
  44, 101, 138, 181, 233, 266, 299, 340.
\<close>

definition skeleton_chapter_07 :: "statement list list" where
  "skeleton_chapter_07 =
     [[Stmt, Stmt, Stmt, Stmt, Stmt, Stmt, Stmt, Stmt, Stmt, Stmt, Stmt, Stmt, Stmt,
       (LoopStmt For [Stmt, Stmt, Stmt] [])],
      [Stmt, Stmt, Stmt, Stmt],
      [Stmt, Stmt, Stmt, Stmt, Stmt, Stmt],
      [Stmt, Stmt, Stmt],
      [Stmt, Stmt, Stmt, Stmt, Stmt],
      [Stmt, Stmt, Stmt, Stmt, Stmt],
      [Stmt, Stmt, Stmt, Stmt, Stmt, Stmt, Stmt, Stmt, Stmt, Stmt],
      [Stmt, Stmt, Stmt, Stmt]]"

text \<open>
  \<^verbatim>\<open>src/Part1 Fundamental of Machine Learning/Chapter 08/08 Dimensionality Reduction.ipynb\<close>: 4 code cells, starting at the lines
  62, 120, 162, 205.
\<close>

definition skeleton_chapter_08 :: "statement list list" where
  "skeleton_chapter_08 =
     [[Stmt, Stmt, Stmt, Stmt, Stmt, Stmt, Stmt, Stmt, Stmt, Stmt, Stmt, Stmt, Stmt, Stmt],
      [Stmt, Stmt, Stmt, Stmt, Stmt, Stmt, Stmt, Stmt, Stmt, Stmt],
      [Stmt, Stmt, Stmt, Stmt, Stmt, Stmt, Stmt, Stmt, Stmt, Stmt],
      [Stmt, Stmt, Stmt, Stmt, Stmt, Stmt, Stmt, Stmt]]"

text \<open>
  \<^verbatim>\<open>src/Part2 Neural Network and Deep Learning/Chapter 13/13  Loading and Preprocessing Data.ipynb\<close>: 8 code cells, starting at the lines
  44, 75, 116, 147, 190, 231, 262, 293.
\<close>

definition skeleton_chapter_13 :: "statement list list" where
  "skeleton_chapter_13 =
     [[Stmt, Stmt, Stmt, Stmt, Stmt, Stmt, Stmt, (LoopStmt For [Stmt] [])],
      [Stmt, Stmt, (LoopStmt For [(WithStmt [Stmt, Stmt])] []), Stmt, Stmt,
       (FunctionDef ''read_file'' [Return]), Stmt, (LoopStmt For [Stmt] [])],
      [Stmt, (FunctionDef ''square'' [Return]), (FunctionDef ''add_noise'' [Return]), Stmt,
       (LoopStmt For [Stmt] [])],
      [(FunctionDef ''preprocess_image'' [Stmt, Stmt, Stmt, Stmt, Return]), Stmt, Stmt, Stmt,
       Stmt],
      [(FunctionDef ''create_optimized_pipeline'' [Stmt, Stmt, Stmt, Stmt, Stmt, Return]),
       Stmt],
      [(FunctionDef ''create_tfrecord_example'' [Stmt, Stmt, Return]),
       (WithStmt [(LoopStmt For [Stmt, Stmt, Stmt, Stmt] [])])],
      [Stmt, (FunctionDef ''parse_tfrecord'' [Return]), Stmt, Stmt, (LoopStmt For [Stmt] [])],
      [Stmt, Stmt, Stmt, Stmt, Stmt, Stmt, Stmt, Stmt, Stmt, Stmt, Stmt]]"

text \<open>
  \<^verbatim>\<open>src/Part2 Neural Network and Deep Learning/Chapter 15/15 Processing Sequences Using.ipynb\<close>: 6 code cells, starting at the lines
  53, 84, 113, 150, 185, 236.
\<close>

definition skeleton_chapter_15 :: "statement list list" where
  "skeleton_chapter_15 =
     [[Stmt, Stmt, Stmt, Stmt, Stmt],
      [Stmt, Stmt, Stmt],
      [Stmt, Stmt, Stmt, Stmt, Stmt, Stmt, Stmt, Stmt, Stmt, Stmt, Stmt, Stmt],
      [Stmt, Stmt, (LoopStmt For [Stmt] []), Stmt, Stmt, Stmt],
      [(ClassDef ''AttentionLayer'' [(FunctionDef ''__init__'' [Stmt, Stmt, Stmt, Stmt]),
       (FunctionDef ''call'' [Stmt, Stmt, Stmt, Stmt, Return])]), Stmt, Stmt, Stmt, Stmt, Stmt,
       Stmt],
      [Stmt, Stmt, Stmt, Stmt, Stmt, Stmt, Stmt, Stmt, Stmt,
       (FunctionDef ''split_input_target'' [Stmt, Stmt, Return]), Stmt, Stmt, Stmt, Stmt, Stmt]]"

text \<open>
  \<^verbatim>\<open>src/Part2 Neural Network and Deep Learning/Chapter 16/16 Natural Language Processing RNNs and Attention.ipynb\<close>: 6 code cells, starting at the lines
  48, 83, 117, 148, 180, 234.
\<close>

definition skeleton_chapter_16 :: "statement list list" where
  "skeleton_chapter_16 =
     [[Stmt, Stmt, Stmt, Stmt, Stmt, Stmt, Stmt, Stmt, Stmt],
      [Stmt, Stmt, Stmt, Stmt, Stmt, Stmt],
      [Stmt, Stmt, Stmt, Stmt, Stmt],
      [Stmt, Stmt, Stmt, Stmt],
      [(ClassDef ''BahdanauAttention'' [(FunctionDef ''__init__'' [Stmt, Stmt, Stmt, Stmt]),
       (FunctionDef ''call'' [Stmt, Stmt, Stmt, Stmt, Stmt, Return])]), Stmt, Stmt, Stmt, Stmt,
       Stmt],
      [(ClassDef ''TransformerBlock'' [(FunctionDef ''__init__'' [Stmt, Stmt, Stmt, Stmt, Stmt,
       Stmt, Stmt]), (FunctionDef ''call'' [Stmt, Stmt, Stmt, Stmt, Stmt, Return])]), Stmt,
       Stmt]]"

text \<open>
  \<^verbatim>\<open>src/Part2 Neural Network and Deep Learning/Chapter 17/17 Representation Learning and Generative Learning Using Autoencoders and GANs..ipynb\<close>: 4 code cells, starting at the lines
  54, 103, 155, 205.
\<close>

definition skeleton_chapter_17 :: "statement list list" where
  "skeleton_chapter_17 =
     [[Stmt, Stmt, Stmt, Stmt, Stmt, Stmt, Stmt, Stmt, Stmt, Stmt, Stmt, Stmt, Stmt, Stmt,
       Stmt, Stmt, Stmt],
      [(ClassDef ''Sampling'' [(FunctionDef ''call'' [Stmt, Stmt, Stmt, Stmt, Return])]), Stmt,
       Stmt, Stmt, Stmt, Stmt, Stmt, Stmt, Stmt, Stmt, Stmt, Stmt, Stmt],
      [Stmt, Stmt, Stmt, Stmt, Stmt, Stmt, Stmt, Stmt],
      [(FunctionDef ''train_gan'' [Stmt, Stmt, (LoopStmt For [(LoopStmt For [Stmt, Stmt, Stmt,
       Stmt, Stmt, Stmt, Stmt] []), Stmt] [])])]]"

text \<open>
  \<^verbatim>\<open>src/Part2 Neural Network and Deep Learning/Chapter 19/19 Training and Deploying TensorFlow Models at Scale.ipynb\<close>: 6 code cells, starting at the lines
  22, 53, 71, 92, 123, 143.
\<close>

definition skeleton_chapter_19 :: "statement list list" where
  "skeleton_chapter_19 =
     [[Stmt, Stmt, Stmt, Stmt, Stmt, Stmt, Stmt, Stmt, Stmt],
      [],
      [Stmt, Stmt, Stmt],
      [Stmt, Stmt, Stmt, (WithStmt [Stmt])],
      [Stmt, (LoopStmt For [Stmt] [])],
      [Stmt, (WithStmt [Stmt, Stmt])]]"

text \<open>
  \<^verbatim>\<open>src/unnamed/part_000\<close>: 5 code cells, starting at the lines
  60, 89, 119, 139, 167.
\<close>

definition skeleton_part_000 :: "statement list list" where
  "skeleton_part_000 =
     [[Stmt, Stmt, Stmt],
      [Stmt, Stmt],
      [Stmt],
      [Stmt, Stmt],
      [Stmt, Stmt, Stmt]]"

text \<open>
  \<^verbatim>\<open>src/unnamed/part_001\<close> (its first notebook): 2 code cells, starting at the lines
  46, 92.
\<close>

definition skeleton_part_001_first :: "statement list list" where
  "skeleton_part_001_first =
     [[Stmt, Stmt, Stmt, (FunctionDef ''relu'' [Return]), (FunctionDef ''sigmoid'' [Return]),
       (FunctionDef ''tanh'' [Return]), Stmt, Stmt, Stmt, Stmt, Stmt, Stmt, Stmt, Stmt, Stmt,
       Stmt, Stmt, Stmt],
      [Stmt, Stmt, Stmt, Stmt, Stmt, Stmt, Stmt, Stmt, Stmt, Stmt, Stmt]]"

text \<open>
  \<^verbatim>\<open>src/unnamed/part_001\<close> (its second notebook): 5 code cells, starting at the lines
  243, 273, 302, 350, 392.
\<close>

definition skeleton_part_001_second :: "statement list list" where
  "skeleton_part_001_second =
     [[Stmt, (FunctionDef ''huber_loss'' [Stmt, Stmt, Stmt, Stmt, Return]), Stmt, Stmt, Stmt],
      [Stmt, Stmt, Stmt, Stmt, Stmt],
      [(ClassDef ''MyDenseLayer'' [(FunctionDef ''__init__'' [Stmt, Stmt, Stmt]),
       (FunctionDef ''build'' [Stmt, Stmt, Stmt]), (FunctionDef ''call'' [Return]),
       (FunctionDef ''get_config'' [Stmt, Return])]), Stmt, Stmt],
      [Stmt, Stmt, Stmt, Stmt, Stmt, Stmt, Stmt, Stmt, Stmt, Stmt, (LoopStmt For [Stmt,
       (LoopStmt For [(WithStmt [Stmt, Stmt]), Stmt, Stmt, (IfStmt [Stmt] [])] [])] [])],
      [(FunctionDef ''my_function'' [Return]), Stmt, Stmt]]"

text \<open>
  \<^verbatim>\<open>src/unnamed/part_002\<close>: 4 code cells, starting at the lines
  54, 109, 162, 196.
\<close>

definition skeleton_part_002 :: "statement list list" where
  "skeleton_part_002 =
     [[Stmt, Stmt, Stmt, Stmt],
      [(ClassDef ''ResidualBlock'' [(FunctionDef ''__init__'' [Stmt, Stmt, Stmt, Stmt,
       (IfStmt [Stmt] [])]), (FunctionDef ''call'' [Stmt, (LoopStmt For [Stmt] []), Stmt,
       (LoopStmt For [Stmt] []), Return])]), Stmt, Stmt, Stmt, Stmt, Stmt, Stmt],
      [Stmt, Stmt, Stmt, Stmt, Stmt, Stmt, Stmt, Stmt, Stmt, Stmt, Stmt, Stmt],
      [Stmt, Stmt, Stmt, (FunctionDef ''preprocess'' [Stmt, Stmt, Return]), Stmt, Stmt, Stmt,
       Stmt, Stmt, Stmt, (LoopStmt For [Stmt] []), Stmt, Stmt]]"

text \<open>
  \<^verbatim>\<open>src/unnamed/part_003\<close>: 6 code cells, starting at the lines
  55, 115, 187, 258, 364, 409.
\<close>

definition skeleton_part_003 :: "statement list list" where
  "skeleton_part_003 =
     [[Stmt, Stmt, Stmt, Stmt, Stmt, Stmt, Stmt, Stmt, Stmt, Stmt, (LoopStmt For [Stmt, Stmt,
       (LoopStmt While [(IfStmt [Stmt] [Stmt]), Stmt, Stmt, Stmt] [])] []), Stmt, Stmt],
      [Stmt, Stmt, Stmt, (ClassDef ''DQNAgent'' [(FunctionDef ''__init__'' [Stmt, Stmt, Stmt,
       Stmt, Stmt, Stmt, Stmt, Stmt, Stmt, Stmt]), (FunctionDef ''_build_model'' [Stmt, Stmt,
       Return]), (FunctionDef ''remember'' [Stmt]), (FunctionDef ''act'' [(IfStmt [Return] []),
       Stmt, Return]), (FunctionDef ''replay'' [Stmt, (LoopStmt For [Stmt,
       (IfStmt [Stmt] [Stmt, Stmt]), Stmt] []), (IfStmt [Stmt] [])]),
       (FunctionDef ''update_target_model'' [Stmt])])],
      [(ClassDef ''PGAgent'' [(FunctionDef ''__init__'' [Stmt, Stmt, Stmt, Stmt, Stmt, Stmt,
       Stmt, Stmt]), (FunctionDef ''_build_model'' [Stmt, Stmt, Return]),
       (FunctionDef ''remember'' [Stmt, Stmt, Stmt]), (FunctionDef ''act'' [Stmt, Stmt, Stmt,
       Return]), (FunctionDef ''train'' [Stmt, Stmt, (LoopStmt For [Stmt, Stmt] []), Stmt,
       Stmt, Stmt, Stmt, Stmt])])],
      [(ClassDef ''PPOMemory'' [(FunctionDef ''__init__'' [Stmt, Stmt, Stmt, Stmt, Stmt, Stmt,
       Stmt]), (FunctionDef ''store'' [Stmt, Stmt, Stmt, Stmt, Stmt, Stmt]),
       (FunctionDef ''clear'' [Stmt, Stmt, Stmt, Stmt, Stmt, Stmt])]),
       (ClassDef ''PPOAgent'' [(FunctionDef ''__init__'' [Stmt, Stmt, Stmt]),
       (FunctionDef ''_build_network'' [Stmt, Stmt, Stmt, Stmt, Stmt, Return]),
       (FunctionDef ''update'' [Stmt])])],
      [Stmt, Stmt, Stmt, Stmt, Stmt, Stmt, Stmt, Stmt, Stmt, Stmt],
      [(FunctionDef ''train_agent'' [Stmt, (LoopStmt For [Stmt, Stmt, Stmt, Stmt, Stmt, Stmt,
       Stmt, (IfStmt [Stmt] [])] []), Return])]]"

text \<open>
  \<^verbatim>\<open>src/unnamed/part_004\<close>: 5 code cells, starting at the lines
  46, 90, 130, 165, 199.
\<close>

definition skeleton_part_004 :: "statement list list" where
  "skeleton_part_004 =
     [[Stmt, Stmt, Stmt, Stmt, Stmt, Stmt, Stmt, Stmt, Stmt, Stmt, Stmt, Stmt],
      [Stmt, Stmt, (LoopStmt For [Stmt, Stmt, Stmt] []), Stmt, Stmt, Stmt, Stmt, Stmt],
      [Stmt, Stmt, Stmt, Stmt, Stmt, Stmt],
      [Stmt, Stmt, Stmt, Stmt, Stmt, Stmt],
      [Stmt, Stmt, Stmt, Stmt, Stmt, Stmt, Stmt, Stmt, Stmt]]"

text \<open>The notebooks of the repository.\<close>

definition repository :: "statement list list list" where
  "repository =
     [skeleton_chapter_01, skeleton_chapter_02, skeleton_chapter_03, skeleton_chapter_04,
      skeleton_chapter_05, skeleton_chapter_06, skeleton_chapter_07, skeleton_chapter_08,
      skeleton_chapter_13, skeleton_chapter_15, skeleton_chapter_16, skeleton_chapter_17,
      skeleton_chapter_19, skeleton_part_000, skeleton_part_001_first,
      skeleton_part_001_second, skeleton_part_002, skeleton_part_003, skeleton_part_004]"

subsection \<open>Failures propagate\<close>

lemma propagated_append_ok:
  "list_all (\<lambda>ev. ev = Ok) tr1 \<Longrightarrow> propagated tr2 out \<Longrightarrow> propagated (tr1 @ tr2) out"
  by (cases out) simp_all

lemma propagated_expr_append_ok:
  "list_all (\<lambda>ev. ev = Ok) tr1 \<Longrightarrow> propagated_expr tr2 r \<Longrightarrow> propagated_expr (tr1 @ tr2) r"
  by (cases r) simp_all

lemma propagated_expr_raised: "propagated_expr tr (Some e) \<Longrightarrow> propagated tr (Raised e)"
  by simp

lemma propagated_exit:
  "propagated tr2 out \<Longrightarrow> list_all (\<lambda>ev. ev = Ok) tr1 \<Longrightarrow> list_all (\<lambda>ev. ev = Ok) tr3
   \<Longrightarrow> propagated (tr1 @ tr2 @ tr3) out"
  by (cases out) simp_all

text \<open>
  In a program without handlers, of which the functions are without handlers
  too, every execution keeps its failures.
\<close>

lemma handler_free_propagates:
  assumes defs: "\<forall>body\<in>set defs. list_all handler_free body"
  shows "eval_expr defs tr r \<Longrightarrow> propagated_expr tr r"
    and "exec_statement defs s tr out \<Longrightarrow> handler_free s \<longrightarrow> propagated tr out"
    and "exec_block defs ss tr out \<Longrightarrow> list_all handler_free ss \<longrightarrow> propagated tr out"
proof (induction rule: eval_expr_exec_statement_exec_block.inducts)
  case eval_ok
  show ?case by simp
next
  case (eval_fail e)
  show ?case by simp
next
  case (eval_call_normal body tr1 tr2 r)
  then show ?case
    using defs by (simp add: propagated_expr_append_ok)
next
  case (eval_call_returned body tr1 tr2 r)
  then show ?case
    using defs by (simp add: propagated_expr_append_ok)
next
  case (eval_call_raised body tr e)
  then show ?case
    using defs by simp
next
  case (stmt_ok tr)
  then show ?case by simp
next
  case (stmt_raised tr e)
  then show ?case by simp
next
  case (return_ok tr)
  then show ?case by simp
next
  case (return_raised tr e)
  then show ?case by simp
next
  case (if_raised tr e body orelse)
  then show ?case by simp
next
  case (if_true tr1 body tr2 out orelse)
  then show ?case
    by (simp add: propagated_append_ok)
next
  case (if_false tr1 orelse tr2 out body)
  then show ?case
    by (simp add: propagated_append_ok)
next
  case (loop_raised tr e kind body orelse)
  then show ?case by simp
next
  case (loop_end tr1 orelse tr2 out kind body)
  then show ?case
    by (simp add: propagated_append_ok)
next
  case (loop_iteration tr1 body tr2 kind orelse tr3 out)
  then show ?case
    by (simp add: propagated_append_ok)
next
  case (loop_returned tr1 body tr2 kind orelse)
  then show ?case by simp
next
  case (loop_body_raised tr1 body tr2 e kind orelse)
  then show ?case by simp
next
  case (with_raised tr e body)
  then show ?case by simp
next
  case (with_exit tr1 body tr2 out tr3)
  then show ?case
    by (simp add: propagated_exit)
next
  case (with_exit_raised tr1 body tr2 out tr3 e)
  then show ?case by simp
next
  case (def_ok tr name body)
  then show ?case by simp
next
  case (def_raised tr e name body)
  then show ?case by simp
next
  case (class_raised tr e name body)
  then show ?case by simp
next
  case (class_body tr1 body tr2 out name)
  then show ?case
    by (simp add: propagated_append_ok)
next
  case (try_normal body tr1 orelse tr2 out finalbody tr3 out3 handlers)
  show ?case by simp
next
  case (try_returned body tr1 finalbody tr3 out3 handlers orelse)
  show ?case by simp
next
  case (try_handled body tr1 e handler handlers tr2 out finalbody tr3 out3 orelse)
  show ?case by simp
next
  case (try_unhandled body tr1 e finalbody tr3 out3 handlers orelse)
  show ?case by simp
next
  case block_end
  show ?case by simp
next
  case (block_next s tr1 rest tr2 out)
  then show ?case
    by (simp add: propagated_append_ok)
next
  case (block_returned s tr rest)
  then show ?case by simp
next
  case (block_raised s tr e rest)
  then show ?case by simp
qed

text \<open>The functions defined in a program without handlers are without handlers.\<close>

lemma bodies_of_handler_free:
  "handler_free s \<Longrightarrow> body \<in> set (bodies_of s) \<Longrightarrow> list_all handler_free body"
  by (induction s arbitrary: body) (auto simp add: list_all_iff)

lemma function_bodies_handler_free:
  assumes "list_all (list_all handler_free) notebook"
  shows "\<forall>body\<in>set (function_bodies notebook). list_all handler_free body"
  using assms bodies_of_handler_free
  by (fastforce simp add: function_bodies_def list_all_iff)

lemma propagated_cases:
  assumes "propagated tr out"
  shows "(\<forall>e. out = Raised e \<longrightarrow> Fail e \<in> set tr) \<and>
    ((\<exists>e. Fail e \<in> set tr) \<longrightarrow> (\<exists>e. out = Raised e))"
  using assms by (cases out) (auto simp add: list_all_iff)

lemma skeleton_chapter_01_handler_free: "list_all (list_all handler_free) skeleton_chapter_01"
  by (simp add: skeleton_chapter_01_def)

lemma skeleton_chapter_02_handler_free: "list_all (list_all handler_free) skeleton_chapter_02"
  by (simp add: skeleton_chapter_02_def)

lemma skeleton_chapter_03_handler_free: "list_all (list_all handler_free) skeleton_chapter_03"
  by (simp add: skeleton_chapter_03_def)

lemma skeleton_chapter_04_handler_free: "list_all (list_all handler_free) skeleton_chapter_04"
  by (simp add: skeleton_chapter_04_def)

lemma skeleton_chapter_05_handler_free: "list_all (list_all handler_free) skeleton_chapter_05"
  by (simp add: skeleton_chapter_05_def)

lemma skeleton_chapter_06_handler_free: "list_all (list_all handler_free) skeleton_chapter_06"
  by (simp add: skeleton_chapter_06_def)

lemma skeleton_chapter_07_handler_free: "list_all (list_all handler_free) skeleton_chapter_07"
  by (simp add: skeleton_chapter_07_def)

lemma skeleton_chapter_08_handler_free: "list_all (list_all handler_free) skeleton_chapter_08"
  by (simp add: skeleton_chapter_08_def)

lemma skeleton_chapter_13_handler_free: "list_all (list_all handler_free) skeleton_chapter_13"
  by (simp add: skeleton_chapter_13_def)

lemma skeleton_chapter_15_handler_free: "list_all (list_all handler_free) skeleton_chapter_15"
  by (simp add: skeleton_chapter_15_def)

lemma skeleton_chapter_16_handler_free: "list_all (list_all handler_free) skeleton_chapter_16"
  by (simp add: skeleton_chapter_16_def)

lemma skeleton_chapter_17_handler_free: "list_all (list_all handler_free) skeleton_chapter_17"
  by (simp add: skeleton_chapter_17_def)

lemma skeleton_chapter_19_handler_free: "list_all (list_all handler_free) skeleton_chapter_19"
  by (simp add: skeleton_chapter_19_def)

lemma skeleton_part_000_handler_free: "list_all (list_all handler_free) skeleton_part_000"
  by (simp add: skeleton_part_000_def)

lemma skeleton_part_001_first_handler_free: "list_all (list_all handler_free) skeleton_part_001_first"
  by (simp add: skeleton_part_001_first_def)

lemma skeleton_part_001_second_handler_free: "list_all (list_all handler_free) skeleton_part_001_second"
  by (simp add: skeleton_part_001_second_def)

lemma skeleton_part_002_handler_free: "list_all (list_all handler_free) skeleton_part_002"
  by (simp add: skeleton_part_002_def)

lemma skeleton_part_003_handler_free: "list_all (list_all handler_free) skeleton_part_003"
  by (simp add: skeleton_part_003_def)

lemma skeleton_part_004_handler_free: "list_all (list_all handler_free) skeleton_part_004"
  by (simp add: skeleton_part_004_def)

lemma repository_handler_free:
  assumes "notebook \<in> set repository"
  shows "list_all (list_all handler_free) notebook"
  using assms
  by (auto simp add: repository_def
      skeleton_chapter_01_handler_free skeleton_chapter_02_handler_free
      skeleton_chapter_03_handler_free skeleton_chapter_04_handler_free
      skeleton_chapter_05_handler_free skeleton_chapter_06_handler_free
      skeleton_chapter_07_handler_free skeleton_chapter_08_handler_free
      skeleton_chapter_13_handler_free skeleton_chapter_15_handler_free
      skeleton_chapter_16_handler_free skeleton_chapter_17_handler_free
      skeleton_chapter_19_handler_free skeleton_part_000_handler_free
      skeleton_part_001_first_handler_free skeleton_part_001_second_handler_free
      skeleton_part_002_handler_free skeleton_part_003_handler_free
      skeleton_part_004_handler_free)

text \<open>
  With a handler the property fails: a \<open>try\<close> statement whose body fails and
  whose handler completes ends normally, although its trace has a failure.
\<close>

lemma try_statement_recovers:
  "exec_statement defs (TryStmt [Stmt] [[Stmt]] [] []) [Fail e, Ok] Normal"
proof -
  have body: "exec_block defs [Stmt] [Fail e] (Raised e)"
    by (intro block_raised stmt_raised eval_fail)
  have "exec_block defs [Stmt] ([Ok] @ []) Normal"
    by (intro block_next stmt_ok eval_ok block_end)
  then have handler: "exec_block defs [Stmt] [Ok] Normal"
    by simp
  have "exec_statement defs (TryStmt [Stmt] [[Stmt]] [] []) ([Fail e] @ [Ok] @ [])
      (after_finally Normal Normal)"
    using body _ handler block_end by (rule try_handled) simp
  then show ?thesis
    by simp
qed

text \<open>
  C4. No code cell of any notebook of the repository contains an exception
  handler, in its own statements or in the functions and classes it defines.
  Therefore, however a cell is run and whichever evaluations fail, calls of
  the notebook's functions included: an exception that leaves the cell was
  raised by an evaluation inside it, and whenever an evaluation inside the
  cell fails, the cell ends with an uncaught exception; no run with a failure
  ends normally, that is as a recovered or retried result.
\<close>

theorem no_cell_handles_failures:
  assumes "notebook \<in> set repository" and "cell \<in> set notebook"
    and "exec_block (function_bodies notebook) cell tr out"
  shows "list_all handler_free cell \<and>
    (\<forall>e. out = Raised e \<longrightarrow> Fail e \<in> set tr) \<and>
    ((\<exists>e. Fail e \<in> set tr) \<longrightarrow> (\<exists>e. out = Raised e))"
proof -
  have nb: "list_all (list_all handler_free) notebook"
    using assms(1) by (rule repository_handler_free)
  then have cell: "list_all handler_free cell"
    using assms(2) by (simp add: list_all_iff)
  have "\<forall>body\<in>set (function_bodies notebook). list_all handler_free body"
    using nb by (rule function_bodies_handler_free)
  then have "list_all handler_free cell \<longrightarrow> propagated tr out"
    using assms(3) by (rule handler_free_propagates(3))
  then have "propagated tr out"
    using cell by simp
  then show ?thesis
    using cell propagated_cases by blast
qed

text \<open>
  The cited cell of Chapter 02 defines \<open>fetch_housing_data\<close> and
  \<open>load_housing_data\<close> and calls both. In the run below the download and the
  extraction succeed and \<open>pd.read_csv\<close> in \<open>load_housing_data\<close> fails with
  \<open>FileNotFoundError\<close>: the exception leaves the function and the cell.
\<close>

lemma housing_cell_bodies:
  "[Stmt, Stmt, Stmt, WithStmt [Stmt]] \<in> set (function_bodies skeleton_chapter_02) \<and>
   [Stmt, Return] \<in> set (function_bodies skeleton_chapter_02)"
  by (simp add: function_bodies_def skeleton_chapter_02_def)

lemma exec_single: "exec_statement defs s tr Normal \<Longrightarrow> exec_block defs [s] tr Normal"
  using block_next [of defs s tr "[]" "[]" Normal] block_end [of defs] by simp

lemma exec_simple_ok:
  "exec_block defs rest tr out \<Longrightarrow> exec_block defs (Stmt # rest) (Ok # tr) out"
  using block_next [OF stmt_ok [OF eval_ok], of defs rest tr out] by simp

lemma exec_def_ok:
  "exec_block defs rest tr out \<Longrightarrow> exec_block defs (FunctionDef name body # rest) (Ok # tr) out"
  using block_next [OF def_ok [OF eval_ok], of defs rest tr out name body] by simp

lemma housing_cell_run:
  "exec_block (function_bodies skeleton_chapter_02) (skeleton_chapter_02 ! 1)
     [Ok, Ok, Ok, Ok, Ok, Ok, Ok, Ok, Ok, Ok, Ok, Ok, Ok, Fail FileNotFoundError]
     (Raised FileNotFoundError)"
proof -
  let ?defs = "function_bodies skeleton_chapter_02"
  have fetch_in: "[Stmt, Stmt, Stmt, WithStmt [Stmt]] \<in> set ?defs"
    and load_in: "[Stmt, Return] \<in> set ?defs"
    using housing_cell_bodies by simp_all
  have "exec_block ?defs [Stmt] ([Ok] @ []) Normal"
    by (intro block_next stmt_ok eval_ok block_end)
  then have inner: "exec_block ?defs [Stmt] [Ok] Normal"
    by simp
  have "exec_statement ?defs (WithStmt [Stmt]) ([Ok] @ [Ok] @ [Ok]) Normal"
    using eval_ok inner eval_ok by (rule with_exit)
  then have "exec_statement ?defs (WithStmt [Stmt]) [Ok, Ok, Ok] Normal"
    by simp
  then have "exec_block ?defs [WithStmt [Stmt]] [Ok, Ok, Ok] Normal"
    by (rule exec_single)
  then have fetch_run:
    "exec_block ?defs [Stmt, Stmt, Stmt, WithStmt [Stmt]] [Ok, Ok, Ok, Ok, Ok, Ok] Normal"
    by (intro exec_simple_ok)
  have "eval_expr ?defs ([Ok, Ok, Ok, Ok, Ok, Ok] @ [Ok]) None"
    using fetch_in fetch_run eval_ok by (rule eval_call_normal)
  then have fetch_call: "exec_statement ?defs Stmt ([Ok, Ok, Ok, Ok, Ok, Ok] @ [Ok]) Normal"
    by (rule stmt_ok)
  have "exec_statement ?defs Return [Fail FileNotFoundError] (Raised FileNotFoundError)"
    by (intro return_raised eval_fail)
  then have "exec_block ?defs [Return] [Fail FileNotFoundError] (Raised FileNotFoundError)"
    by (rule block_raised)
  then have load_run:
    "exec_block ?defs [Stmt, Return] [Ok, Fail FileNotFoundError] (Raised FileNotFoundError)"
    by (rule exec_simple_ok)
  have "eval_expr ?defs [Ok, Fail FileNotFoundError] (Some FileNotFoundError)"
    using load_in load_run by (rule eval_call_raised)
  then have "exec_statement ?defs Stmt [Ok, Fail FileNotFoundError] (Raised FileNotFoundError)"
    by (rule stmt_raised)
  then have rest: "exec_block ?defs [Stmt, Stmt] [Ok, Fail FileNotFoundError]
      (Raised FileNotFoundError)"
    by (rule block_raised)
  have "exec_block ?defs (Stmt # [Stmt, Stmt])
      (([Ok, Ok, Ok, Ok, Ok, Ok] @ [Ok]) @ [Ok, Fail FileNotFoundError])
      (Raised FileNotFoundError)"
    using fetch_call rest by (rule block_next)
  then have calls: "exec_block ?defs [Stmt, Stmt, Stmt]
      [Ok, Ok, Ok, Ok, Ok, Ok, Ok, Ok, Fail FileNotFoundError] (Raised FileNotFoundError)"
    by simp
  have "exec_block ?defs
      [Stmt, Stmt, Stmt, FunctionDef ''fetch_housing_data'' [Stmt, Stmt, Stmt, WithStmt [Stmt]],
       FunctionDef ''load_housing_data'' [Stmt, Return], Stmt, Stmt, Stmt]
      [Ok, Ok, Ok, Ok, Ok, Ok, Ok, Ok, Ok, Ok, Ok, Ok, Ok, Fail FileNotFoundError]
      (Raised FileNotFoundError)"
    apply (rule exec_simple_ok)+
    apply (rule exec_def_ok)+
    apply (rule calls)
    done
  moreover have "skeleton_chapter_02 ! 1 =
      [Stmt, Stmt, Stmt, FunctionDef ''fetch_housing_data'' [Stmt, Stmt, Stmt, WithStmt [Stmt]],
       FunctionDef ''load_housing_data'' [Stmt, Return], Stmt, Stmt, Stmt]"
    by (simp add: skeleton_chapter_02_def)
  ultimately show ?thesis
    by simp
qed

theorem no_cell_handles_failures_witness:
  "skeleton_chapter_02 \<in> set repository \<and>
   skeleton_chapter_02 ! 1 \<in> set skeleton_chapter_02 \<and>
   exec_block (function_bodies skeleton_chapter_02) (skeleton_chapter_02 ! 1)
     [Ok, Ok, Ok, Ok, Ok, Ok, Ok, Ok, Ok, Ok, Ok, Ok, Ok, Fail FileNotFoundError]
     (Raised FileNotFoundError) \<and>
   list_all handler_free (skeleton_chapter_02 ! 1) \<and>
   Fail FileNotFoundError \<in>
     set [Ok, Ok, Ok, Ok, Ok, Ok, Ok, Ok, Ok, Ok, Ok, Ok, Ok, Fail FileNotFoundError]"
proof -
  have nb: "skeleton_chapter_02 \<in> set repository"
    by (simp add: repository_def)
  have cell: "skeleton_chapter_02 ! 1 \<in> set skeleton_chapter_02"
    by (rule nth_mem) (simp add: skeleton_chapter_02_def)
  from no_cell_handles_failures [OF nb cell housing_cell_run]
  show ?thesis
    using nb cell housing_cell_run by simp
qed

section \<open>Running a notebook top to bottom: the names its cells use\<close>

text \<open>
  A kernel holds the set of names bound so far; a fresh kernel holds Python's
  built-in names. A top-level statement reads names and binds names: it
  raises \<open>NameError\<close> at the first name it reads, in evaluation order, that is
  not bound, and otherwise binds its targets. (The body of a \<open>def\<close> is not
  evaluated when the function is defined.) A cell is the list of its
  statements, a notebook the list of its code cells; running all cells stops
  at the first exception.
\<close>

record stmt =
  loads :: "string list"
  stores :: "string list"

definition exec_stmt :: "stmt \<Rightarrow> string set \<Rightarrow> py_error + string set" where
  "exec_stmt st env =
     (case List.find (\<lambda>n. n \<notin> env) (loads st) of
        Some n \<Rightarrow> Inl (NameError n)
      | None \<Rightarrow> Inr (env \<union> set (stores st)))"

definition run_cell :: "stmt list \<Rightarrow> string set \<Rightarrow> py_error + string set" where
  "run_cell cell env = for_loop exec_stmt cell env"

definition run_all :: "stmt list list \<Rightarrow> string set \<Rightarrow> py_error + string set" where
  "run_all cells env = for_loop run_cell cells env"

text \<open>The built-in names that the notebooks use.\<close>

definition py_builtins :: "string set" where
  "py_builtins =
     {''print'', ''range'', ''len'', ''open'', ''reversed'', ''zip'', ''enumerate'',
      ''int'', ''float'', ''str'', ''list'', ''dict'', ''tuple'', ''max'', ''min'', ''sum'',
      ''abs'', ''super'', ''isinstance''}"

subsection \<open>The Chapter 11 notebook (\<open>src/unnamed/part_000\<close>)\<close>

text \<open>
  The first code cell:
  \<^verbatim>\<open>
  from tensorflow import keras

  model = keras.Sequential([
      keras.layers.Dense(64, activation='relu', kernel_initializer='he_normal', input_shape=(input_dim,)),
      keras.layers.Dense(32, activation='relu', kernel_initializer='he_normal'),
      keras.layers.Dense(1, activation='sigmoid')
  ])

  model.compile(optimizer='adam', loss='binary_crossentropy', metrics=['accuracy'])
  \<close>
  The call evaluates \<open>keras.Sequential\<close>, then the elements of the list from
  left to right, each with its callee before its arguments.
\<close>

definition cell_weight_initialization :: "stmt list" where
  "cell_weight_initialization =
     [\<lparr>loads = [], stores = [''keras'']\<rparr>,
      \<lparr>loads = [''keras'', ''keras'', ''input_dim'', ''keras'', ''keras''], stores = [''model'']\<rparr>,
      \<lparr>loads = [''model''], stores = []\<rparr>]"

text \<open>
  The cells on batch normalisation, on the optimizer, on dropout and on L2
  regularisation:
  \<^verbatim>\<open>
  model = keras.Sequential([
      keras.layers.Dense(64, activation='relu', input_shape=(input_dim,)),
      keras.layers.BatchNormalization(),
      keras.layers.Dense(32, activation='relu'),
      keras.layers.BatchNormalization(),
      keras.layers.Dense(1, activation='sigmoid')
  ])
  model.compile(optimizer='adam', loss='binary_crossentropy', metrics=['accuracy'])
  \<close>
  \<^verbatim>\<open>
  model.compile(optimizer='adam', loss='binary_crossentropy', metrics=['accuracy'])
  \<close>
  \<^verbatim>\<open>
  model = keras.Sequential([
      keras.layers.Dense(64, activation='relu', input_shape=(input_dim,)),
      keras.layers.Dropout(0.5),
      keras.layers.Dense(32, activation='relu'),
      keras.layers.Dropout(0.5),
      keras.layers.Dense(1, activation='sigmoid')
  ])
  model.compile(optimizer='adam', loss='binary_crossentropy', metrics=['accuracy'])
  \<close>
  \<^verbatim>\<open>
  from tensorflow.keras import regularizers

  model = keras.Sequential([
      keras.layers.Dense(64, activation='relu', input_shape=(input_dim,), kernel_regularizer=regularizers.l2(0.01)),
      keras.layers.Dense(32, activation='relu', kernel_regularizer=regularizers.l2(0.01)),
      keras.layers.Dense(1, activation='sigmoid')
  ])
  model.compile(optimizer='adam', loss='binary_crossentropy', metrics=['accuracy'])
  \<close>
\<close>

definition cell_batch_normalization :: "stmt list" where
  "cell_batch_normalization =
     [\<lparr>loads = [''keras'', ''keras'', ''input_dim'', ''keras'', ''keras'', ''keras'', ''keras''],
       stores = [''model'']\<rparr>,
      \<lparr>loads = [''model''], stores = []\<rparr>]"

definition cell_optimizer :: "stmt list" where
  "cell_optimizer = [\<lparr>loads = [''model''], stores = []\<rparr>]"

definition cell_dropout :: "stmt list" where
  "cell_dropout =
     [\<lparr>loads = [''keras'', ''keras'', ''input_dim'', ''keras'', ''keras'', ''keras'', ''keras''],
       stores = [''model'']\<rparr>,
      \<lparr>loads = [''model''], stores = []\<rparr>]"

definition cell_l2_regularization :: "stmt list" where
  "cell_l2_regularization =
     [\<lparr>loads = [], stores = [''regularizers'']\<rparr>,
      \<lparr>loads = [''keras'', ''keras'', ''input_dim'', ''regularizers'', ''keras'', ''regularizers'',
                ''keras''],
       stores = [''model'']\<rparr>,
      \<lparr>loads = [''model''], stores = []\<rparr>]"

definition chapter11_notebook :: "stmt list list" where
  "chapter11_notebook =
     [cell_weight_initialization, cell_batch_normalization, cell_optimizer, cell_dropout,
      cell_l2_regularization]"

text \<open>
  C1. Run top to bottom in a fresh kernel, the Chapter 11 notebook does not
  succeed: its first code cell raises \<open>NameError\<close> for \<open>input_dim\<close>, which no
  cell or import of the notebook binds. The first cell fails in the same way
  when it is run on its own.
\<close>

theorem chapter11_notebook_name_error:
  "run_all chapter11_notebook py_builtins = Inl (NameError ''input_dim'') \<and>
   run_cell cell_weight_initialization py_builtins = Inl (NameError ''input_dim'') \<and>
   ''input_dim'' \<notin> py_builtins \<union> set (concat (map stores (concat chapter11_notebook)))"
  by (simp add: run_all_def run_cell_def chapter11_notebook_def cell_weight_initialization_def
      cell_batch_normalization_def cell_optimizer_def cell_dropout_def cell_l2_regularization_def
      exec_stmt_def py_builtins_def)

section \<open>Requests for parallel and distributed execution\<close>

text \<open>
  Whether work runs in parallel is decided inside the libraries; what a cell
  contributes is the call it makes. The libraries are therefore parameters,
  and a call hands them its keyword arguments as a list of names and values.
\<close>

datatype py_value = PyNone | PyBool bool | PyInt int

type_synonym kwargs = "(string \<times> py_value) list"

subsection \<open>Chapter 07: ensembles of trees\<close>

text \<open>
  The constructors of scikit-learn's estimators and the methods \<open>fit\<close> and
  \<open>predict\<close>; \<open>fit\<close> returns the fitted estimator.
\<close>

record ('est, 'data) sklearn =
  DecisionTreeClassifier :: "kwargs \<Rightarrow> 'est"
  BaggingClassifier :: "'est \<Rightarrow> kwargs \<Rightarrow> 'est"
  RandomForestClassifier :: "kwargs \<Rightarrow> 'est"
  ExtraTreesClassifier :: "kwargs \<Rightarrow> 'est"
  fit :: "'est \<Rightarrow> 'data \<Rightarrow> 'data \<Rightarrow> 'est"
  predict :: "'est \<Rightarrow> 'data \<Rightarrow> 'data"

text \<open>
  \<^verbatim>\<open>
  bag_clf = BaggingClassifier(
      DecisionTreeClassifier(random_state=42),
      n_estimators=500,
      max_samples=100,
      bootstrap=True,
      n_jobs=-1,
      random_state=42
  )
  bag_clf.fit(X_train, y_train)
  y_pred_bag = bag_clf.predict(X_test)
  \<close>
\<close>

definition bag_clf_cell :: "('est, 'data) sklearn \<Rightarrow> 'data \<Rightarrow> 'data \<Rightarrow> 'data \<Rightarrow> 'est \<times> 'data" where
  "bag_clf_cell sk X_train y_train X_test =
     (let bag_clf = BaggingClassifier sk
            (DecisionTreeClassifier sk [(''random_state'', PyInt 42)])
            [(''n_estimators'', PyInt 500), (''max_samples'', PyInt 100),
             (''bootstrap'', PyBool True), (''n_jobs'', PyInt (- 1)),
             (''random_state'', PyInt 42)];
          bag_clf = fit sk bag_clf X_train y_train;
          y_pred_bag = predict sk bag_clf X_test
      in (bag_clf, y_pred_bag))"

text \<open>
  \<^verbatim>\<open>
  bag_clf_oob = BaggingClassifier(
      DecisionTreeClassifier(random_state=42),
      n_estimators=500,
      bootstrap=True,
      oob_score=True,
      n_jobs=-1,
      random_state=42
  )
  bag_clf_oob.fit(X_train, y_train)
  \<close>
\<close>

definition bag_clf_oob_cell :: "('est, 'data) sklearn \<Rightarrow> 'data \<Rightarrow> 'data \<Rightarrow> 'est" where
  "bag_clf_oob_cell sk X_train y_train =
     (let bag_clf_oob = BaggingClassifier sk
            (DecisionTreeClassifier sk [(''random_state'', PyInt 42)])
            [(''n_estimators'', PyInt 500), (''bootstrap'', PyBool True),
             (''oob_score'', PyBool True), (''n_jobs'', PyInt (- 1)),
             (''random_state'', PyInt 42)]
      in fit sk bag_clf_oob X_train y_train)"

text \<open>
  \<^verbatim>\<open>
  rf_clf = RandomForestClassifier(n_estimators=500, max_leaf_nodes=16, n_jobs=-1, random_state=42)
  rf_clf.fit(X_train, y_train)
  y_pred_rf = rf_clf.predict(X_test)
  \<close>
\<close>

definition rf_clf_cell :: "('est, 'data) sklearn \<Rightarrow> 'data \<Rightarrow> 'data \<Rightarrow> 'data \<Rightarrow> 'est \<times> 'data" where
  "rf_clf_cell sk X_train y_train X_test =
     (let rf_clf = RandomForestClassifier sk
            [(''n_estimators'', PyInt 500), (''max_leaf_nodes'', PyInt 16),
             (''n_jobs'', PyInt (- 1)), (''random_state'', PyInt 42)];
          rf_clf = fit sk rf_clf X_train y_train;
          y_pred_rf = predict sk rf_clf X_test
      in (rf_clf, y_pred_rf))"

text \<open>
  \<^verbatim>\<open>
  et_clf = ExtraTreesClassifier(n_estimators=500, max_leaf_nodes=16, n_jobs=-1, random_state=42)
  et_clf.fit(X_train, y_train)
  y_pred_et = et_clf.predict(X_test)
  \<close>
\<close>

definition et_clf_cell :: "('est, 'data) sklearn \<Rightarrow> 'data \<Rightarrow> 'data \<Rightarrow> 'data \<Rightarrow> 'est \<times> 'data" where
  "et_clf_cell sk X_train y_train X_test =
     (let et_clf = ExtraTreesClassifier sk
            [(''n_estimators'', PyInt 500), (''max_leaf_nodes'', PyInt 16),
             (''n_jobs'', PyInt (- 1)), (''random_state'', PyInt 42)];
          et_clf = fit sk et_clf X_train y_train;
          y_pred_et = predict sk et_clf X_test
      in (et_clf, y_pred_et))"

text \<open>
  The number of parallel jobs that scikit-learn (through joblib) runs for a
  value of \<open>n_jobs\<close> on a machine with \<open>cpu_count\<close> processors: one job when the
  argument is absent or \<open>None\<close>; \<open>n\<close> jobs for a positive \<open>n\<close>; for a negative
  \<open>n\<close>, \<open>cpu_count + 1 + n\<close> jobs (all processors for \<open>-1\<close>), at least one; zero is
  rejected.
\<close>

definition effective_n_jobs :: "int \<Rightarrow> py_value option \<Rightarrow> py_error + int" where
  "effective_n_jobs cpu_count n_jobs =
     (case n_jobs of
        None \<Rightarrow> Inr 1
      | Some PyNone \<Rightarrow> Inr 1
      | Some (PyBool b) \<Rightarrow> Inl ValueError
      | Some (PyInt n) \<Rightarrow>
          (if n = 0 then Inl ValueError
           else if n < 0 then Inr (max (cpu_count + 1 + n) 1)
           else Inr n))"

text \<open>
  A library that only records: an estimator is the list of keyword arguments
  it was constructed with, and \<open>fit\<close> and \<open>predict\<close> do nothing.
\<close>

definition recording_sklearn :: "(kwargs, unit) sklearn" where
  "recording_sklearn =
     \<lparr>DecisionTreeClassifier = (\<lambda>kw. kw),
      BaggingClassifier = (\<lambda>estimator kw. kw),
      RandomForestClassifier = (\<lambda>kw. kw),
      ExtraTreesClassifier = (\<lambda>kw. kw),
      fit = (\<lambda>est X y. est),
      predict = (\<lambda>est X. ())\<rparr>"

subsection \<open>Chapter 13: a dataset of text lines\<close>

text \<open>
  \<^verbatim>\<open>
  file_pattern = "data/file_*.txt"
  dataset = tf.data.Dataset.list_files(file_pattern)

  def read_file(file_path):
      return tf.data.TextLineDataset(file_path)

  dataset = dataset.interleave(
      read_file,
      cycle_length=3,
      num_parallel_calls=tf.data.AUTOTUNE
  )
  \<close>
  \<open>tf.data.AUTOTUNE\<close> is the constant \<open>-1\<close>: the number of parallel calls is
  left to the library. The cell's function \<open>read_file\<close> is \<open>read_file_dataset\<close>
  here.
\<close>

record ('dataset, 'path) tf_data =
  list_files :: "string \<Rightarrow> 'dataset"
  TextLineDataset :: "'path \<Rightarrow> 'dataset"
  interleave :: "'dataset \<Rightarrow> ('path \<Rightarrow> 'dataset) \<Rightarrow> kwargs \<Rightarrow> 'dataset"

definition AUTOTUNE :: int where
  "AUTOTUNE = - 1"

definition read_file_dataset :: "('dataset, 'path) tf_data \<Rightarrow> 'path \<Rightarrow> 'dataset" where
  "read_file_dataset tfd file_path = TextLineDataset tfd file_path"

definition text_line_dataset :: "('dataset, 'path) tf_data \<Rightarrow> 'dataset" where
  "text_line_dataset tfd =
     (let file_pattern = ''data/file_*.txt'';
          dataset = list_files tfd file_pattern
      in interleave tfd dataset (read_file_dataset tfd)
           [(''cycle_length'', PyInt 3), (''num_parallel_calls'', PyInt AUTOTUNE)])"

subsection \<open>Chapter 19: a distribution strategy\<close>

text \<open>
  \<^verbatim>\<open>
  strategy = tf.distribute.MirroredStrategy()
  with strategy.scope():
      model = keras.models.Sequential([
          keras.layers.Flatten(input_shape=[28, 28]),
          keras.layers.Dense(128, activation='relu'),
          keras.layers.Dense(10, activation='softmax')
      ])
      model.compile(loss='sparse_categorical_crossentropy', optimizer='adam', metrics=['accuracy'])
  \<close>
  \<open>MirroredStrategy\<close> asks for training mirrored over all devices of the
  machine. The calls inside the \<open>with\<close> block run in the scope of the strategy,
  which they receive as an argument; outside any scope it would be \<open>None\<close>.
\<close>

datatype layer = Flatten "int list" | Dense int string

record ('strategy, 'model) tf_keras =
  MirroredStrategy :: "'strategy"
  Sequential :: "'strategy option \<Rightarrow> layer list \<Rightarrow> 'model"
  compile :: "'strategy option \<Rightarrow> 'model \<Rightarrow> string \<Rightarrow> string \<Rightarrow> string list \<Rightarrow> 'model"

definition distributed_model_cell :: "('strategy, 'model) tf_keras \<Rightarrow> 'strategy \<times> 'model" where
  "distributed_model_cell tf =
     (let strategy = MirroredStrategy tf;
          scope = Some strategy;
          model = Sequential tf scope
            [Flatten [28, 28], Dense 128 ''relu'', Dense 10 ''softmax''];
          model = compile tf scope model ''sparse_categorical_crossentropy'' ''adam''
            [''accuracy'']
      in (strategy, model))"

subsection \<open>The requests\<close>

text \<open>
  The claim that no cell requests parallel jobs fails. Run against the
  recording library, the random forest cell and the bagging cell of Chapter 07
  construct their estimators with \<open>n_jobs = -1\<close>, which on a machine with 8
  processors are 8 parallel jobs; and the Chapter 13 cell passes
  \<open>num_parallel_calls = -1\<close>.
\<close>

theorem cells_request_parallel_jobs_counterexample:
  "map_of (fst (rf_clf_cell recording_sklearn () () ())) ''n_jobs'' = Some (PyInt (- 1)) \<and>
   effective_n_jobs 8 (map_of (fst (rf_clf_cell recording_sklearn () () ())) ''n_jobs'') = Inr 8 \<and>
   effective_n_jobs 8 (map_of (fst (bag_clf_cell recording_sklearn () () ())) ''n_jobs'') = Inr 8 \<and>
   text_line_dataset
     \<lparr>list_files = (\<lambda>pattern. []), TextLineDataset = (\<lambda>path. []),
      interleave = (\<lambda>dataset f kw. kw)\<rparr> =
     [(''cycle_length'', PyInt 3), (''num_parallel_calls'', PyInt (- 1))]"
  by (simp add: rf_clf_cell_def bag_clf_cell_def recording_sklearn_def effective_n_jobs_def
      text_line_dataset_def AUTOTUNE_def)

text \<open>
  C3. Code cells do request parallel and multi-device execution from the
  libraries. Whatever the library does with it: each of the four ensemble
  cells of Chapter 07 fits an estimator that it constructed with the keyword
  argument \<open>n_jobs = -1\<close>, which by joblib's rule stands for as many parallel
  jobs as the machine has processors; the Chapter 13 cell builds its dataset
  by \<open>interleave\<close> with \<open>num_parallel_calls = tf.data.AUTOTUNE\<close>; and the last
  cell of Chapter 19 creates a \<open>MirroredStrategy\<close> and builds and compiles its
  model in the scope of that strategy.
\<close>

theorem cells_request_parallel_execution:
  "(\<exists>base kw. fst (bag_clf_cell sk X_train y_train X_test) =
        fit sk (BaggingClassifier sk base kw) X_train y_train \<and>
      map_of kw ''n_jobs'' = Some (PyInt (- 1))) \<and>
   (\<exists>base kw. bag_clf_oob_cell sk X_train y_train =
        fit sk (BaggingClassifier sk base kw) X_train y_train \<and>
      map_of kw ''n_jobs'' = Some (PyInt (- 1))) \<and>
   (\<exists>kw. fst (rf_clf_cell sk X_train y_train X_test) =
        fit sk (RandomForestClassifier sk kw) X_train y_train \<and>
      map_of kw ''n_jobs'' = Some (PyInt (- 1))) \<and>
   (\<exists>kw. fst (et_clf_cell sk X_train y_train X_test) =
        fit sk (ExtraTreesClassifier sk kw) X_train y_train \<and>
      map_of kw ''n_jobs'' = Some (PyInt (- 1))) \<and>
   (1 \<le> cpu_count \<longrightarrow> effective_n_jobs cpu_count (Some (PyInt (- 1))) = Inr cpu_count) \<and>
   (\<exists>kw. text_line_dataset tfd =
        interleave tfd (list_files tfd ''data/file_*.txt'') (TextLineDataset tfd) kw \<and>
      map_of kw ''num_parallel_calls'' = Some (PyInt AUTOTUNE)) \<and>
   (\<exists>layers loss optimizer metrics.
      distributed_model_cell tf =
        (MirroredStrategy tf,
         compile tf (Some (MirroredStrategy tf))
           (Sequential tf (Some (MirroredStrategy tf)) layers) loss optimizer metrics))"
proof (intro conjI impI)
  show "\<exists>base kw. fst (bag_clf_cell sk X_train y_train X_test) =
        fit sk (BaggingClassifier sk base kw) X_train y_train \<and>
      map_of kw ''n_jobs'' = Some (PyInt (- 1))"
    unfolding bag_clf_cell_def Let_def fst_conv
    by (intro exI conjI) (rule refl, simp)
next
  show "\<exists>base kw. bag_clf_oob_cell sk X_train y_train =
        fit sk (BaggingClassifier sk base kw) X_train y_train \<and>
      map_of kw ''n_jobs'' = Some (PyInt (- 1))"
    unfolding bag_clf_oob_cell_def Let_def
    by (intro exI conjI) (rule refl, simp)
next
  show "\<exists>kw. fst (rf_clf_cell sk X_train y_train X_test) =
        fit sk (RandomForestClassifier sk kw) X_train y_train \<and>
      map_of kw ''n_jobs'' = Some (PyInt (- 1))"
    unfolding rf_clf_cell_def Let_def fst_conv
    by (intro exI conjI) (rule refl, simp)
next
  show "\<exists>kw. fst (et_clf_cell sk X_train y_train X_test) =
        fit sk (ExtraTreesClassifier sk kw) X_train y_train \<and>
      map_of kw ''n_jobs'' = Some (PyInt (- 1))"
    unfolding et_clf_cell_def Let_def fst_conv
    by (intro exI conjI) (rule refl, simp)
next
  assume "1 \<le> cpu_count"
  then show "effective_n_jobs cpu_count (Some (PyInt (- 1))) = Inr cpu_count"
    by (simp add: effective_n_jobs_def)
next
  have "read_file_dataset tfd = TextLineDataset tfd"
    by (rule ext) (simp add: read_file_dataset_def)
  then show "\<exists>kw. text_line_dataset tfd =
        interleave tfd (list_files tfd ''data/file_*.txt'') (TextLineDataset tfd) kw \<and>
      map_of kw ''num_parallel_calls'' = Some (PyInt AUTOTUNE)"
    unfolding text_line_dataset_def Let_def
    by (intro exI conjI) (simp, simp)
next
  show "\<exists>layers loss optimizer metrics.
      distributed_model_cell tf =
        (MirroredStrategy tf,
         compile tf (Some (MirroredStrategy tf))
           (Sequential tf (Some (MirroredStrategy tf)) layers) loss optimizer metrics)"
    unfolding distributed_model_cell_def Let_def
    by (intro exI) (rule refl)
qed

theorem cells_request_parallel_execution_witness:
  "(1::int) \<le> 8 \<and> effective_n_jobs 8 (Some (PyInt (- 1))) = Inr 8 \<and>
   fst (rf_clf_cell recording_sklearn () () ()) =
     [(''n_estimators'', PyInt 500), (''max_leaf_nodes'', PyInt 16),
      (''n_jobs'', PyInt (- 1)), (''random_state'', PyInt 42)]"
proof -
  have le: "(1::int) \<le> 8"
    by simp
  have "effective_n_jobs 8 (Some (PyInt (- 1))) = Inr 8"
    using le cells_request_parallel_execution [of recording_sklearn "()" "()" "()" 8
        "\<lparr>list_files = (\<lambda>pattern. []), TextLineDataset = (\<lambda>path. []),
          interleave = (\<lambda>dataset f kw. kw)\<rparr>"
        "\<lparr>MirroredStrategy = (), Sequential = (\<lambda>scope layers. scope),
          compile = (\<lambda>scope model loss optimizer metrics. model)\<rparr>"]
    by blast
  then show ?thesis
    by (simp add: rf_clf_cell_def recording_sklearn_def)
qed

end
